theory Spec2Isabelle
  imports Complex_Main
begin

section \<open>Common conventions\<close>

text \<open>
  Python floats are modelled as real numbers (no rounding, no overflow), Python ints as
  \<^typ>\<open>int\<close>. Every \<^verbatim>\<open>raise\<close> of the source, and every exception raised by an
  operation the source calls, is a value \<open>Inl e\<close> of a sum type.
\<close>

datatype error =
    ZeroDivisionError
  | RuntimeError string
  | ValueError string
  | KeyError string
  | TypeError string
  | NotFittedError

section \<open>Drone configuration (backend/src/models/drone\_config.py)\<close>

datatype FrameType = FRAME_X | FRAME_PLUS | FRAME_H | FRAME_CUSTOM

datatype MaterialType = CARBON_FIBER | ALUMINUM | PLASTIC | COMPOSITE

record MotorConfig =
  motor_id :: int
  max_thrust_n :: real
  max_rpm :: int
  motor_weight_kg :: real
  expected_lifetime_hours :: real
  critical_temp_celsius :: real

record ArmConfig =
  arm_id :: int
  length_m :: real
  cross_section_area_m2 :: real
  material :: MaterialType
  thickness_mm :: real
  max_bending_stress_mpa :: real
  fatigue_limit_mpa :: real
  arm_motor_id :: int

record BatteryConfig =
  capacity_mah :: int
  voltage_nominal :: real
  voltage_max :: real
  voltage_min :: real
  chemistry :: string
  cells :: int
  battery_weight_kg :: real
  max_discharge_c :: real
  max_charge_c :: real
  expected_cycle_life :: int

record DroneConfig =
  drone_id :: string
  model_name :: string
  frame_type :: FrameType
  total_weight_kg :: real
  frame_material :: MaterialType
  wheelbase_m :: real
  motors :: "MotorConfig list"
  arms :: "ArmConfig list"
  battery :: "BatteryConfig option"
  drag_coefficient :: real
  frontal_area_m2 :: real
  max_speed_ms :: real
  max_climb_rate_ms :: real
  max_bank_angle_deg :: real
  max_yaw_rate_degs :: real
  max_wind_speed_ms :: real

definition num_motors :: "DroneConfig \<Rightarrow> nat" where
  "num_motors c = length (motors c)"

definition total_max_thrust_n :: "DroneConfig \<Rightarrow> real" where
  "total_max_thrust_n c = sum_list (map max_thrust_n (motors c))"

definition hover_throttle_percent :: "DroneConfig \<Rightarrow> real" where
  "hover_throttle_percent c =
     (if total_max_thrust_n c = 0 then 0
      else (let weight_n = total_weight_kg c * 9.81
            in (weight_n / total_max_thrust_n c) * 100))"

section \<open>Stress calculator (backend/src/processing/stress\_calculator.py)\<close>

text \<open>
  Python's \<^verbatim>\<open>/\<close> on floats raises ZeroDivisionError when the divisor is zero.
\<close>

definition py_div :: "real \<Rightarrow> real \<Rightarrow> error + real" where
  "py_div a b = (if b = 0 then Inl ZeroDivisionError else Inr (a / b))"

record Components =
  comp_motors :: real
  comp_arms :: real
  comp_battery :: real

record StressAssessment =
  overall_stress :: real
  g_stress :: real
  wind_stress :: real
  temperature_stress :: real
  altitude_stress :: real
  motor_stress :: real
  arm_stress :: real
  battery_stress :: real
  components :: Components

definition calculate_g_stress :: "real \<Rightarrow> real" where
  "calculate_g_stress g_force =
     (if g_force \<le> 1.0 then 0.0
      else (let normalized = (g_force - 1.0) / 4.0;
                stress = 100 * (1 - exp (- 3 * normalized))
            in min 100 stress))"

definition calculate_wind_stress :: "DroneConfig \<Rightarrow> real \<Rightarrow> error + real" where
  "calculate_wind_stress c wind_speed =
     (if wind_speed \<le> 0 then Inr 0.0
      else (case py_div wind_speed (max_wind_speed_ms c) of
              Inl e \<Rightarrow> Inl e
            | Inr wind_ratio \<Rightarrow>
                if wind_ratio < 0.5 then Inr (wind_ratio * 40)
                else if wind_ratio < 0.8 then Inr (20 + (wind_ratio - 0.5) * 100)
                else Inr (50 + (wind_ratio - 0.8) * 250)))"

definition calculate_temperature_stress :: "real \<Rightarrow> real" where
  "calculate_temperature_stress temperature =
     (if 15 \<le> temperature \<and> temperature \<le> 35 then 0.0
      else (let stress = (if temperature < 15 then (15 - temperature) * 3
                          else (temperature - 35) * 4)
            in min 100 (max 0 stress)))"

definition calculate_altitude_stress :: "real \<Rightarrow> real" where
  "calculate_altitude_stress altitude =
     (if altitude < 1000 then 0.0
      else (let altitude_km = altitude / 1000.0;
                stress = altitude_km * 5
            in min 50 stress))"

definition calculate_motor_stress :: "DroneConfig \<Rightarrow> real \<Rightarrow> real \<Rightarrow> real" where
  "calculate_motor_stress c g_force temperature =
     (let base_load = hover_throttle_percent c / 100.0;
          g_load = g_force * base_load;
          throttle = min 100 (g_load * 100);
          temp_factor = (if temperature > 30 then 1 + (temperature - 30) * 0.02
                         else if temperature < 10 then 1 + (10 - temperature) * 0.01
                         else 1.0);
          motor_stress = throttle * temp_factor * 0.8
      in min 100 motor_stress)"

definition calculate_arm_stress :: "DroneConfig \<Rightarrow> real \<Rightarrow> error + real" where
  "calculate_arm_stress c g_force =
     (case arms c of
        [] \<Rightarrow> Inr 0.0
      | arm # _ \<Rightarrow>
          (let weight_force = total_weight_kg c * 9.81 * g_force
           in case py_div weight_force (real (num_motors c)) of
                Inl e \<Rightarrow> Inl e
              | Inr force_per_arm \<Rightarrow>
                  (case py_div (force_per_arm * length_m arm)
                               (cross_section_area_m2 arm * 1000000) of
                     Inl e \<Rightarrow> Inl e
                   | Inr bending_stress \<Rightarrow>
                       (case py_div bending_stress (max_bending_stress_mpa arm) of
                          Inl e \<Rightarrow> Inl e
                        | Inr q \<Rightarrow>
                            (let stress_percentage = q * 100
                             in Inr (min 100 (max 0 stress_percentage)))))))"

definition calculate_battery_stress :: "real \<Rightarrow> real" where
  "calculate_battery_stress temperature =
     (if 20 \<le> temperature \<and> temperature \<le> 30 then 0.0
      else (let stress = (if temperature < 20 then (20 - temperature) * 2
                          else (temperature - 30) * 3)
            in min 100 (max 0 stress)))"

definition calculate_flight_stress ::
  "DroneConfig \<Rightarrow> real \<Rightarrow> real \<Rightarrow> real \<Rightarrow> real \<Rightarrow> error + StressAssessment" where
  "calculate_flight_stress c g_force wind_speed air_temperature altitude =
     (let g = calculate_g_stress g_force
      in case calculate_wind_stress c wind_speed of
           Inl e \<Rightarrow> Inl e
         | Inr w \<Rightarrow>
            (let t = calculate_temperature_stress air_temperature;
                 a = calculate_altitude_stress altitude;
                 m = calculate_motor_stress c g_force air_temperature
             in case calculate_arm_stress c g_force of
                  Inl e \<Rightarrow> Inl e
                | Inr r \<Rightarrow>
                   (let b = calculate_battery_stress air_temperature;
                        overall = g * 0.4 + w * 0.2 + t * 0.15 + m * 0.15 + r * 0.1
                    in Inr \<lparr> overall_stress = min 100 (max 0 overall),
                             g_stress = g,
                             wind_stress = w,
                             temperature_stress = t,
                             altitude_stress = a,
                             motor_stress = m,
                             arm_stress = r,
                             battery_stress = b,
                             components = \<lparr> comp_motors = m, comp_arms = r,
                                            comp_battery = b \<rparr> \<rparr>)))"

text \<open>Concrete drone specifications used to evaluate the model.\<close>

definition standard_quadcopter :: DroneConfig where
  \<comment> \<open>the configuration built by scripts/create\_drone\_configs.py\<close>
  "standard_quadcopter =
     (let motor = (\<lambda>i. \<lparr> motor_id = i, max_thrust_n = 20.0, max_rpm = 8000,
                          motor_weight_kg = 0.055, expected_lifetime_hours = 200.0,
                          critical_temp_celsius = 85.0 \<rparr>);
          arm = (\<lambda>i. \<lparr> arm_id = i, length_m = 0.225, cross_section_area_m2 = 0.0001,
                        material = CARBON_FIBER, thickness_mm = 2.0,
                        max_bending_stress_mpa = 600.0, fatigue_limit_mpa = 300.0,
                        arm_motor_id = i \<rparr>)
      in \<lparr> drone_id = ''QUAD_450_01'', model_name = ''Standard 450mm Quadcopter'',
           frame_type = FRAME_X, total_weight_kg = 1.5, frame_material = CARBON_FIBER,
           wheelbase_m = 0.450,
           motors = map motor [1, 2, 3, 4],
           arms = map arm [1, 2, 3, 4],
           battery = Some \<lparr> capacity_mah = 5000, voltage_nominal = 14.8, voltage_max = 16.8,
                             voltage_min = 12.8, chemistry = ''LiPo'', cells = 4,
                             battery_weight_kg = 0.450, max_discharge_c = 50.0,
                             max_charge_c = 5.0, expected_cycle_life = 300 \<rparr>,
           drag_coefficient = 0.6, frontal_area_m2 = 0.09, max_speed_ms = 15.0,
           max_climb_rate_ms = 5.0, max_bank_angle_deg = 45.0, max_yaw_rate_degs = 180.0,
           max_wind_speed_ms = 8.0 \<rparr>)"

definition bare_frame :: DroneConfig where
  \<comment> \<open>a specification with the dataclass defaults: no motors, no arms, no battery\<close>
  "bare_frame =
     \<lparr> drone_id = ''FRAME'', model_name = ''Bare frame'',
       frame_type = FRAME_X, total_weight_kg = 1.5, frame_material = CARBON_FIBER,
       wheelbase_m = 0.450, motors = [], arms = [], battery = None,
       drag_coefficient = 0.6, frontal_area_m2 = 0.1, max_speed_ms = 15.0,
       max_climb_rate_ms = 5.0, max_bank_angle_deg = 45.0, max_yaw_rate_degs = 180.0,
       max_wind_speed_ms = 10.0 \<rparr>"

definition negative_weight_drone :: DroneConfig where
  \<comment> \<open>well-typed but unphysical: the weight is negative, so is the hover throttle\<close>
  "negative_weight_drone =
     \<lparr> drone_id = ''NEG'', model_name = ''Negative weight'',
       frame_type = FRAME_X, total_weight_kg = - 1, frame_material = CARBON_FIBER,
       wheelbase_m = 0.450,
       motors = [\<lparr> motor_id = 1, max_thrust_n = 9.81, max_rpm = 8000,
                   motor_weight_kg = 0.055, expected_lifetime_hours = 200.0,
                   critical_temp_celsius = 85.0 \<rparr>],
       arms = [], battery = None,
       drag_coefficient = 0.6, frontal_area_m2 = 0.1, max_speed_ms = 15.0,
       max_climb_rate_ms = 5.0, max_bank_angle_deg = 45.0, max_yaw_rate_degs = 180.0,
       max_wind_speed_ms = 8.0 \<rparr>"

section \<open>Adaptive path planner (path\_planning.py)\<close>

type_synonym position = "real \<times> real \<times> real"

type_synonym path = "position list"

text \<open>
  \<^verbatim>\<open>np.linspace(start, stop, num)\<close>, as numpy computes it: \<open>num\<close> samples
  \<open>start + i * step\<close> with \<open>step = (stop - start) / (num - 1)\<close>, the last one overwritten
  with \<open>stop\<close>.
\<close>

definition linspace :: "real \<Rightarrow> real \<Rightarrow> nat \<Rightarrow> real list" where
  "linspace start stop num =
     (if num = 0 then []
      else if num = 1 then [start]
      else (let step = (stop - start) / real (num - 1);
                y = map (\<lambda>i. start + real i * step) [0..<num]
            in y[num - 1 := stop]))"

text \<open>\<^verbatim>\<open>np.column_stack([x, y, z])\<close> for three columns of equal length.\<close>

definition column_stack :: "real list \<Rightarrow> real list \<Rightarrow> real list \<Rightarrow> path" where
  "column_stack xs ys zs = map (\<lambda>(x, y, z). (x, y, z)) (zip xs (zip ys zs))"

text \<open>
  Values of the dictionaries the scorer and the planner exchange, and a dictionary with
  string keys.
\<close>

datatype pyval = PStr string | PFloat real | PBool bool | PNone

type_synonym pydict = "string \<rightharpoonup> pyval"

definition dict_get :: "pydict \<Rightarrow> string \<Rightarrow> pyval \<Rightarrow> pyval" where
  \<comment> \<open>\<^verbatim>\<open>d.get(key, default)\<close>\<close>
  "dict_get d k dflt = (case d k of None \<Rightarrow> dflt | Some v \<Rightarrow> v)"

record AdaptivePathPlanner =
  safety_margin :: real
  planner_current_path :: "path option"
  waypoints :: path

definition AdaptivePathPlanner_init :: "real \<Rightarrow> AdaptivePathPlanner" where
  "AdaptivePathPlanner_init margin =
     \<lparr> safety_margin = margin, planner_current_path = None, waypoints = [] \<rparr>"

definition plan_initial_path ::
  "AdaptivePathPlanner \<Rightarrow> position \<Rightarrow> position \<Rightarrow> path \<times> AdaptivePathPlanner" where
  "plan_initial_path pl start end_pos =
     (case (start, end_pos) of ((sx, sy, sz), (ex, ey, ez)) \<Rightarrow>
        (let num_points = 20;
             x = linspace sx ex num_points;
             y = linspace sy ey num_points;
             z = linspace sz ez num_points;
             p = column_stack x y z
         in (p, pl\<lparr> planner_current_path := Some p, waypoints := p \<rparr>)))"

definition emergency_landing_path :: "position \<Rightarrow> path" where
  "emergency_landing_path current_position =
     (case current_position of (x, y, z) \<Rightarrow>
        (let num_points = 10;
             landing_x = x + 5;
             landing_y = y + 5;
             x_path = linspace x landing_x num_points;
             y_path = linspace y landing_y num_points;
             z_path = linspace z 0 num_points
         in column_stack x_path y_path z_path))"

definition conservative_path :: "position \<Rightarrow> position \<Rightarrow> path" where
  "conservative_path current_position destination =
     (case (current_position, destination) of
        ((x_curr, y_curr, z_curr), (x_dest, y_dest, z_dest)) \<Rightarrow>
        (let safe_altitude = min (z_curr * 0.7) z_dest;
             num_points = 25;
             x_path = linspace x_curr x_dest num_points;
             y_path = linspace y_curr y_dest num_points;
             z0 = replicate num_points safe_altitude;
             z1 = z0[0 := z_curr];
             z2 = z1[num_points - 1 := z_dest];
             z3 = linspace z_curr safe_altitude 5 @ drop 5 z2;
             z_path = take (num_points - 5) z3 @ linspace safe_altitude z_dest 5
         in column_stack x_path y_path z_path))"

definition cautious_path :: "position \<Rightarrow> position \<Rightarrow> path" where
  "cautious_path current_position destination =
     (case (current_position, destination) of ((cx, cy, cz), (dx, dy, dz)) \<Rightarrow>
        (let num_points = 30;
             x = linspace cx dx num_points;
             y = linspace cy dy num_points;
             z = linspace cz dz num_points
         in column_stack x y z))"

definition optimal_path :: "position \<Rightarrow> position \<Rightarrow> path" where
  "optimal_path current_position destination =
     (case (current_position, destination) of ((cx, cy, cz), (dx, dy, dz)) \<Rightarrow>
        (let num_points = 20;
             x = linspace cx dx num_points;
             y = linspace cy dy num_points;
             z = linspace cz dz num_points
         in column_stack x y z))"

definition optimize_trajectory :: "position \<Rightarrow> pydict \<Rightarrow> position \<Rightarrow> path" where
  "optimize_trajectory current_position risk_assessment destination =
     (let risk_level = dict_get risk_assessment ''risk_level'' (PStr ''LOW'')
      in if risk_level = PStr ''CRITICAL'' then emergency_landing_path current_position
         else if risk_level = PStr ''HIGH'' then conservative_path current_position destination
         else if risk_level = PStr ''MEDIUM'' then cautious_path current_position destination
         else optimal_path current_position destination)"

definition risk_of_level :: "string \<Rightarrow> pydict" where
  \<comment> \<open>the dictionary \<^verbatim>\<open>{'risk_level': level}\<close> that test\_system.py passes\<close>
  "risk_of_level level = Map.empty(''risk_level'' \<mapsto> PStr level)"

record PathMetrics =
  total_distance :: real
  total_altitude_change :: real
  smoothness :: real
  num_waypoints :: nat

definition diff_axis0 :: "path \<Rightarrow> path" where
  \<comment> \<open>\<^verbatim>\<open>np.diff(path, axis=0)\<close>: each waypoint minus its predecessor\<close>
  "diff_axis0 p =
     map (\<lambda>((x1, y1, z1), (x2, y2, z2)). (x2 - x1, y2 - y1, z2 - z1)) (zip (butlast p) (tl p))"

definition norm3 :: "position \<Rightarrow> real" where
  "norm3 v = (case v of (x, y, z) \<Rightarrow> sqrt (x\<^sup>2 + y\<^sup>2 + z\<^sup>2))"

definition dot3 :: "position \<Rightarrow> position \<Rightarrow> real" where
  "dot3 u v = (case (u, v) of ((x1, y1, z1), (x2, y2, z2)) \<Rightarrow> x1 * x2 + y1 * y2 + z1 * z2)"

definition np_mean :: "real list \<Rightarrow> real" where
  "np_mean xs = sum_list xs / real (length xs)"

definition np_var :: "real list \<Rightarrow> real" where
  \<comment> \<open>the population variance, numpy's default\<close>
  "np_var xs = np_mean (map (\<lambda>x. (x - np_mean xs)\<^sup>2) xs)"

definition calculate_path_metrics :: "path \<Rightarrow> PathMetrics" where
  "calculate_path_metrics p =
     (let vectors = diff_axis0 p;
          distances = map norm3 vectors;
          altitude_changes = map (\<lambda>(x, y, z). \<bar>z\<bar>) vectors;
          smooth =
            (if length p > 2
             then (let angles =
                         map (\<lambda>i. (let cos_angle = dot3 (vectors ! i) (vectors ! (i + 1)) /
                                         (norm3 (vectors ! i) * norm3 (vectors ! (i + 1))
                                            + 1 / 10 ^ 10)
                                    in arccos (min 1 (max (- 1) cos_angle))))
                             [0..<length vectors - 1]
                   in 1.0 / (1.0 + np_var angles))
             else 1.0)
      in \<lparr> total_distance = sum_list distances,
           total_altitude_change = sum_list altitude_changes,
           smoothness = smooth,
           num_waypoints = length p \<rparr>)"

section \<open>Anomaly detector (anomaly\_detection.py)\<close>

text \<open>
  The detector delegates to scikit-learn's StandardScaler and IsolationForest. They are
  not part of the repository, so they are parameters of the model: a fitted scaler has
  type \<open>'s\<close>, a fitted forest has type \<open>'m\<close>, and each library call may raise.
\<close>

record ndarray2d =
  shape0 :: nat
  shape1 :: nat
  cells :: "real list list"

record ('s, 'm) sklearn =
  scaler_fit_transform :: "ndarray2d \<Rightarrow> error + ('s \<times> ndarray2d)"
  scaler_transform :: "'s \<Rightarrow> real list \<Rightarrow> error + real list"
  model_fit :: "ndarray2d \<Rightarrow> error + 'm"
  model_predict :: "'m \<Rightarrow> real list \<Rightarrow> int"
  model_score_samples :: "'m \<Rightarrow> real list \<Rightarrow> real"

record ('s, 'm) AnomalyDetector =
  scaler :: "'s option"
  model :: "'m option"
  is_trained :: bool
  feature_names :: "string list"

definition AnomalyDetector_init :: "('s, 'm) AnomalyDetector" where
  "AnomalyDetector_init =
     \<lparr> scaler = None, model = None, is_trained = False,
       feature_names = [''battery_level'', ''temperature'', ''vibration'',
                        ''altitude'', ''speed'', ''motor_current''] \<rparr>"

text \<open>
  \<open>train\<close> returns the detector as the call leaves it: \<open>Inl\<close> carries the exception and
  the detector at the moment it was raised.
\<close>

definition train ::
  "('s, 'm) sklearn \<Rightarrow> ('s, 'm) AnomalyDetector \<Rightarrow> ndarray2d
     \<Rightarrow> (error \<times> ('s, 'm) AnomalyDetector) + ('s, 'm) AnomalyDetector" where
  "train sk det telemetry_data =
     (if shape1 telemetry_data \<noteq> length (feature_names det)
      then Inl (ValueError ''Expected features mismatch'', det)
      else case scaler_fit_transform sk telemetry_data of
             Inl e \<Rightarrow> Inl (e, det)
           | Inr (s, scaled_data) \<Rightarrow>
               (case model_fit sk scaled_data of
                  Inl e \<Rightarrow> Inl (e, det\<lparr> scaler := Some s \<rparr>)
                | Inr m \<Rightarrow>
                    Inr (det\<lparr> scaler := Some s, model := Some m, is_trained := True \<rparr>)))"

definition predict ::
  "('s, 'm) sklearn \<Rightarrow> ('s, 'm) AnomalyDetector \<Rightarrow> real list \<Rightarrow> error + (int \<times> real)" where
  \<comment> \<open>the sample is one reading, a one-dimensional array that the source reshapes to a row\<close>
  "predict sk det telemetry_sample =
     (if \<not> is_trained det then Inl (RuntimeError ''Model must be trained before prediction'')
      else case (scaler det, model det) of
             (Some s, Some m) \<Rightarrow>
               (case scaler_transform sk s telemetry_sample of
                  Inl e \<Rightarrow> Inl e
                | Inr scaled_sample \<Rightarrow>
                    (let prediction = model_predict sk m scaled_sample;
                         raw_score = - model_score_samples sk m scaled_sample;
                         anomaly_score = 1 / (1 + exp (- raw_score))
                     in Inr (prediction, anomaly_score)))
           | _ \<Rightarrow> Inl NotFittedError)"

definition risk_level_of_score :: "real \<Rightarrow> string" where
  \<comment> \<open>the if/elif chain of \<^verbatim>\<open>detect_failure_risk\<close> (lines 98 to 105)\<close>
  "risk_level_of_score anomaly_score =
     (if anomaly_score < 0.3 then ''LOW''
      else if anomaly_score < 0.6 then ''MEDIUM''
      else if anomaly_score < 0.8 then ''HIGH''
      else ''CRITICAL'')"

definition get_recommendation :: "string \<Rightarrow> real list \<Rightarrow> string" where
  "get_recommendation risk_level telemetry_sample =
     (if risk_level = ''CRITICAL''
        then ''IMMEDIATE ACTION: Land drone immediately and perform maintenance''
      else if risk_level = ''HIGH'' then ''Return to base for inspection''
      else if risk_level = ''MEDIUM'' then ''Monitor closely and reduce flight intensity''
      else ''Continue normal operations'')"

definition detect_failure_risk ::
  "('s, 'm) sklearn \<Rightarrow> ('s, 'm) AnomalyDetector \<Rightarrow> real list \<Rightarrow> error + pydict" where
  "detect_failure_risk sk det telemetry_sample =
     (case predict sk det telemetry_sample of
        Inl e \<Rightarrow> Inl e
      | Inr (prediction, anomaly_score) \<Rightarrow>
          (let risk_level = risk_level_of_score anomaly_score
           in Inr (Map.empty(
                ''is_anomaly'' \<mapsto> PBool (prediction = - 1),
                ''anomaly_score'' \<mapsto> PFloat anomaly_score,
                ''risk_level'' \<mapsto> PStr risk_level,
                ''recommendation'' \<mapsto>
                   PStr (get_recommendation risk_level telemetry_sample)))))"

text \<open>
  A scorer for evaluating the model on concrete inputs: the scaler is the identity, the
  forest calls every sample normal and gives it the raw score 0, so that the anomaly
  score is 1 / (1 + exp 0) = 0.5.
\<close>

definition constant_sklearn :: "(unit, unit) sklearn" where
  "constant_sklearn =
     \<lparr> scaler_fit_transform = (\<lambda>d. Inr ((), d)),
       scaler_transform = (\<lambda>s x. Inr x),
       model_fit = (\<lambda>d. Inr ()),
       model_predict = (\<lambda>m x. 1),
       model_score_samples = (\<lambda>m x. 0) \<rparr>"

section \<open>Digital twin engine (digital\_twin\_engine.py)\<close>

text \<open>A \<^verbatim>\<open>datetime\<close> is its number of microseconds since the epoch.\<close>

type_synonym datetime = int

record CurrentState =
  cs_position :: position
  cs_velocity :: position
  cs_telemetry :: "real list option"
  cs_risk_assessment :: "pydict option"
  cs_current_path :: "path option"

record History =
  h_telemetry :: "real list list"
  h_risk_assessments :: "pydict list"
  h_positions :: "position list"
  h_timestamps :: "datetime list"

record ('s, 'm) DigitalTwinEngine =
  anomaly_detector :: "('s, 'm) AnomalyDetector"
  path_planner :: AdaptivePathPlanner
  current_state :: CurrentState
  history :: History
  is_initialized :: bool
  mission_active :: bool

definition DigitalTwinEngine_init :: "real \<Rightarrow> ('s, 'm) DigitalTwinEngine" where
  "DigitalTwinEngine_init margin =
     \<lparr> anomaly_detector = AnomalyDetector_init,
       path_planner = AdaptivePathPlanner_init margin,
       current_state = \<lparr> cs_position = (0.0, 0.0, 0.0), cs_velocity = (0.0, 0.0, 0.0),
                         cs_telemetry = None, cs_risk_assessment = None,
                         cs_current_path = None \<rparr>,
       history = \<lparr> h_telemetry = [], h_risk_assessments = [], h_positions = [],
                   h_timestamps = [] \<rparr>,
       is_initialized = False,
       mission_active = False \<rparr>"

text \<open>
  Every operation returns its result together with the engine as the call leaves it;
  a raised exception is \<open>Inl\<close> in the first component.
\<close>

definition initialize ::
  "('s, 'm) sklearn \<Rightarrow> ('s, 'm) DigitalTwinEngine \<Rightarrow> ndarray2d
     \<Rightarrow> bool \<times> ('s, 'm) DigitalTwinEngine" where
  "initialize sk eng training_data =
     (case train sk (anomaly_detector eng) training_data of
        Inr det \<Rightarrow> (True, eng\<lparr> anomaly_detector := det, is_initialized := True \<rparr>)
      | Inl (e, det) \<Rightarrow> (False, eng\<lparr> anomaly_detector := det \<rparr>))"

record MissionInfo =
  mi_status :: string
  mi_start_position :: position
  mi_end_position :: position
  mi_initial_path :: path
  mi_path_metrics :: PathMetrics

definition start_mission ::
  "('s, 'm) DigitalTwinEngine \<Rightarrow> position \<Rightarrow> position
     \<Rightarrow> (error + MissionInfo) \<times> ('s, 'm) DigitalTwinEngine" where
  "start_mission eng start_position end_position =
     (if \<not> is_initialized eng
      then (Inl (RuntimeError ''Engine must be initialized before starting mission''), eng)
      else (case plan_initial_path (path_planner eng) start_position end_position of
              (initial_path, pl) \<Rightarrow>
                (let eng' = eng\<lparr> path_planner := pl,
                                 current_state := (current_state eng)
                                    \<lparr> cs_position := start_position,
                                      cs_current_path := Some initial_path \<rparr>,
                                 mission_active := True \<rparr>
                 in (Inr \<lparr> mi_status = ''ACTIVE'',
                           mi_start_position = start_position,
                           mi_end_position = end_position,
                           mi_initial_path = initial_path,
                           mi_path_metrics = calculate_path_metrics initial_path \<rparr>,
                     eng'))))"

text \<open>The response carries the timestamp itself, where the source stores its ISO text.\<close>

record Response =
  r_timestamp :: datetime
  r_position :: position
  r_risk_assessment :: pydict
  r_path_update_required :: bool
  r_new_path :: "path option"

definition dict_index :: "pydict \<Rightarrow> string \<Rightarrow> error + pyval" where
  \<comment> \<open>\<^verbatim>\<open>d[key]\<close>\<close>
  "dict_index d k = (case d k of None \<Rightarrow> Inl (KeyError k) | Some v \<Rightarrow> Inr v)"

definition update_telemetry ::
  "('s, 'm) sklearn \<Rightarrow> ('s, 'm) DigitalTwinEngine \<Rightarrow> datetime \<Rightarrow> real list \<Rightarrow> position
     \<Rightarrow> (error + Response) \<times> ('s, 'm) DigitalTwinEngine" where
  \<comment> \<open>\<open>now\<close> is the value \<^verbatim>\<open>datetime.now()\<close> returns during the call\<close>
  "update_telemetry sk eng now telemetry current_position =
     (if \<not> is_initialized eng then (Inl (RuntimeError ''Engine must be initialized''), eng)
      else case detect_failure_risk sk (anomaly_detector eng) telemetry of
             Inl e \<Rightarrow> (Inl e, eng)
           | Inr risk_assessment \<Rightarrow>
               (let timestamp = now;
                    h = history eng;
                    eng' = eng\<lparr>
                      current_state := (current_state eng)
                        \<lparr> cs_telemetry := Some telemetry,
                          cs_position := current_position,
                          cs_risk_assessment := Some risk_assessment \<rparr>,
                      history := h
                        \<lparr> h_telemetry := h_telemetry h @ [telemetry],
                          h_risk_assessments := h_risk_assessments h @ [risk_assessment],
                          h_positions := h_positions h @ [current_position],
                          h_timestamps := h_timestamps h @ [timestamp] \<rparr> \<rparr>
                in case dict_index risk_assessment ''risk_level'' of
                     Inl e \<Rightarrow> (Inl e, eng')
                   | Inr level \<Rightarrow>
                       (Inr \<lparr> r_timestamp = timestamp,
                               r_position = current_position,
                               r_risk_assessment = risk_assessment,
                               r_path_update_required =
                                 (level \<in> set [PStr ''MEDIUM'', PStr ''HIGH'', PStr ''CRITICAL'']),
                               r_new_path = None \<rparr>,
                        eng')))"

record RiskSummary =
  low_count :: nat
  medium_count :: nat
  high_count :: nat
  critical_count :: nat
  avg_anomaly_score :: real
  max_anomaly_score :: real

record Status =
  st_initialized :: bool
  st_mission_active :: bool
  st_current_position :: position
  st_current_risk :: "pydict option"
  st_total_updates :: nat
  st_risk_summary :: "RiskSummary option"

fun index_all :: "pydict list \<Rightarrow> string \<Rightarrow> error + pyval list" where
  \<comment> \<open>the comprehension \<^verbatim>\<open>[r[key] for r in rs]\<close>\<close>
  "index_all [] k = Inr []"
| "index_all (r # rs) k =
     (case dict_index r k of
        Inl e \<Rightarrow> Inl e
      | Inr v \<Rightarrow> (case index_all rs k of Inl e \<Rightarrow> Inl e | Inr vs \<Rightarrow> Inr (v # vs)))"

fun as_floats :: "pyval list \<Rightarrow> error + real list" where
  \<comment> \<open>numpy's conversion of a list of scores; a string or \<^verbatim>\<open>None\<close> is rejected\<close>
  "as_floats [] = Inr []"
| "as_floats (v # vs) =
     (case (case v of PFloat x \<Rightarrow> Inr x
                    | PBool b \<Rightarrow> Inr (if b then 1 else 0)
                    | _ \<Rightarrow> Inl (TypeError ''anomaly_score'')) of
        Inl e \<Rightarrow> Inl e
      | Inr x \<Rightarrow> (case as_floats vs of Inl e \<Rightarrow> Inl e | Inr xs \<Rightarrow> Inr (x # xs)))"

definition get_system_status :: "('s, 'm) DigitalTwinEngine \<Rightarrow> error + Status" where
  "get_system_status eng =
     (let status = \<lparr> st_initialized = is_initialized eng,
                     st_mission_active = mission_active eng,
                     st_current_position = cs_position (current_state eng),
                     st_current_risk = cs_risk_assessment (current_state eng),
                     st_total_updates = length (h_timestamps (history eng)),
                     st_risk_summary = None \<rparr>;
          rs = h_risk_assessments (history eng)
      in if length rs > 0
         then (case index_all rs ''risk_level'' of
                 Inl e \<Rightarrow> Inl e
               | Inr risk_levels \<Rightarrow>
                   (case index_all rs ''anomaly_score'' of
                      Inl e \<Rightarrow> Inl e
                    | Inr scores \<Rightarrow>
                        (case as_floats scores of
                           Inl e \<Rightarrow> Inl e
                         | Inr anomaly_scores \<Rightarrow>
                             Inr (status\<lparr> st_risk_summary := Some
                               \<lparr> low_count = count_list risk_levels (PStr ''LOW''),
                                 medium_count = count_list risk_levels (PStr ''MEDIUM''),
                                 high_count = count_list risk_levels (PStr ''HIGH''),
                                 critical_count = count_list risk_levels (PStr ''CRITICAL''),
                                 avg_anomaly_score = np_mean anomaly_scores,
                                 max_anomaly_score = Max (set anomaly_scores) \<rparr> \<rparr>))))
         else Inr status)"

record Summary =
  total_telemetry_updates :: nat
  final_position :: position
  final_risk :: "pydict option"
  risk_summary :: "RiskSummary option"

definition stop_mission ::
  "('s, 'm) DigitalTwinEngine \<Rightarrow> (error + Summary) \<times> ('s, 'm) DigitalTwinEngine" where
  "stop_mission eng =
     (let eng' = eng\<lparr> mission_active := False \<rparr>;
          summary = \<lparr> total_telemetry_updates = length (h_timestamps (history eng')),
                      final_position = cs_position (current_state eng'),
                      final_risk = cs_risk_assessment (current_state eng'),
                      risk_summary = None \<rparr>
      in if length (h_risk_assessments (history eng')) > 0
         then (case get_system_status eng' of
                 Inl e \<Rightarrow> (Inl e, eng')
               | Inr status \<Rightarrow> (Inr (summary\<lparr> risk_summary := st_risk_summary status \<rparr>), eng'))
         else (Inr summary, eng'))"

text \<open>A training matrix and a telemetry sample with the six expected features.\<close>

definition demo_training_data :: ndarray2d where
  "demo_training_data =
     \<lparr> shape0 = 2, shape1 = 6,
       cells = [[90, 25, 1, 50, 10, 5], [85, 30, 1.5, 55, 12, 6]] \<rparr>"

definition demo_sample :: "real list" where
  "demo_sample = [88, 27, 1.2, 52, 11, 5.5]"

definition demo_engine :: "(unit, unit) DigitalTwinEngine" where
  \<comment> \<open>a fresh engine after \<^verbatim>\<open>initialize\<close>, no mission started\<close>
  "demo_engine = snd (initialize constant_sklearn (DigitalTwinEngine_init 10.0) demo_training_data)"

definition stopped_engine :: "(unit, unit) DigitalTwinEngine" where
  \<comment> \<open>the engine after a mission was started and stopped\<close>
  "stopped_engine = snd (stop_mission (snd (start_mission demo_engine (0, 0, 50) (100, 100, 50))))"

section \<open>Feature extraction (backend/src/ml/feature\_engineering.py)\<close>

subsection \<open>Floating-point cells\<close>

text \<open>
  A cell of a pandas column is a float: a finite value (a real number here), an infinity
  or NaN, the marker of a missing value. The arithmetic follows IEEE 754 on the special
  values and is exact on the finite ones. A column of Python objects holds no number in
  this program; its cells are the missing ones.
\<close>

datatype fval = Fin real | PInf | NInf | NaN

type_synonym series = "fval list"

definition notna :: "fval \<Rightarrow> bool" where
  "notna x = (x \<noteq> NaN)"

fun fneg :: "fval \<Rightarrow> fval" where
  "fneg (Fin a) = Fin (- a)"
| "fneg PInf = NInf"
| "fneg NInf = PInf"
| "fneg NaN = NaN"

fun fadd :: "fval \<Rightarrow> fval \<Rightarrow> fval" where
  "fadd NaN _ = NaN"
| "fadd _ NaN = NaN"
| "fadd (Fin a) (Fin b) = Fin (a + b)"
| "fadd PInf NInf = NaN"
| "fadd NInf PInf = NaN"
| "fadd PInf _ = PInf"
| "fadd NInf _ = NInf"
| "fadd _ PInf = PInf"
| "fadd _ NInf = NInf"

definition fsub :: "fval \<Rightarrow> fval \<Rightarrow> fval" where
  "fsub x y = fadd x (fneg y)"

definition signed_inf :: "bool \<Rightarrow> fval" where
  "signed_inf positive = (if positive then PInf else NInf)"

fun fmul :: "fval \<Rightarrow> fval \<Rightarrow> fval" where
  "fmul NaN _ = NaN"
| "fmul _ NaN = NaN"
| "fmul (Fin a) (Fin b) = Fin (a * b)"
| "fmul (Fin a) PInf = (if a = 0 then NaN else signed_inf (0 < a))"
| "fmul (Fin a) NInf = (if a = 0 then NaN else signed_inf (a < 0))"
| "fmul PInf (Fin b) = (if b = 0 then NaN else signed_inf (0 < b))"
| "fmul NInf (Fin b) = (if b = 0 then NaN else signed_inf (b < 0))"
| "fmul PInf PInf = PInf"
| "fmul NInf NInf = PInf"
| "fmul PInf NInf = NInf"
| "fmul NInf PInf = NInf"

fun fdiv :: "fval \<Rightarrow> fval \<Rightarrow> fval" where
  "fdiv NaN _ = NaN"
| "fdiv _ NaN = NaN"
| "fdiv (Fin a) (Fin b) =
     (if b \<noteq> 0 then Fin (a / b) else if a = 0 then NaN else signed_inf (0 < a))"
| "fdiv (Fin a) _ = Fin 0"
| "fdiv PInf (Fin b) = signed_inf (0 \<le> b)"
| "fdiv NInf (Fin b) = signed_inf (b < 0)"
| "fdiv _ _ = NaN"

fun fsqrt :: "fval \<Rightarrow> fval" where
  "fsqrt (Fin a) = (if a < 0 then NaN else Fin (sqrt a))"
| "fsqrt PInf = PInf"
| "fsqrt _ = NaN"

definition fsquare :: "fval \<Rightarrow> fval" where
  \<comment> \<open>\<^verbatim>\<open>x ** 2\<close>\<close>
  "fsquare x = fmul x x"

definition of_optional :: "real option \<Rightarrow> fval" where
  \<comment> \<open>the cell of an \<^verbatim>\<open>Optional[float]\<close> field: \<^verbatim>\<open>None\<close> is a missing cell, NaN in a float
      column and \<^verbatim>\<open>None\<close> itself in an object column\<close>
  "of_optional v = (case v of None \<Rightarrow> NaN | Some a \<Rightarrow> Fin a)"

subsection \<open>Series operations of pandas and numpy\<close>

definition s_add :: "series \<Rightarrow> series \<Rightarrow> series" where
  "s_add xs ys = map (\<lambda>(x, y). fadd x y) (zip xs ys)"

definition s_mul :: "series \<Rightarrow> series \<Rightarrow> series" where
  "s_mul xs ys = map (\<lambda>(x, y). fmul x y) (zip xs ys)"

definition s_div :: "series \<Rightarrow> series \<Rightarrow> series" where
  "s_div xs ys = map (\<lambda>(x, y). fdiv x y) (zip xs ys)"

definition s_square :: "series \<Rightarrow> series" where
  "s_square xs = map fsquare xs"

definition s_sqrt :: "series \<Rightarrow> series" where
  "s_sqrt xs = map fsqrt xs"

definition s_scale :: "series \<Rightarrow> real \<Rightarrow> series" where
  \<comment> \<open>multiplication by a scalar\<close>
  "s_scale xs k = map (\<lambda>x. fmul x (Fin k)) xs"

definition s_div_scalar :: "series \<Rightarrow> real \<Rightarrow> series" where
  "s_div_scalar xs k = map (\<lambda>x. fdiv x (Fin k)) xs"

definition fillna :: "fval \<Rightarrow> series \<Rightarrow> series" where
  "fillna v xs = map (\<lambda>x. if notna x then x else v) xs"

definition s_diff :: "series \<Rightarrow> series" where
  \<comment> \<open>\<^verbatim>\<open>Series.diff()\<close>: the first cell is missing\<close>
  "s_diff xs = (case xs of [] \<Rightarrow> []
                | _ # _ \<Rightarrow> NaN # map (\<lambda>(prev, cur). fsub cur prev) (zip (butlast xs) (tl xs)))"

fun ffill_from :: "fval \<Rightarrow> series \<Rightarrow> series" where
  "ffill_from prev [] = []"
| "ffill_from prev (x # xs) =
     (if notna x then x # ffill_from x xs else prev # ffill_from prev xs)"

definition ffill :: "series \<Rightarrow> series" where
  "ffill xs = ffill_from NaN xs"

definition bfill :: "series \<Rightarrow> series" where
  "bfill xs = rev (ffill (rev xs))"

fun cumsum_from :: "fval \<Rightarrow> series \<Rightarrow> series" where
  \<comment> \<open>\<^verbatim>\<open>Series.cumsum()\<close> skips missing cells and leaves them missing\<close>
  "cumsum_from acc [] = []"
| "cumsum_from acc (x # xs) =
     (if notna x then (let a = fadd acc x in a # cumsum_from a xs)
      else NaN # cumsum_from acc xs)"

definition cumsum :: "series \<Rightarrow> series" where
  "cumsum xs = cumsum_from (Fin 0) xs"

definition replace_value :: "fval list \<Rightarrow> fval \<Rightarrow> series \<Rightarrow> series" where
  \<comment> \<open>\<^verbatim>\<open>Series.replace(old, new)\<close>\<close>
  "replace_value olds new xs = map (\<lambda>x. if x \<in> set olds then new else x) xs"

text \<open>
  \<^verbatim>\<open>Series.rolling(window, min_periods)\<close>: pandas rejects a negative window and a
  \<open>min_periods\<close> above the window when the rolling object is built. The window of row
  \<open>i\<close> holds the rows \<open>i - window + 1\<close> to \<open>i\<close>; infinities count as missing; an
  aggregate over fewer than \<open>min_periods\<close> observations is missing.
\<close>

definition window_values :: "nat \<Rightarrow> series \<Rightarrow> nat \<Rightarrow> real list" where
  "window_values w xs i =
     concat (map (\<lambda>x. case x of Fin a \<Rightarrow> [a] | _ \<Rightarrow> []) (drop (i + 1 - w) (take (i + 1) xs)))"

definition rolling ::
  "int \<Rightarrow> nat \<Rightarrow> (real list \<Rightarrow> fval) \<Rightarrow> series \<Rightarrow> error + series" where
  "rolling window min_periods agg xs =
     (if window < 0 then Inl (ValueError ''window must be an integer 0 or greater'')
      else if int min_periods > window then Inl (ValueError ''min_periods must be <= window'')
      else Inr (map (\<lambda>i. (let vals = window_values (nat window) xs i
                           in if length vals < min_periods then NaN else agg vals))
                    [0..<length xs]))"

definition agg_mean :: "real list \<Rightarrow> fval" where
  "agg_mean vals = (if vals = [] then NaN else Fin (sum_list vals / real (length vals)))"

definition agg_std :: "real list \<Rightarrow> fval" where
  \<comment> \<open>the sample standard deviation (one degree of freedom)\<close>
  "agg_std vals =
     (if length vals \<le> 1 then NaN
      else (let m = sum_list vals / real (length vals)
            in Fin (sqrt (sum_list (map (\<lambda>x. (x - m)\<^sup>2) vals) / real (length vals - 1)))))"

definition agg_max :: "real list \<Rightarrow> fval" where
  "agg_max vals = (case vals of [] \<Rightarrow> NaN | v # vs \<Rightarrow> Fin (fold max vs v))"

text \<open>
  \<^verbatim>\<open>interpolate(method='linear', limit_direction='both')\<close>: a missing cell between two
  present ones lies on the line through them (rows equally spaced); leading and trailing
  missing cells take the nearest present value; a column with no present cell is left
  as it is.
\<close>

definition prev_valid :: "series \<Rightarrow> nat \<Rightarrow> nat option" where
  "prev_valid xs i = (case filter (\<lambda>j. notna (xs ! j)) (rev [0..<i]) of
                        [] \<Rightarrow> None | j # _ \<Rightarrow> Some j)"

definition next_valid :: "series \<Rightarrow> nat \<Rightarrow> nat option" where
  "next_valid xs i = (case filter (\<lambda>j. notna (xs ! j)) [Suc i..<length xs] of
                        [] \<Rightarrow> None | j # _ \<Rightarrow> Some j)"

definition interpolate_linear :: "series \<Rightarrow> series" where
  "interpolate_linear xs =
     map (\<lambda>i. if notna (xs ! i) then xs ! i
               else (case (prev_valid xs i, next_valid xs i) of
                       (Some j, Some k) \<Rightarrow>
                          fadd (xs ! j)
                               (fmul (fsub (xs ! k) (xs ! j))
                                     (Fin (real (i - j) / real (k - j))))
                     | (Some j, None) \<Rightarrow> xs ! j
                     | (None, Some k) \<Rightarrow> xs ! k
                     | (None, None) \<Rightarrow> NaN))
         [0..<length xs]"

subsection \<open>Columns and data frames\<close>

text \<open>
  A column has a dtype. pandas stores a column with at least one number as floats
  (numeric) and a column whose every cell is \<^verbatim>\<open>None\<close> as Python objects. Integer columns
  are numeric as well. A data frame is its row index and its named columns in order.
\<close>

datatype dtype = Numeric | Object

type_synonym column = "dtype \<times> series"

definition numeric :: "series \<Rightarrow> column" where
  "numeric xs = (Numeric, xs)"

record DataFrame =
  df_index :: "nat list"
  df_columns :: "(string \<times> column) list"

definition empty_frame :: DataFrame where
  \<comment> \<open>\<^verbatim>\<open>pd.DataFrame()\<close>\<close>
  "empty_frame = \<lparr> df_index = [], df_columns = [] \<rparr>"

definition frame_with_index :: "nat list \<Rightarrow> DataFrame" where
  \<comment> \<open>\<^verbatim>\<open>pd.DataFrame(index=idx)\<close>\<close>
  "frame_with_index idx = \<lparr> df_index = idx, df_columns = [] \<rparr>"

definition nrows :: "DataFrame \<Rightarrow> nat" where
  \<comment> \<open>\<^verbatim>\<open>len(frame)\<close>\<close>
  "nrows f = length (df_index f)"

definition column_names :: "DataFrame \<Rightarrow> string list" where
  "column_names f = map fst (df_columns f)"

definition set_column :: "DataFrame \<Rightarrow> string \<Rightarrow> column \<Rightarrow> DataFrame" where
  \<comment> \<open>\<^verbatim>\<open>frame[name] = values\<close> for values on the frame's own index\<close>
  "set_column f name values =
     (if name \<in> set (column_names f)
      then f\<lparr> df_columns := map (\<lambda>(k, c). if k = name then (k, values) else (k, c))
                                 (df_columns f) \<rparr>
      else f\<lparr> df_columns := df_columns f @ [(name, values)] \<rparr>)"

definition reindex :: "nat list \<Rightarrow> nat list \<Rightarrow> series \<Rightarrow> series" where
  \<comment> \<open>the cells of a column on a new index; a label the column lacks gives a missing cell\<close>
  "reindex old new c =
     map (\<lambda>l. case filter (\<lambda>i. old ! i = l) [0..<length old] of
                 [] \<Rightarrow> NaN
               | i # _ \<Rightarrow> (if i < length c then c ! i else NaN))
         new"

definition concat_axis1 :: "DataFrame \<Rightarrow> DataFrame \<Rightarrow> DataFrame" where
  \<comment> \<open>\<^verbatim>\<open>pd.concat([a, b], axis=1)\<close>: the union of the row labels, columns side by side\<close>
  "concat_axis1 a b =
     (let idx = df_index a @ filter (\<lambda>l. l \<notin> set (df_index a)) (df_index b)
      in \<lparr> df_index = idx,
           df_columns =
             map (\<lambda>(k, d, c). (k, d, reindex (df_index a) idx c)) (df_columns a) @
             map (\<lambda>(k, d, c). (k, d, reindex (df_index b) idx c)) (df_columns b) \<rparr>)"

definition map_columns :: "(column \<Rightarrow> column) \<Rightarrow> DataFrame \<Rightarrow> DataFrame" where
  \<comment> \<open>a column-wise operation such as \<^verbatim>\<open>fillna\<close> on a whole frame\<close>
  "map_columns g f = f\<lparr> df_columns := map (\<lambda>(k, c). (k, g c)) (df_columns f) \<rparr>"

definition bind_err :: "error + 'a \<Rightarrow> ('a \<Rightarrow> error + 'b) \<Rightarrow> error + 'b" where
  \<comment> \<open>sequencing: an exception of the first step ends the function\<close>
  "bind_err r k = (case r of Inl e \<Rightarrow> Inl e | Inr v \<Rightarrow> k v)"

text \<open>
  \<^verbatim>\<open>Series.diff()\<close> subtracts each cell's predecessor from it. On an object column the
  subtraction is Python's, and \<^verbatim>\<open>None - None\<close> raises TypeError; with fewer than two
  rows nothing is subtracted and the result is an object column with a missing cell.
\<close>

definition none_minus_none :: error where
  "none_minus_none = TypeError ''unsupported operand type(s) for -: NoneType and NoneType''"

definition column_diff :: "column \<Rightarrow> error + column" where
  "column_diff c =
     (case c of
        (Numeric, xs) \<Rightarrow> Inr (Numeric, s_diff xs)
      | (Object, xs) \<Rightarrow>
          if 2 \<le> length xs then Inl none_minus_none else Inr (Object, s_diff xs))"

definition diff_rate :: "column \<Rightarrow> series \<Rightarrow> error + column" where
  \<comment> \<open>\<^verbatim>\<open>df[c].diff() / df['time_delta']\<close>; the quotient keeps the dtype of the difference\<close>
  "diff_rate c time_delta =
     bind_err (column_diff c) (\<lambda>(d, xs). Inr (d, s_div xs time_delta))"

definition diff_rates3 ::
  "column \<Rightarrow> column \<Rightarrow> column \<Rightarrow> series \<Rightarrow> error + (column \<times> column \<times> column)" where
  \<comment> \<open>three rates computed one after the other, as the jerk and the attitude rates are\<close>
  "diff_rates3 a b c time_delta =
     bind_err (diff_rate a time_delta) (\<lambda>x.
     bind_err (diff_rate b time_delta) (\<lambda>y.
     bind_err (diff_rate c time_delta) (\<lambda>z. Inr (x, y, z))))"

subsection \<open>Telemetry records and the extractor\<close>

text \<open>
  The fields of \<^verbatim>\<open>TelemetryRecord\<close> (data\_ingestion/log\_parser\_base.py) that the
  extractor reads.
\<close>

record TelemetryRecord =
  timestamp :: datetime
  latitude :: "real option"
  longitude :: "real option"
  altitude :: "real option"
  ground_speed :: "real option"
  vertical_speed :: "real option"
  pitch :: "real option"
  roll :: "real option"
  yaw :: "real option"
  accel_x :: "real option"
  accel_y :: "real option"
  accel_z :: "real option"
  gyro_x :: "real option"
  gyro_y :: "real option"
  gyro_z :: "real option"
  battery_voltage :: "real option"
  battery_current :: "real option"
  battery_remaining :: "real option"
  air_temperature :: "real option"
  wind_speed :: "real option"

record FeatureConfig =
  window_size_seconds :: real
  rolling_window_size :: int
  include_statistical :: bool
  include_frequency :: bool
  include_derivative :: bool
  include_flight_dynamics :: bool
  include_energy_metrics :: bool
  include_stress_indicators :: bool
  fill_method :: string

definition FeatureConfig_default :: FeatureConfig where
  "FeatureConfig_default =
     \<lparr> window_size_seconds = 1.0, rolling_window_size = 10,
       include_statistical = True, include_frequency = True, include_derivative = True,
       include_flight_dynamics = True, include_energy_metrics = True,
       include_stress_indicators = True, fill_method = ''interpolate'' \<rparr>"

text \<open>
  The frame \<^verbatim>\<open>_records_to_dataframe\<close> builds: its columns are fixed, so each is a field.
  \<^verbatim>\<open>pd.DataFrame([])\<close> has no column, and reading its timestamp raises KeyError. The
  column of a field that is \<^verbatim>\<open>None\<close> in every record is an object column; any other
  column is a float column in which \<^verbatim>\<open>None\<close> is a missing cell.
\<close>

record TelemetryFrame =
  tf_index :: "nat list"
  tf_timestamp :: "datetime list"
  tf_accel_x :: column
  tf_accel_y :: column
  tf_accel_z :: column
  tf_gyro_x :: column
  tf_gyro_y :: column
  tf_gyro_z :: column
  tf_latitude :: column
  tf_longitude :: column
  tf_altitude :: column
  tf_ground_speed :: column
  tf_vertical_speed :: column
  tf_roll :: column
  tf_pitch :: column
  tf_yaw :: column
  tf_battery_voltage :: column
  tf_battery_current :: column
  tf_battery_remaining :: column
  tf_wind_speed :: column
  tf_air_temperature :: column
  tf_time_delta :: series

definition total_seconds :: "int \<Rightarrow> fval" where
  \<comment> \<open>a time difference in microseconds, as seconds\<close>
  "total_seconds us = Fin (real_of_int us / 1000000)"

definition timestamp_diff :: "datetime list \<Rightarrow> series" where
  \<comment> \<open>\<^verbatim>\<open>df['timestamp'].diff().dt.total_seconds()\<close>\<close>
  "timestamp_diff ts =
     (case ts of [] \<Rightarrow> []
      | _ # _ \<Rightarrow> NaN # map (\<lambda>(prev, cur). total_seconds (cur - prev)) (zip (butlast ts) (tl ts)))"

definition column_of :: "(TelemetryRecord \<Rightarrow> real option) \<Rightarrow> TelemetryRecord list \<Rightarrow> column" where
  "column_of field records =
     (if list_all (\<lambda>r. field r = None) records then Object else Numeric,
      map (\<lambda>r. of_optional (field r)) records)"

definition records_to_dataframe :: "TelemetryRecord list \<Rightarrow> error + TelemetryFrame" where
  "records_to_dataframe records =
     (if records = [] then Inl (KeyError ''timestamp'')
      else Inr \<lparr> tf_index = [0..<length records],
                 tf_timestamp = map timestamp records,
                 tf_accel_x = column_of accel_x records,
                 tf_accel_y = column_of accel_y records,
                 tf_accel_z = column_of accel_z records,
                 tf_gyro_x = column_of gyro_x records,
                 tf_gyro_y = column_of gyro_y records,
                 tf_gyro_z = column_of gyro_z records,
                 tf_latitude = column_of latitude records,
                 tf_longitude = column_of longitude records,
                 tf_altitude = column_of altitude records,
                 tf_ground_speed = column_of ground_speed records,
                 tf_vertical_speed = column_of vertical_speed records,
                 tf_roll = column_of roll records,
                 tf_pitch = column_of pitch records,
                 tf_yaw = column_of yaw records,
                 tf_battery_voltage = column_of battery_voltage records,
                 tf_battery_current = column_of battery_current records,
                 tf_battery_remaining = column_of battery_remaining records,
                 tf_wind_speed = column_of wind_speed records,
                 tf_air_temperature = column_of air_temperature records,
                 tf_time_delta = timestamp_diff (map timestamp records) \<rparr>)"

definition count_notna :: "column list \<Rightarrow> nat" where
  \<comment> \<open>\<^verbatim>\<open>df[cols].notna().sum().sum()\<close>\<close>
  "count_notna cols = sum_list (map (\<lambda>c. length (filter notna (snd c))) cols)"

definition any_notna :: "column list \<Rightarrow> bool" where
  \<comment> \<open>\<^verbatim>\<open>df[cols].notna().any().any()\<close>\<close>
  "any_notna cols = (\<exists>c \<in> set cols. \<exists>x \<in> set (snd c). notna x)"

definition detect_available_sensors :: "TelemetryFrame \<Rightarrow> string set" where
  "detect_available_sensors df =
     (let threshold = real (length (tf_index df)) * 0.1
      in (if real (count_notna [tf_accel_x df, tf_accel_y df, tf_accel_z df]) > threshold
          then {''imu''} else {}) \<union>
         (if real (count_notna [tf_latitude df, tf_longitude df]) > threshold
          then {''gps''} else {}) \<union>
         (if real (count_notna [tf_roll df, tf_pitch df, tf_yaw df]) > threshold
          then {''attitude''} else {}) \<union>
         (if real (count_notna [tf_battery_voltage df]) > threshold
          then {''battery''} else {}) \<union>
         (if real (count_notna [tf_altitude df]) > threshold
          then {''altitude''} else {}))"

definition extract_time_features :: "TelemetryFrame \<Rightarrow> DataFrame" where
  "extract_time_features df =
     (let f0 = frame_with_index (tf_index df);
          f1 = set_column f0 ''sample_rate_hz''
                 (numeric (map (\<lambda>x. fdiv (Fin 1.0) x)
                               (replace_value [Fin 0] NaN (tf_time_delta df))));
          f2 = (case tf_timestamp df of
                  [] \<Rightarrow> f1
                | start_time # _ \<Rightarrow>
                    set_column f1 ''time_since_start''
                      (numeric (map (\<lambda>t. total_seconds (t - start_time)) (tf_timestamp df))))
      in set_column f2 ''sequence_index''
           (numeric (map (\<lambda>i. Fin (real i)) [0..<length (tf_index df)])))"

definition fillna_zero :: "column \<Rightarrow> series" where
  \<comment> \<open>\<^verbatim>\<open>column.fillna(0)\<close>: the result is numeric, also for an object column\<close>
  "fillna_zero c = fillna (Fin 0) (snd c)"

definition magnitude3 :: "series \<Rightarrow> series \<Rightarrow> series \<Rightarrow> series" where
  \<comment> \<open>\<^verbatim>\<open>np.sqrt(x**2 + y**2 + z**2)\<close>\<close>
  "magnitude3 x y z = s_sqrt (s_add (s_add (s_square x) (s_square y)) (s_square z))"

definition rolling_std_10 :: "column \<Rightarrow> series" where
  \<comment> \<open>\<^verbatim>\<open>rolling(window=10, min_periods=1).std()\<close>, whose window is always accepted;
      the cells are cast to floats, \<^verbatim>\<open>None\<close> to a missing one\<close>
  "rolling_std_10 c =
     map (\<lambda>i. (let vals = window_values 10 (snd c) i
               in if length vals < 1 then NaN else agg_std vals))
         [0..<length (snd c)]"

definition extract_imu_features :: "FeatureConfig \<Rightarrow> TelemetryFrame \<Rightarrow> error + DataFrame" where
  "extract_imu_features config df =
     (let f0 = frame_with_index (tf_index df);
          accel_mag = magnitude3 (fillna_zero (tf_accel_x df)) (fillna_zero (tf_accel_y df))
                                 (fillna_zero (tf_accel_z df));
          f1 = set_column f0 ''g_force'' (numeric (s_div_scalar accel_mag 9.81));
          f2 = set_column f1 ''g_force_x''
                 (numeric (s_div_scalar (fillna_zero (tf_accel_x df)) 9.81));
          f3 = set_column f2 ''g_force_y''
                 (numeric (s_div_scalar (fillna_zero (tf_accel_y df)) 9.81));
          f4 = set_column f3 ''g_force_z''
                 (numeric (s_div_scalar (fillna_zero (tf_accel_z df)) 9.81));
          f5 = (if any_notna [tf_gyro_x df, tf_gyro_y df, tf_gyro_z df]
                then (let gyro_mag = magnitude3 (fillna_zero (tf_gyro_x df))
                                       (fillna_zero (tf_gyro_y df)) (fillna_zero (tf_gyro_z df));
                          a = set_column f4 ''rotation_rate'' (numeric gyro_mag);
                          b = set_column a ''gyro_x_rate'' (numeric (fillna_zero (tf_gyro_x df)));
                          c = set_column b ''gyro_y_rate'' (numeric (fillna_zero (tf_gyro_y df)))
                      in set_column c ''gyro_z_rate'' (numeric (fillna_zero (tf_gyro_z df))))
                else f4);
          vibration = (\<lambda>f. if length (tf_index df) > 10
                           then (let a = set_column f ''vibration_x''
                                           (numeric (rolling_std_10 (tf_accel_x df)));
                                     b = set_column a ''vibration_y''
                                           (numeric (rolling_std_10 (tf_accel_y df)))
                                 in set_column b ''vibration_z''
                                      (numeric (rolling_std_10 (tf_accel_z df))))
                           else f)
      in if include_derivative config
         then bind_err (diff_rates3 (tf_accel_x df) (tf_accel_y df) (tf_accel_z df)
                          (tf_time_delta df))
                (\<lambda>(jerk_x, jerk_y, jerk_z).
                   Inr (vibration
                     (set_column
                        (set_column
                           (set_column (set_column f5 ''jerk_x'' jerk_x) ''jerk_y'' jerk_y)
                           ''jerk_z'' jerk_z)
                        ''jerk_magnitude''
                        (numeric (magnitude3 (fillna_zero jerk_x) (fillna_zero jerk_y)
                                             (fillna_zero jerk_z))))))
         else Inr (vibration f5))"

text \<open>The four blocks of \<^verbatim>\<open>_extract_gps_features\<close>, in the order of the source.\<close>

definition gps_speed_columns :: "TelemetryFrame \<Rightarrow> DataFrame \<Rightarrow> error + DataFrame" where
  "gps_speed_columns df features =
     (if any_notna [tf_ground_speed df]
      then bind_err (diff_rate (tf_ground_speed df) (tf_time_delta df)) (\<lambda>rate.
             Inr (set_column
                    (set_column features ''ground_speed''
                       (numeric (fillna_zero (tf_ground_speed df))))
                    ''speed_change_rate'' rate))
      else Inr features)"

definition gps_altitude_columns :: "TelemetryFrame \<Rightarrow> DataFrame \<Rightarrow> error + DataFrame" where
  "gps_altitude_columns df features =
     (if any_notna [tf_altitude df]
      then bind_err (diff_rate (tf_altitude df) (tf_time_delta df)) (\<lambda>rate.
             Inr (set_column
                    (set_column features ''altitude'' (numeric (fillna_zero (tf_altitude df))))
                    ''altitude_rate'' rate))
      else Inr features)"

definition gps_speed_3d :: "DataFrame \<Rightarrow> DataFrame" where
  "gps_speed_3d features =
     (case (map_of (df_columns features) ''altitude_rate'',
            map_of (df_columns features) ''ground_speed'') of
        (Some altitude_rate, Some speed) \<Rightarrow>
          set_column features ''speed_3d''
            (numeric (s_sqrt (s_add (s_square (snd speed)) (s_square (snd altitude_rate)))))
      | _ \<Rightarrow> features)"

definition gps_distance_columns :: "TelemetryFrame \<Rightarrow> DataFrame \<Rightarrow> error + DataFrame" where
  "gps_distance_columns df features =
     (if (\<exists>(la, lo) \<in> set (zip (snd (tf_latitude df)) (snd (tf_longitude df))).
            notna la \<and> notna lo)
      then bind_err (column_diff (tf_latitude df)) (\<lambda>lat.
           bind_err (column_diff (tf_longitude df)) (\<lambda>lon.
             (let lat_diff = fillna_zero lat;
                  lon_diff = fillna_zero lon;
                  distance_delta =
                    s_scale (s_sqrt (s_add (s_square lat_diff) (s_square lon_diff))) 111000
              in Inr (set_column
                        (set_column features ''distance_delta'' (numeric distance_delta))
                        ''distance_traveled'' (numeric (cumsum distance_delta))))))
      else Inr features)"

definition extract_gps_features :: "TelemetryFrame \<Rightarrow> error + DataFrame" where
  "extract_gps_features df =
     bind_err (gps_speed_columns df (frame_with_index (tf_index df))) (\<lambda>f1.
     bind_err (gps_altitude_columns df f1) (\<lambda>f2.
       gps_distance_columns df (gps_speed_3d f2)))"

definition extract_attitude_features :: "FeatureConfig \<Rightarrow> TelemetryFrame \<Rightarrow> error + DataFrame" where
  "extract_attitude_features config df =
     (let f0 = frame_with_index (tf_index df);
          f1 = set_column f0 ''roll'' (numeric (fillna_zero (tf_roll df)));
          f2 = set_column f1 ''pitch'' (numeric (fillna_zero (tf_pitch df)));
          f3 = set_column f2 ''yaw'' (numeric (fillna_zero (tf_yaw df)));
          tilt = (\<lambda>f. set_column f ''tilt_angle''
                         (numeric (s_sqrt (s_add (s_square (fillna_zero (tf_roll df)))
                                                 (s_square (fillna_zero (tf_pitch df)))))))
      in if include_derivative config
         then bind_err (diff_rates3 (tf_roll df) (tf_pitch df) (tf_yaw df) (tf_time_delta df))
                (\<lambda>(roll_rate, pitch_rate, yaw_rate).
                   Inr (tilt (set_column
                                (set_column (set_column f3 ''roll_rate'' roll_rate)
                                   ''pitch_rate'' pitch_rate)
                                ''yaw_rate'' yaw_rate)))
         else Inr (tilt f3))"

text \<open>The three blocks of \<^verbatim>\<open>_extract_battery_features\<close>.\<close>

definition battery_voltage_columns :: "TelemetryFrame \<Rightarrow> DataFrame \<Rightarrow> error + DataFrame" where
  "battery_voltage_columns df features =
     (if any_notna [tf_battery_voltage df]
      then bind_err (diff_rate (tf_battery_voltage df) (tf_time_delta df)) (\<lambda>rate.
             Inr (set_column
                    (set_column features ''battery_voltage''
                       (numeric (ffill (snd (tf_battery_voltage df)))))
                    ''voltage_drop_rate'' rate))
      else Inr features)"

definition battery_current_columns :: "TelemetryFrame \<Rightarrow> DataFrame \<Rightarrow> DataFrame" where
  "battery_current_columns df features =
     (if any_notna [tf_battery_current df]
      then (let current = fillna_zero (tf_battery_current df);
                a = set_column features ''battery_current'' (numeric current)
            in case map_of (df_columns a) ''battery_voltage'' of
                 Some voltage \<Rightarrow>
                   set_column a ''power_watts'' (numeric (s_mul (snd voltage) current))
               | None \<Rightarrow> a)
      else features)"

definition battery_remaining_column :: "TelemetryFrame \<Rightarrow> DataFrame \<Rightarrow> DataFrame" where
  "battery_remaining_column df features =
     (if any_notna [tf_battery_remaining df]
      then set_column features ''battery_remaining_pct''
             (numeric (ffill (snd (tf_battery_remaining df))))
      else features)"

definition extract_battery_features :: "TelemetryFrame \<Rightarrow> error + DataFrame" where
  "extract_battery_features df =
     bind_err (battery_voltage_columns df (frame_with_index (tf_index df))) (\<lambda>f1.
       Inr (battery_remaining_column df (battery_current_columns df f1)))"

definition extract_motion_features :: "string set \<Rightarrow> TelemetryFrame \<Rightarrow> DataFrame" where
  "extract_motion_features available_sensors df =
     (let f0 = frame_with_index (tf_index df);
          f1 = (if any_notna [tf_ground_speed df]
                then set_column f0 ''kinetic_energy_indicator''
                       (numeric (s_square (fillna_zero (tf_ground_speed df))))
                else f0)
      in if ''imu'' \<in> available_sensors
         then (let g_force = s_div_scalar
                               (magnitude3 (fillna_zero (tf_accel_x df))
                                  (fillna_zero (tf_accel_y df)) (fillna_zero (tf_accel_z df)))
                               9.81
               in if any_notna [tf_gyro_x df, tf_gyro_y df, tf_gyro_z df]
                  then set_column f1 ''maneuver_intensity''
                         (numeric (s_mul g_force
                            (magnitude3 (fillna_zero (tf_gyro_x df)) (fillna_zero (tf_gyro_y df))
                               (fillna_zero (tf_gyro_z df)))))
                  else set_column f1 ''maneuver_intensity'' (numeric g_force))
         else f1)"

subsection \<open>Rolling statistics, missing values and the pipeline\<close>

definition char_lower :: "char \<Rightarrow> char" where
  "char_lower c = (let n = (of_char c :: nat) in if 65 \<le> n \<and> n \<le> 90 then char_of (n + 32) else c)"

definition lower :: "string \<Rightarrow> string" where
  \<comment> \<open>\<^verbatim>\<open>str.lower()\<close> on ASCII\<close>
  "lower s = map char_lower s"

fun starts_with :: "string \<Rightarrow> string \<Rightarrow> bool" where
  "starts_with s [] = True"
| "starts_with [] (k # ks) = False"
| "starts_with (c # cs) (k # ks) = (c = k \<and> starts_with cs ks)"

fun contains :: "string \<Rightarrow> string \<Rightarrow> bool" where
  \<comment> \<open>\<^verbatim>\<open>keyword in s\<close>\<close>
  "contains [] keyword = (keyword = [])"
| "contains (c # cs) keyword = (starts_with (c # cs) keyword \<or> contains cs keyword)"

definition numeric_columns :: "DataFrame \<Rightarrow> string list" where
  \<comment> \<open>\<^verbatim>\<open>features.select_dtypes(include=[np.number]).columns\<close>\<close>
  "numeric_columns features =
     map fst (filter (\<lambda>(name, d, cells). d = Numeric) (df_columns features))"

definition key_columns :: "DataFrame \<Rightarrow> string list" where
  \<comment> \<open>\<^verbatim>\<open>key_cols\<close>\<close>
  "key_columns features =
     filter (\<lambda>col. \<exists>keyword \<in> set [''g_force'', ''rotation'', ''speed'', ''altitude'',
                                      ''vibration'', ''jerk'']. contains (lower col) keyword)
            (numeric_columns features)"

fun rolling_columns ::
  "int \<Rightarrow> DataFrame \<Rightarrow> DataFrame \<Rightarrow> string list \<Rightarrow> error + DataFrame" where
  \<comment> \<open>the loop over \<^verbatim>\<open>key_cols[:10]\<close>\<close>
  "rolling_columns window features stat_features [] = Inr stat_features"
| "rolling_columns window features stat_features (col # cols) =
     (case map_of (df_columns features) col of
        None \<Rightarrow> rolling_columns window features stat_features cols
      | Some c \<Rightarrow>
          bind_err (rolling window 1 agg_mean (snd c)) (\<lambda>mean_c.
          bind_err (rolling window 1 agg_std (snd c)) (\<lambda>std_c.
          bind_err (rolling window 1 agg_max (snd c)) (\<lambda>max_c.
            rolling_columns window features
              (set_column
                 (set_column
                    (set_column stat_features (col @ ''_rolling_mean'') (numeric mean_c))
                    (col @ ''_rolling_std'') (numeric std_c))
                 (col @ ''_rolling_max'') (numeric max_c))
              cols))))"

definition extract_statistical_features :: "FeatureConfig \<Rightarrow> DataFrame \<Rightarrow> error + DataFrame" where
  "extract_statistical_features config features =
     (let stat_features = frame_with_index (df_index features);
          window = rolling_window_size config;
          key_cols = key_columns features
      in rolling_columns window features stat_features (take 10 key_cols))"

text \<open>
  The missing-value policy. Linear interpolation leaves an object column as it is;
  \<^verbatim>\<open>fillna(0)\<close> fills it and makes it numeric.
\<close>

definition handle_missing_values :: "FeatureConfig \<Rightarrow> DataFrame \<Rightarrow> DataFrame" where
  "handle_missing_values config features =
     (let f1 = (if fill_method config = ''interpolate''
                  then map_columns (\<lambda>(d, xs). if d = Object then (d, xs)
                                               else (d, interpolate_linear xs)) features
                else if fill_method config = ''forward''
                  then map_columns (\<lambda>(d, xs). (d, bfill xs))
                         (map_columns (\<lambda>(d, xs). (d, ffill xs)) features)
                else if fill_method config = ''zero''
                  then map_columns (\<lambda>c. numeric (fillna_zero c)) features
                else features);
          f2 = map_columns (\<lambda>c. numeric (fillna_zero c)) f1
      in map_columns (\<lambda>(d, xs). (d, replace_value [PInf, NInf] (Fin 0) xs)) f2)"

definition derived_features :: "FeatureConfig \<Rightarrow> TelemetryFrame \<Rightarrow> error + DataFrame" where
  \<comment> \<open>the frame \<^verbatim>\<open>extract_features\<close> has built when it reaches the rolling statistics\<close>
  "derived_features config df =
     (let available_sensors = detect_available_sensors df;
          f0 = empty_frame;
          f1 = concat_axis1 f0 (extract_time_features df)
      in bind_err
           (if ''imu'' \<in> available_sensors
            then bind_err (extract_imu_features config df) (\<lambda>g. Inr (concat_axis1 f1 g))
            else Inr f1) (\<lambda>f2.
         bind_err
           (if ''gps'' \<in> available_sensors
            then bind_err (extract_gps_features df) (\<lambda>g. Inr (concat_axis1 f2 g))
            else Inr f2) (\<lambda>f3.
         bind_err
           (if ''attitude'' \<in> available_sensors
            then bind_err (extract_attitude_features config df) (\<lambda>g. Inr (concat_axis1 f3 g))
            else Inr f3) (\<lambda>f4.
         bind_err
           (if ''battery'' \<in> available_sensors
            then bind_err (extract_battery_features df) (\<lambda>g. Inr (concat_axis1 f4 g))
            else Inr f4) (\<lambda>f5.
         Inr (concat_axis1 f5 (extract_motion_features available_sensors df)))))))"

definition extract_features :: "FeatureConfig \<Rightarrow> TelemetryRecord list \<Rightarrow> error + DataFrame" where
  "extract_features config records =
     bind_err (records_to_dataframe records) (\<lambda>df.
     bind_err (derived_features config df) (\<lambda>features.
       if include_statistical config
       then bind_err (extract_statistical_features config features) (\<lambda>stat.
              Inr (handle_missing_values config (concat_axis1 features stat)))
       else Inr (handle_missing_values config features)))"

text \<open>Shape invariants of frames, and the inputs on which no derivative raises.\<close>

definition aligned :: "nat \<Rightarrow> DataFrame \<Rightarrow> bool" where
  \<comment> \<open>the frame has the row labels 0 to n - 1 and every column has n cells\<close>
  "aligned n f =
     (df_index f = [0..<n] \<and> list_all (\<lambda>(name, d, cells). length cells = n) (df_columns f))"

definition column_aligned :: "nat \<Rightarrow> column \<Rightarrow> bool" where
  \<comment> \<open>n cells, and no present cell in an object column\<close>
  "column_aligned n c = (length (snd c) = n \<and> (fst c = Object \<longrightarrow> \<not> any_notna [c]))"

definition telemetry_aligned :: "nat \<Rightarrow> TelemetryFrame \<Rightarrow> bool" where
  \<comment> \<open>the telemetry frame has the row labels 0 to n - 1 and n cells in every column\<close>
  "telemetry_aligned n df =
     (tf_index df = [0..<n] \<and> length (tf_timestamp df) = n \<and> length (tf_time_delta df) = n \<and>
      list_all (column_aligned n)
        [tf_accel_x df, tf_accel_y df, tf_accel_z df, tf_gyro_x df, tf_gyro_y df, tf_gyro_z df,
         tf_latitude df, tf_longitude df, tf_altitude df, tf_ground_speed df,
         tf_vertical_speed df, tf_roll df, tf_pitch df, tf_yaw df, tf_battery_voltage df,
         tf_battery_current df, tf_battery_remaining df, tf_wind_speed df,
         tf_air_temperature df])"

definition derivatives_defined :: "FeatureConfig \<Rightarrow> TelemetryFrame \<Rightarrow> bool" where
  \<comment> \<open>no \<^verbatim>\<open>diff\<close> of a detected sensor family meets an object column of two or more rows\<close>
  "derivatives_defined config df =
     (\<not> include_derivative config \<or> length (tf_index df) < 2 \<or>
      ((''imu'' \<in> detect_available_sensors df \<longrightarrow>
          Object \<notin> fst ` set [tf_accel_x df, tf_accel_y df, tf_accel_z df]) \<and>
       (''attitude'' \<in> detect_available_sensors df \<longrightarrow>
          Object \<notin> fst ` set [tf_roll df, tf_pitch df, tf_yaw df])))"

definition blank_record :: "datetime \<Rightarrow> TelemetryRecord" where
  \<comment> \<open>\<^verbatim>\<open>TelemetryRecord(timestamp=t)\<close>: every sensor field is \<^verbatim>\<open>None\<close>\<close>
  "blank_record t =
     \<lparr> timestamp = t, latitude = None, longitude = None, altitude = None,
       ground_speed = None, vertical_speed = None, pitch = None, roll = None, yaw = None,
       accel_x = None, accel_y = None, accel_z = None,
       gyro_x = None, gyro_y = None, gyro_z = None,
       battery_voltage = None, battery_current = None, battery_remaining = None,
       air_temperature = None, wind_speed = None \<rparr>"

definition imu_record :: "datetime \<Rightarrow> TelemetryRecord" where
  \<comment> \<open>a record of a drone at rest that reports acceleration only\<close>
  "imu_record t = (blank_record t)\<lparr> accel_x := Some 0, accel_y := Some 0, accel_z := Some 9.81 \<rparr>"

definition yaw_record :: "datetime \<Rightarrow> TelemetryRecord" where
  \<comment> \<open>a record with a heading only, as data\_ingestion/surveilldrone\_parser.py builds\<close>
  "yaw_record t = (blank_record t)\<lparr> yaw := Some 90 \<rparr>"

definition zero_window_config :: FeatureConfig where
  "zero_window_config = FeatureConfig_default\<lparr> rolling_window_size := 0 \<rparr>"

section \<open>Properties of the stress calculator\<close>

lemma calculate_g_stress_mono:
  "g1 \<le> g2 \<Longrightarrow> calculate_g_stress g1 \<le> calculate_g_stress g2"
  by (auto simp add: calculate_g_stress_def Let_def min_def)

lemma calculate_g_stress_le_100: "calculate_g_stress g \<le> 100"
  by (simp add: calculate_g_stress_def Let_def)

lemma calculate_g_stress_nonneg: "0 \<le> calculate_g_stress g"
  by (simp add: calculate_g_stress_def Let_def)

lemma temp_factor_pos:
  "0 < (if t > 30 then 1 + (t - 30) * 0.02 else if t < 10 then 1 + (10 - t) * 0.01 else (1.0::real))"
  by (auto intro: add_pos_nonneg)

lemma calculate_motor_stress_mono:
  assumes "0 \<le> hover_throttle_percent c" and "g1 \<le> g2"
  shows "calculate_motor_stress c g1 t \<le> calculate_motor_stress c g2 t"
proof -
  define b where "b = hover_throttle_percent c / 100.0"
  define tf where "tf = (if t > 30 then 1 + (t - 30) * 0.02
                         else if t < 10 then 1 + (10 - t) * 0.01 else (1.0::real))"
  have b: "0 \<le> b" using assms(1) by (simp add: b_def)
  have tf: "0 \<le> tf" using temp_factor_pos [of t] by (simp add: tf_def)
  have "g1 * b \<le> g2 * b" using assms(2) b by (rule mult_right_mono)
  then have "g1 * b * 100 \<le> g2 * b * 100" by simp
  then have "min 100 (g1 * b * 100) \<le> min 100 (g2 * b * 100)"
    by (rule min.mono [OF order_refl])
  then have "min 100 (g1 * b * 100) * tf \<le> min 100 (g2 * b * 100) * tf"
    using tf by (rule mult_right_mono)
  then have "min 100 (g1 * b * 100) * tf * 0.8 \<le> min 100 (g2 * b * 100) * tf * 0.8"
    by (rule mult_right_mono) simp
  then have "min 100 (min 100 (g1 * b * 100) * tf * 0.8)
           \<le> min 100 (min 100 (g2 * b * 100) * tf * 0.8)"
    by (rule min.mono [OF order_refl])
  then show ?thesis
    unfolding calculate_motor_stress_def Let_def b_def tf_def .
qed

lemma clamp_scale_mono:
  fixes k :: real
  assumes "0 \<le> g1" and "g1 \<le> g2"
  shows "min 100 (max 0 (k * g1)) \<le> min 100 (max 0 (k * g2))"
proof (cases "0 \<le> k")
  case True
  then have "k * g1 \<le> k * g2" using assms(2) by (rule mult_left_mono [rotated])
  then show ?thesis by (simp add: min_def max_def)
next
  case False
  then have "k * g1 \<le> 0" "k * g2 \<le> 0" using assms
    by (simp_all add: mult_nonpos_nonneg)
  then show ?thesis by (simp add: max_def)
qed

lemma calculate_arm_stress_mono:
  assumes "0 \<le> g1" and "g1 \<le> g2"
    and "calculate_arm_stress c g1 = Inr r1" and "calculate_arm_stress c g2 = Inr r2"
  shows "r1 \<le> r2"
proof (cases "arms c")
  case Nil
  then show ?thesis using assms(3,4) by (simp add: calculate_arm_stress_def)
next
  case (Cons arm rest)
  define k where "k = total_weight_kg c * 9.81 / real (num_motors c) * length_m arm
      / (cross_section_area_m2 arm * 1000000) / max_bending_stress_mpa arm * 100"
  have "r1 = min 100 (max 0 (k * g1))" using assms(3) Cons
    by (auto simp add: calculate_arm_stress_def py_div_def Let_def k_def ac_simps split: if_splits)
  moreover have "r2 = min 100 (max 0 (k * g2))" using assms(4) Cons
    by (auto simp add: calculate_arm_stress_def py_div_def Let_def k_def ac_simps split: if_splits)
  ultimately show ?thesis using clamp_scale_mono [OF assms(1,2)] by simp
qed

lemma calculate_arm_stress_returns:
  "isl (calculate_arm_stress c g1) = isl (calculate_arm_stress c g2)"
  by (auto simp add: calculate_arm_stress_def py_div_def Let_def split: list.splits)


lemma clamp_mono: "(x::real) \<le> y \<Longrightarrow> min 100 (max 0 x) \<le> min 100 (max 0 y)"
  by (simp add: min_def max_def)

lemma hover_standard_quadcopter:
  "hover_throttle_percent standard_quadcopter = 18.39375"
  by (simp add: hover_throttle_percent_def total_max_thrust_n_def standard_quadcopter_def)

lemma arm_standard_quadcopter:
  "calculate_arm_stress standard_quadcopter 1 = Inr (8829 / 6400000)"
  by (simp add: calculate_arm_stress_def standard_quadcopter_def py_div_def num_motors_def)

lemma hover_bare_frame: "hover_throttle_percent bare_frame = 0"
  by (simp add: hover_throttle_percent_def total_max_thrust_n_def bare_frame_def)

lemma hover_negative_weight_drone: "hover_throttle_percent negative_weight_drone = - 100"
  by (simp add: hover_throttle_percent_def total_max_thrust_n_def negative_weight_drone_def)

text \<open>
  Claim C1, as stated, fails: for the standard quadcopter the idle baseline
  (g = 1, no wind, 25 degrees, altitude 0) has overall stress 2.207387953125, not 0,
  because the motor and arm sub-scores are positive at 1 g.
\<close>

theorem idle_baseline_nonzero_counterexample:
  "calculate_flight_stress standard_quadcopter 1 0 25 0 =
     Inr \<lparr> overall_stress = 2.207387953125, g_stress = 0, wind_stress = 0,
           temperature_stress = 0, altitude_stress = 0, motor_stress = 14.715,
           arm_stress = 8829 / 6400000, battery_stress = 0,
           components = \<lparr> comp_motors = 14.715, comp_arms = 8829 / 6400000,
                          comp_battery = 0 \<rparr> \<rparr>"
  by (simp add: calculate_flight_stress_def calculate_g_stress_def calculate_wind_stress_def
      calculate_temperature_stress_def calculate_altitude_stress_def
      calculate_battery_stress_def calculate_motor_stress_def Let_def
      hover_standard_quadcopter arm_standard_quadcopter)

text \<open>
  Claim C1, amended: whenever the idle-baseline call returns an assessment, its G-force,
  wind and temperature sub-scores are 0, its motor sub-score is the hover throttle scaled
  by 0.8 (both capped at 100), and the overall score is 0.15 times the motor sub-score plus
  0.1 times the arm sub-score, clamped to [0, 100]; the overall score is 0 for a
  specification with no arms and zero total maximum thrust.
\<close>

theorem idle_baseline_stress:
  assumes "calculate_flight_stress c 1 0 25 0 = Inr a"
  shows "g_stress a = 0 \<and> wind_stress a = 0 \<and> temperature_stress a = 0 \<and>
         motor_stress a = min 100 (min 100 (hover_throttle_percent c) * 0.8) \<and>
         calculate_arm_stress c 1 = Inr (arm_stress a) \<and>
         overall_stress a = min 100 (max 0 (motor_stress a * 0.15 + arm_stress a * 0.1)) \<and>
         (arms c = [] \<and> total_max_thrust_n c = 0 \<longrightarrow> overall_stress a = 0)"
proof -
  from assms obtain r where r: "calculate_arm_stress c 1 = Inr r"
    and a: "a = \<lparr> overall_stress = min 100 (max 0 (calculate_motor_stress c 1 25 * 0.15 + r * 0.1)),
                   g_stress = 0, wind_stress = 0, temperature_stress = 0, altitude_stress = 0,
                   motor_stress = calculate_motor_stress c 1 25, arm_stress = r,
                   battery_stress = 0,
                   components = \<lparr> comp_motors = calculate_motor_stress c 1 25,
                                  comp_arms = r, comp_battery = 0 \<rparr> \<rparr>"
    by (auto simp add: calculate_flight_stress_def calculate_g_stress_def
        calculate_wind_stress_def calculate_temperature_stress_def
        calculate_altitude_stress_def calculate_battery_stress_def Let_def
        split: sum.splits)
  have m: "calculate_motor_stress c 1 25 = min 100 (min 100 (hover_throttle_percent c) * 0.8)"
    by (simp add: calculate_motor_stress_def Let_def)
  have z: "arms c = [] \<and> total_max_thrust_n c = 0 \<longrightarrow>
           calculate_motor_stress c 1 25 = 0 \<and> r = 0"
    using r by (auto simp add: m hover_throttle_percent_def calculate_arm_stress_def)
  show ?thesis using r m z by (simp add: a)
qed

text \<open>Witness for C1: the bare frame (no motors, no arms) has idle overall stress 0.\<close>

theorem idle_baseline_stress_witness:
  "calculate_flight_stress bare_frame 1 0 25 0 =
     Inr \<lparr> overall_stress = 0, g_stress = 0, wind_stress = 0,
           temperature_stress = 0, altitude_stress = 0, motor_stress = 0,
           arm_stress = 0, battery_stress = 0,
           components = \<lparr> comp_motors = 0, comp_arms = 0, comp_battery = 0 \<rparr> \<rparr>
   \<and> arms bare_frame = [] \<and> total_max_thrust_n bare_frame = 0
   \<and> overall_stress (projr (calculate_flight_stress bare_frame 1 0 25 0)) = 0"
proof -
  have r: "calculate_arm_stress bare_frame 1 = Inr 0"
    by (simp add: calculate_arm_stress_def bare_frame_def)
  have e: "calculate_flight_stress bare_frame 1 0 25 0 =
     Inr \<lparr> overall_stress = 0, g_stress = 0, wind_stress = 0,
           temperature_stress = 0, altitude_stress = 0, motor_stress = 0,
           arm_stress = 0, battery_stress = 0,
           components = \<lparr> comp_motors = 0, comp_arms = 0, comp_battery = 0 \<rparr> \<rparr>"
    by (simp add: calculate_flight_stress_def calculate_g_stress_def calculate_wind_stress_def
        calculate_temperature_stress_def calculate_altitude_stress_def
        calculate_battery_stress_def calculate_motor_stress_def r
        hover_bare_frame Let_def)
  have h: "arms bare_frame = [] \<and> total_max_thrust_n bare_frame = 0"
    by (simp add: bare_frame_def total_max_thrust_n_def)
  from idle_baseline_stress [OF e] h e show ?thesis by simp
qed

text \<open>
  Claim C8, amended: for a drone specification whose hover throttle is not negative, with
  wind speed, air temperature and altitude fixed, if the stress computation returns at
  g1 and 1 \<le> g1 \<le> g2, then it returns at g2 as well and the overall stress score at g1
  is at most the one at g2.
\<close>

theorem stress_monotone_in_g:
  assumes "0 \<le> hover_throttle_percent c" and "1 \<le> g1" and "g1 \<le> g2"
    and "calculate_flight_stress c g1 w t h = Inr a1"
  shows "\<exists>a2. calculate_flight_stress c g2 w t h = Inr a2 \<and>
              overall_stress a1 \<le> overall_stress a2"
proof -
  from assms(4) obtain ws r1 where
    ws: "calculate_wind_stress c w = Inr ws" and
    r1: "calculate_arm_stress c g1 = Inr r1" and
    a1: "overall_stress a1 = min 100 (max 0 (calculate_g_stress g1 * 0.4 + ws * 0.2
           + calculate_temperature_stress t * 0.15 + calculate_motor_stress c g1 t * 0.15
           + r1 * 0.1))"
    by (auto simp add: calculate_flight_stress_def Let_def split: sum.splits)
  from r1 calculate_arm_stress_returns [of c g1 g2] obtain r2 where
    r2: "calculate_arm_stress c g2 = Inr r2"
    by (cases "calculate_arm_stress c g2") auto
  define a2 where "a2 = projr (calculate_flight_stress c g2 w t h)"
  have ret: "calculate_flight_stress c g2 w t h = Inr a2"
    by (simp add: a2_def calculate_flight_stress_def Let_def ws r2)
  have a2: "overall_stress a2 = min 100 (max 0 (calculate_g_stress g2 * 0.4 + ws * 0.2
           + calculate_temperature_stress t * 0.15 + calculate_motor_stress c g2 t * 0.15
           + r2 * 0.1))"
    by (simp add: a2_def calculate_flight_stress_def Let_def ws r2)
  have "calculate_g_stress g1 \<le> calculate_g_stress g2"
    using assms(3) by (rule calculate_g_stress_mono)
  moreover have "calculate_motor_stress c g1 t \<le> calculate_motor_stress c g2 t"
    using assms(1,3) by (rule calculate_motor_stress_mono)
  moreover have "r1 \<le> r2"
    using assms(2,3) r1 r2 by (intro calculate_arm_stress_mono [of g1 g2 c r1 r2]) auto
  ultimately have "calculate_g_stress g1 * 0.4 + ws * 0.2
           + calculate_temperature_stress t * 0.15 + calculate_motor_stress c g1 t * 0.15
           + r1 * 0.1 \<le> calculate_g_stress g2 * 0.4 + ws * 0.2
           + calculate_temperature_stress t * 0.15 + calculate_motor_stress c g2 t * 0.15
           + r2 * 0.1"
    by simp
  then have "overall_stress a1 \<le> overall_stress a2"
    unfolding a1 a2 by (rule clamp_mono)
  with ret show ?thesis by blast
qed


text \<open>Witness for C8: the standard quadcopter at 1 g and 2 g.\<close>

theorem stress_monotone_in_g_witness:
  "0 \<le> hover_throttle_percent standard_quadcopter \<and> (1::real) \<le> 1 \<and> (1::real) \<le> 2 \<and>
   (\<exists>a1 a2. calculate_flight_stress standard_quadcopter 1 0 25 0 = Inr a1 \<and>
            calculate_flight_stress standard_quadcopter 2 0 25 0 = Inr a2 \<and>
            overall_stress a1 \<le> overall_stress a2)"
proof -
  have h: "0 \<le> hover_throttle_percent standard_quadcopter"
    by (simp add: hover_standard_quadcopter)
  have "calculate_arm_stress standard_quadcopter 1 = Inr (8829 / 6400000)"
    by (rule arm_standard_quadcopter)
  then have "\<exists>a1. calculate_flight_stress standard_quadcopter 1 0 25 0 = Inr a1"
    by (simp add: calculate_flight_stress_def calculate_wind_stress_def Let_def)
  then obtain a1 where a1: "calculate_flight_stress standard_quadcopter 1 0 25 0 = Inr a1" ..
  from stress_monotone_in_g [OF h _ _ a1, of 2] h a1 show ?thesis by auto
qed

text \<open>
  Claim C8, as stated for every drone specification, fails: for a specification with a
  negative weight the motor sub-score decreases with g, and the overall stress drops
  from 58 at 1 g to 0 at 10 g (wind 16 m/s, 25 degrees, altitude 0).
\<close>

theorem stress_not_monotone_counterexample:
  "(1::real) \<le> 1 \<and> (1::real) \<le> 10 \<and>
   map_sum id overall_stress (calculate_flight_stress negative_weight_drone 1 16 25 0) = Inr 58 \<and>
   map_sum id overall_stress (calculate_flight_stress negative_weight_drone 10 16 25 0) = Inr 0"
proof -
  have w: "calculate_wind_stress negative_weight_drone 16 = Inr 350"
    by (simp add: calculate_wind_stress_def py_div_def negative_weight_drone_def)
  have r: "calculate_arm_stress negative_weight_drone g = Inr 0" for g
    by (simp add: calculate_arm_stress_def negative_weight_drone_def)
  have m1: "calculate_motor_stress negative_weight_drone 1 25 = - 80"
    by (simp add: calculate_motor_stress_def hover_negative_weight_drone)
  have m10: "calculate_motor_stress negative_weight_drone 10 25 = - 800"
    by (simp add: calculate_motor_stress_def hover_negative_weight_drone)
  have g1: "calculate_g_stress 1 = 0" by (simp add: calculate_g_stress_def)
  have g10: "calculate_g_stress 10 \<le> 100" by (rule calculate_g_stress_le_100)
  have t: "calculate_temperature_stress 25 = 0" by (simp add: calculate_temperature_stress_def)
  have "map_sum id overall_stress (calculate_flight_stress negative_weight_drone 1 16 25 0) = Inr 58"
    by (simp add: calculate_flight_stress_def Let_def w r m1 g1 t)
  moreover have "map_sum id overall_stress (calculate_flight_stress negative_weight_drone 10 16 25 0) = Inr 0"
    using g10 by (simp add: calculate_flight_stress_def Let_def w r m10 t max_def)
  ultimately show ?thesis by simp
qed

text \<open>
  Claim C9, as stated, fails: one degree below the band costs 2, one degree above costs 3,
  so the cold slope is two thirds of the heat slope, not half of it.
\<close>

theorem battery_slopes_counterexample:
  "calculate_battery_stress 20 = 0 \<and> calculate_battery_stress 19 = 2 \<and>
   calculate_battery_stress 30 = 0 \<and> calculate_battery_stress 31 = 3 \<and>
   (2::real) \<noteq> 3 / 2"
  by (simp add: calculate_battery_stress_def)

text \<open>
  Claim C9, amended: battery stress is 0 for every temperature in the band from 20 to 30
  degrees; below 20 it is 2 per degree and above 30 it is 3 per degree, each capped
  at 100.
\<close>

theorem battery_stress_profile:
  "(20 \<le> t \<and> t \<le> 30 \<longrightarrow> calculate_battery_stress t = 0) \<and>
   (t < 20 \<longrightarrow> calculate_battery_stress t = min 100 ((20 - t) * 2)) \<and>
   (30 < t \<longrightarrow> calculate_battery_stress t = min 100 ((t - 30) * 3))"
  by (auto simp add: calculate_battery_stress_def Let_def)

text \<open>Witness for C9: inside the band, on both slopes and at both caps.\<close>

theorem battery_stress_profile_witness:
  "calculate_battery_stress 25 = 0 \<and> calculate_battery_stress 10 = 20 \<and>
   calculate_battery_stress 40 = 30 \<and> calculate_battery_stress (- 40) = 100 \<and>
   calculate_battery_stress 70 = 100"
  using battery_stress_profile [of 25] battery_stress_profile [of 10]
    battery_stress_profile [of 40] battery_stress_profile [of "- 40"]
    battery_stress_profile [of 70]
  by simp

section \<open>Properties of the path planner\<close>

lemma length_linspace: "length (linspace a b n) = n"
  by (simp add: linspace_def Let_def)

lemma linspace_nth:
  assumes "1 < n" and "i < n"
  shows "linspace a b n ! i = a + real i * ((b - a) / real (n - 1))"
proof (cases "i = n - 1")
  case True
  with assms show ?thesis by (simp add: linspace_def Let_def)
next
  case False
  with assms show ?thesis by (simp add: linspace_def Let_def)
qed

lemma length_column_stack:
  "length xs = n \<Longrightarrow> length ys = n \<Longrightarrow> length zs = n \<Longrightarrow> length (column_stack xs ys zs) = n"
  by (simp add: column_stack_def)

lemma column_stack_nth:
  "i < length xs \<Longrightarrow> length ys = length xs \<Longrightarrow> length zs = length xs \<Longrightarrow>
   column_stack xs ys zs ! i = (xs ! i, ys ! i, zs ! i)"
  by (simp add: column_stack_def)

lemma last_linspace: "1 < n \<Longrightarrow> last (linspace a b n) = b"
  by (simp add: linspace_def Let_def last_list_update)

lemma length_emergency_landing_path: "length (emergency_landing_path p) = 10"
  by (cases p) (simp add: emergency_landing_path_def Let_def length_column_stack length_linspace)

lemma emergency_landing_path_nth:
  "i < 10 \<Longrightarrow> emergency_landing_path (x, y, z) ! i =
     (x + real i * (5 / 9), y + real i * (5 / 9), z - real i * (z / 9))"
  by (simp add: emergency_landing_path_def Let_def column_stack_nth length_linspace linspace_nth)

lemma length_optimal_path: "length (optimal_path p d) = 20"
  by (cases p, cases d) (simp add: optimal_path_def Let_def length_column_stack length_linspace)

lemma optimal_path_nth:
  "i < 20 \<Longrightarrow> optimal_path (cx, cy, cz) (dx, dy, dz) ! i =
     (cx + real i * ((dx - cx) / 19), cy + real i * ((dy - cy) / 19),
      cz + real i * ((dz - cz) / 19))"
  by (simp add: optimal_path_def Let_def column_stack_nth length_linspace linspace_nth)

lemma conservative_path_eq:
  "conservative_path (xc, yc, zc) (xd, yd, zd) =
     column_stack (linspace xc xd 25) (linspace yc yd 25)
       (linspace zc (min (zc * 0.7) zd) 5 @ replicate 15 (min (zc * 0.7) zd)
          @ linspace (min (zc * 0.7) zd) zd 5)"
  by (simp add: conservative_path_def Let_def length_linspace drop_update_swap)

lemma length_conservative_path: "length (conservative_path p d) = 25"
  by (cases p, cases d)
     (simp add: conservative_path_eq length_column_stack length_linspace del: min.absorb1 min.absorb2 min.absorb3 min.absorb4)

lemma conservative_z_nth:
  fixes s :: real
  assumes "i < 25"
  shows "(linspace zc s 5 @ replicate 15 s @ linspace s zd 5) ! i =
           (if i < 5 then zc + real i * ((s - zc) / 4)
            else if i < 20 then s
            else s + real (i - 20) * ((zd - s) / 4))"
proof -
  consider "i < 5" | "5 \<le> i" "i < 20" | "20 \<le> i"
    by linarith
  then show ?thesis
  proof cases
    case 1
    then show ?thesis by (simp add: nth_append length_linspace linspace_nth)
  next
    case 2
    then have "i - 5 < 15" by linarith
    with 2 show ?thesis by (simp add: nth_append length_linspace)
  next
    case 3
    with assms have "i - 5 - 15 = i - 20" "i - 20 < 5" "\<not> i - 5 < 15" by linarith+
    with 3 show ?thesis by (simp add: nth_append length_linspace linspace_nth)
  qed
qed

lemma conservative_path_nth:
  assumes "i < 25"
  shows "conservative_path (xc, yc, zc) (xd, yd, zd) ! i =
     (xc + real i * ((xd - xc) / 24), yc + real i * ((yd - yc) / 24),
      (let s = min (zc * 0.7) zd in
         if i < 5 then zc + real i * ((s - zc) / 4)
         else if i < 20 then s
         else s + real (i - 20) * ((zd - s) / 4)))"
  using assms
  by (simp only: conservative_path_eq Let_def)
     (simp add: column_stack_nth length_linspace linspace_nth conservative_z_nth)

text \<open>
  Claim C7: for every current position (x, y, z) and every destination, the CRITICAL-tier
  trajectory has 10 waypoints, starts at the current position, ends at (x + 5, y + 5, 0),
  moves and descends linearly (waypoint i is (x + 5i/9, y + 5i/9, z - iz/9)), and is the
  same for every destination.
\<close>

theorem critical_emergency_landing:
  assumes "ra ''risk_level'' = Some (PStr ''CRITICAL'')"
  shows "optimize_trajectory (x, y, z) ra dest = emergency_landing_path (x, y, z) \<and>
         optimize_trajectory (x, y, z) ra dest = optimize_trajectory (x, y, z) ra dest' \<and>
         length (optimize_trajectory (x, y, z) ra dest) = 10 \<and>
         hd (optimize_trajectory (x, y, z) ra dest) = (x, y, z) \<and>
         last (optimize_trajectory (x, y, z) ra dest) = (x + 5, y + 5, 0) \<and>
         (\<forall>i<10. optimize_trajectory (x, y, z) ra dest ! i =
                   (x + real i * (5 / 9), y + real i * (5 / 9), z - real i * (z / 9)))"
proof -
  have e: "optimize_trajectory (x, y, z) ra d = emergency_landing_path (x, y, z)" for d
    using assms by (simp add: optimize_trajectory_def dict_get_def)
  have l: "length (emergency_landing_path (x, y, z)) = 10"
    by (rule length_emergency_landing_path)
  have ne: "emergency_landing_path (x, y, z) \<noteq> []"
    using l by auto
  have "last (emergency_landing_path (x, y, z)) = emergency_landing_path (x, y, z) ! 9"
    using l by (simp add: last_conv_nth [OF ne])
  then have la: "last (emergency_landing_path (x, y, z)) = (x + 5, y + 5, 0)"
    by (simp add: emergency_landing_path_nth)
  have "hd (emergency_landing_path (x, y, z)) = emergency_landing_path (x, y, z) ! 0"
    by (rule hd_conv_nth [OF ne])
  then have h: "hd (emergency_landing_path (x, y, z)) = (x, y, z)"
    by (simp add: emergency_landing_path_nth)
  show ?thesis
    by (simp add: e l la h emergency_landing_path_nth)
qed

text \<open>Witness for C7: the emergency-landing test of test\_system.py, from (50, 50, 50).\<close>

theorem critical_emergency_landing_witness:
  "risk_of_level ''CRITICAL'' ''risk_level'' = Some (PStr ''CRITICAL'') \<and>
   length (optimize_trajectory (50, 50, 50) (risk_of_level ''CRITICAL'') (100, 100, 50)) = 10 \<and>
   last (optimize_trajectory (50, 50, 50) (risk_of_level ''CRITICAL'') (100, 100, 50)) = (55, 55, 0) \<and>
   optimize_trajectory (50, 50, 50) (risk_of_level ''CRITICAL'') (100, 100, 50) ! 3
     = (50 + 5 / 3, 50 + 5 / 3, 100 / 3) \<and>
   optimize_trajectory (50, 50, 50) (risk_of_level ''CRITICAL'') (100, 100, 50)
     = optimize_trajectory (50, 50, 50) (risk_of_level ''CRITICAL'') (0, 0, 0)"
proof -
  have r: "risk_of_level ''CRITICAL'' ''risk_level'' = Some (PStr ''CRITICAL'')"
    by (simp add: risk_of_level_def)
  note t = critical_emergency_landing [where ra = "risk_of_level ''CRITICAL''" and x = 50
      and y = 50 and z = 50 and dest = "(100, 100, 50)" and dest' = "(0, 0, 0)", OF r]
  from t have len:
    "length (optimize_trajectory (50, 50, 50) (risk_of_level ''CRITICAL'') (100, 100, 50)) = 10"
    by blast
  from t have lst:
    "last (optimize_trajectory (50, 50, 50) (risk_of_level ''CRITICAL'') (100, 100, 50))
       = (50 + 5, 50 + 5, 0)"
    by blast
  from t have "\<forall>i<10. optimize_trajectory (50, 50, 50) (risk_of_level ''CRITICAL'')
       (100, 100, 50) ! i = (50 + real i * (5 / 9), 50 + real i * (5 / 9), 50 - real i * (50 / 9))"
    by blast
  from this [rule_format, of 3] have third:
    "optimize_trajectory (50, 50, 50) (risk_of_level ''CRITICAL'') (100, 100, 50) ! 3
       = (50 + 5 / 3, 50 + 5 / 3, 100 / 3)"
    by simp
  from t have ind:
    "optimize_trajectory (50, 50, 50) (risk_of_level ''CRITICAL'') (100, 100, 50)
       = optimize_trajectory (50, 50, 50) (risk_of_level ''CRITICAL'') (0, 0, 0)"
    by blast
  from lst have lst': 
    "last (optimize_trajectory (50, 50, 50) (risk_of_level ''CRITICAL'') (100, 100, 50))
       = (55, 55, 0)"
    by simp
  show ?thesis
    by (intro conjI r len lst' third ind)
qed

text \<open>
  Claim C10: for every risk assessment whose risk level is not CRITICAL, HIGH or MEDIUM
  (an unrecognized value or a missing key), the optimized trajectory is the one the LOW
  tier receives: the direct interpolation of 20 waypoints from the current position to
  the destination. The planner has no failing branch, so the model is a total function.
\<close>

theorem unrecognized_tier_direct_path:
  assumes "ra ''risk_level'' \<notin> {Some (PStr ''CRITICAL''), Some (PStr ''HIGH''),
                                 Some (PStr ''MEDIUM'')}"
  shows "optimize_trajectory (cx, cy, cz) ra (dx, dy, dz)
           = optimize_trajectory (cx, cy, cz) (risk_of_level ''LOW'') (dx, dy, dz) \<and>
         optimize_trajectory (cx, cy, cz) ra (dx, dy, dz) = optimal_path (cx, cy, cz) (dx, dy, dz) \<and>
         length (optimize_trajectory (cx, cy, cz) ra (dx, dy, dz)) = 20 \<and>
         (\<forall>i<20. optimize_trajectory (cx, cy, cz) ra (dx, dy, dz) ! i =
             (cx + real i * ((dx - cx) / 19), cy + real i * ((dy - cy) / 19),
              cz + real i * ((dz - cz) / 19)))"
proof -
  have a: "optimize_trajectory (cx, cy, cz) ra (dx, dy, dz) = optimal_path (cx, cy, cz) (dx, dy, dz)"
    using assms by (auto simp add: optimize_trajectory_def dict_get_def split: option.splits)
  have b: "optimize_trajectory (cx, cy, cz) (risk_of_level ''LOW'') (dx, dy, dz)
             = optimal_path (cx, cy, cz) (dx, dy, dz)"
    by (simp add: optimize_trajectory_def dict_get_def risk_of_level_def)
  show ?thesis
    by (simp add: a b length_optimal_path optimal_path_nth)
qed

text \<open>Witness for C10: the empty dictionary and the unrecognized tier SEVERE.\<close>

theorem unrecognized_tier_direct_path_witness:
  "Map.empty ''risk_level'' \<notin> {Some (PStr ''CRITICAL''), Some (PStr ''HIGH''), Some (PStr ''MEDIUM'')} \<and>
   risk_of_level ''SEVERE'' ''risk_level''
      \<notin> {Some (PStr ''CRITICAL''), Some (PStr ''HIGH''), Some (PStr ''MEDIUM'')} \<and>
   length (optimize_trajectory (0, 0, 50) Map.empty (100, 80, 50)) = 20 \<and>
   optimize_trajectory (0, 0, 50) Map.empty (100, 80, 50) ! 19 = (100, 80, 50) \<and>
   optimize_trajectory (0, 0, 50) (risk_of_level ''SEVERE'') (100, 80, 50) ! 0 = (0, 0, 50) \<and>
   optimize_trajectory (0, 0, 50) (risk_of_level ''SEVERE'') (100, 80, 50)
     = optimize_trajectory (0, 0, 50) (risk_of_level ''LOW'') (100, 80, 50)"
proof -
  have m: "Map.empty ''risk_level''
      \<notin> {Some (PStr ''CRITICAL''), Some (PStr ''HIGH''), Some (PStr ''MEDIUM'')}"
    by simp
  have u: "risk_of_level ''SEVERE'' ''risk_level''
      \<notin> {Some (PStr ''CRITICAL''), Some (PStr ''HIGH''), Some (PStr ''MEDIUM'')}"
    by (simp add: risk_of_level_def)
  note t1 = unrecognized_tier_direct_path [where ra = Map.empty and cx = 0 and cy = 0
      and cz = 50 and dx = 100 and dy = 80 and dz = 50, OF m]
  note t2 = unrecognized_tier_direct_path [where ra = "risk_of_level ''SEVERE''" and cx = 0
      and cy = 0 and cz = 50 and dx = 100 and dy = 80 and dz = 50, OF u]
  from t1 have len: "length (optimize_trajectory (0, 0, 50) Map.empty (100, 80, 50)) = 20"
    by blast
  from t1 have "\<forall>i<20. optimize_trajectory (0, 0, 50) Map.empty (100, 80, 50) ! i =
      (0 + real i * ((100 - 0) / 19), 0 + real i * ((80 - 0) / 19), 50 + real i * ((50 - 50) / 19))"
    by blast
  from this [rule_format, of 19]
  have lst: "optimize_trajectory (0, 0, 50) Map.empty (100, 80, 50) ! 19 = (100, 80, 50)"
    by simp
  from t2 have "\<forall>i<20. optimize_trajectory (0, 0, 50) (risk_of_level ''SEVERE'') (100, 80, 50) ! i =
      (0 + real i * ((100 - 0) / 19), 0 + real i * ((80 - 0) / 19), 50 + real i * ((50 - 50) / 19))"
    by blast
  from this [rule_format, of 0]
  have fst: "optimize_trajectory (0, 0, 50) (risk_of_level ''SEVERE'') (100, 80, 50) ! 0 = (0, 0, 50)"
    by simp
  from t2 have same: "optimize_trajectory (0, 0, 50) (risk_of_level ''SEVERE'') (100, 80, 50)
     = optimize_trajectory (0, 0, 50) (risk_of_level ''LOW'') (100, 80, 50)"
    by blast
  show ?thesis
    by (intro conjI m u len lst fst same)
qed

text \<open>
  Claim C3, as stated, fails: flying level at altitude 50 to a destination at altitude 50,
  the middle of the HIGH-tier path is at altitude 35, below the destination altitude.
\<close>

theorem high_tier_below_destination_counterexample:
  "optimize_trajectory (0, 0, 50) (risk_of_level ''HIGH'') (100, 80, 50) ! 12 = (50, 40, 35) \<and>
   (35::real) < 50"
  by (simp add: optimize_trajectory_def dict_get_def risk_of_level_def conservative_path_nth)

text \<open>
  Claim C3, amended: the HIGH-tier trajectory has 25 waypoints, linear in x and y; its
  safe altitude is the smaller of 70 percent of the current altitude and the destination
  altitude, so it is never above the destination altitude; waypoints 4 to 20 are at the
  safe altitude, the first five ramp linearly from the current altitude to it and the
  last five ramp linearly from it to the destination altitude.
\<close>

theorem high_tier_conservative_path:
  assumes "ra ''risk_level'' = Some (PStr ''HIGH'')"
  shows "optimize_trajectory (xc, yc, zc) ra (xd, yd, zd)
           = conservative_path (xc, yc, zc) (xd, yd, zd) \<and>
         length (optimize_trajectory (xc, yc, zc) ra (xd, yd, zd)) = 25 \<and>
         min (zc * 0.7) zd \<le> zd \<and>
         (\<forall>i<25. optimize_trajectory (xc, yc, zc) ra (xd, yd, zd) ! i =
            (xc + real i * ((xd - xc) / 24), yc + real i * ((yd - yc) / 24),
             (let s = min (zc * 0.7) zd in
                if i < 5 then zc + real i * ((s - zc) / 4)
                else if i < 20 then s
                else s + real (i - 20) * ((zd - s) / 4))))"
proof -
  have e: "optimize_trajectory (xc, yc, zc) ra (xd, yd, zd)
           = conservative_path (xc, yc, zc) (xd, yd, zd)"
    using assms by (simp add: optimize_trajectory_def dict_get_def)
  show ?thesis
    unfolding e by (simp add: length_conservative_path conservative_path_nth del: min.absorb1 min.absorb2 min.absorb3 min.absorb4)
qed

text \<open>Witness for C3: from altitude 100 to a destination at altitude 80, safe altitude 70.\<close>

theorem high_tier_conservative_path_witness:
  "risk_of_level ''HIGH'' ''risk_level'' = Some (PStr ''HIGH'') \<and>
   length (optimize_trajectory (0, 0, 100) (risk_of_level ''HIGH'') (240, 0, 80)) = 25 \<and>
   optimize_trajectory (0, 0, 100) (risk_of_level ''HIGH'') (240, 0, 80) ! 0 = (0, 0, 100) \<and>
   optimize_trajectory (0, 0, 100) (risk_of_level ''HIGH'') (240, 0, 80) ! 2 = (20, 0, 85) \<and>
   optimize_trajectory (0, 0, 100) (risk_of_level ''HIGH'') (240, 0, 80) ! 12 = (120, 0, 70) \<and>
   optimize_trajectory (0, 0, 100) (risk_of_level ''HIGH'') (240, 0, 80) ! 22 = (220, 0, 75) \<and>
   optimize_trajectory (0, 0, 100) (risk_of_level ''HIGH'') (240, 0, 80) ! 24 = (240, 0, 80)"
proof -
  have r: "risk_of_level ''HIGH'' ''risk_level'' = Some (PStr ''HIGH'')"
    by (simp add: risk_of_level_def)
  note t = high_tier_conservative_path [where ra = "risk_of_level ''HIGH''" and xc = 0
      and yc = 0 and zc = 100 and xd = 240 and yd = 0 and zd = 80, OF r]
  from t have len:
    "length (optimize_trajectory (0, 0, 100) (risk_of_level ''HIGH'') (240, 0, 80)) = 25"
    by blast
  from t have n: "\<forall>i<25. optimize_trajectory (0, 0, 100) (risk_of_level ''HIGH'') (240, 0, 80) ! i =
            (0 + real i * ((240 - 0) / 24), 0 + real i * ((0 - 0) / 24),
             (let s = min (100 * 0.7) 80 in
                if i < 5 then 100 + real i * ((s - 100) / 4)
                else if i < 20 then s
                else s + real (i - 20) * ((80 - s) / 4)))"
    by blast
  from n [rule_format, of 0]
  have p0: "optimize_trajectory (0, 0, 100) (risk_of_level ''HIGH'') (240, 0, 80) ! 0 = (0, 0, 100)"
    by simp
  from n [rule_format, of 2]
  have p2: "optimize_trajectory (0, 0, 100) (risk_of_level ''HIGH'') (240, 0, 80) ! 2 = (20, 0, 85)"
    by simp
  from n [rule_format, of 12]
  have p12: "optimize_trajectory (0, 0, 100) (risk_of_level ''HIGH'') (240, 0, 80) ! 12 = (120, 0, 70)"
    by simp
  from n [rule_format, of 22]
  have p22: "optimize_trajectory (0, 0, 100) (risk_of_level ''HIGH'') (240, 0, 80) ! 22 = (220, 0, 75)"
    by simp
  from n [rule_format, of 24]
  have p24: "optimize_trajectory (0, 0, 100) (risk_of_level ''HIGH'') (240, 0, 80) ! 24 = (240, 0, 80)"
    by simp
  show ?thesis
    by (intro conjI r len p0 p2 p12 p22 p24)
qed

section \<open>Properties of the risk scorer and the engine\<close>

lemma demo_engine_eq:
  "demo_engine = (DigitalTwinEngine_init 10.0)
     \<lparr> anomaly_detector := AnomalyDetector_init
          \<lparr> scaler := Some (), model := Some (), is_trained := True \<rparr>,
       is_initialized := True \<rparr>"
  by (simp add: demo_engine_def initialize_def train_def constant_sklearn_def
      demo_training_data_def DigitalTwinEngine_init_def AnomalyDetector_init_def)

lemma predict_constant:
  "predict constant_sklearn
     (AnomalyDetector_init \<lparr> scaler := Some (), model := Some (), is_trained := True \<rparr>) x
   = Inr (1, 1 / 2)"
  by (simp add: predict_def constant_sklearn_def AnomalyDetector_init_def)

lemma detect_failure_risk_level:
  assumes "detect_failure_risk sk det x = Inr d"
  shows "\<exists>s. d ''risk_level'' = Some (PStr (risk_level_of_score s)) \<and>
             d ''anomaly_score'' = Some (PFloat s)"
  using assms
  by (auto simp add: detect_failure_risk_def Let_def split: sum.splits prod.splits)

lemma detect_constant_level:
  "\<exists>d. detect_failure_risk constant_sklearn (anomaly_detector demo_engine) x = Inr d \<and>
        d ''risk_level'' = Some (PStr ''MEDIUM'')"
  by (simp add: detect_failure_risk_def demo_engine_eq DigitalTwinEngine_init_def
      predict_constant risk_level_of_score_def Let_def)

lemma update_telemetry_success:
  assumes "is_initialized eng"
    and "detect_failure_risk sk (anomaly_detector eng) t = Inr ra"
  shows "\<exists>r e. update_telemetry sk eng now t p = (Inr r, e) \<and>
           r_risk_assessment r = ra \<and>
           r_path_update_required r = (ra ''risk_level'' \<noteq> Some (PStr ''LOW'')) \<and>
           h_timestamps (history e) = h_timestamps (history eng) @ [now] \<and>
           h_positions (history e) = h_positions (history eng) @ [p] \<and>
           h_telemetry (history e) = h_telemetry (history eng) @ [t] \<and>
           h_risk_assessments (history e) = h_risk_assessments (history eng) @ [ra] \<and>
           cs_position (current_state e) = p \<and>
           cs_risk_assessment (current_state e) = Some ra \<and>
           mission_active e = mission_active eng \<and>
           is_initialized e"
proof -
  from detect_failure_risk_level [OF assms(2)] obtain s where
    s: "ra ''risk_level'' = Some (PStr (risk_level_of_score s))" by blast
  have lv: "risk_level_of_score s \<in> {''LOW'', ''MEDIUM'', ''HIGH'', ''CRITICAL''}"
    by (simp add: risk_level_of_score_def)
  show ?thesis
    using assms s lv
    by (auto simp add: update_telemetry_def Let_def dict_index_def)
qed

lemma update_telemetry_ignores_mission_active:
  "update_telemetry sk (eng\<lparr> mission_active := b \<rparr>) now t p =
     (fst (update_telemetry sk eng now t p),
      (snd (update_telemetry sk eng now t p))\<lparr> mission_active := b \<rparr>)"
  by (simp add: update_telemetry_def Let_def split: sum.splits)

lemma stop_mission_state:
  "snd (stop_mission eng) = eng\<lparr> mission_active := False \<rparr>"
  by (simp add: stop_mission_def Let_def split: sum.splits)

lemma start_mission_flags:
  "is_initialized eng \<Longrightarrow>
     mission_active (snd (start_mission eng a b)) \<and> is_initialized (snd (start_mission eng a b)) \<and>
     history (snd (start_mission eng a b)) = history eng \<and>
     anomaly_detector (snd (start_mission eng a b)) = anomaly_detector eng"
  by (simp add: start_mission_def Let_def split: prod.splits)

text \<open>
  Claim C4: the risk tier is a step function of the anomaly score with the boundaries 0.3,
  0.6 and 0.8: below 0.3 LOW, from 0.3 below 0.6 MEDIUM, from 0.6 below 0.8 HIGH, from 0.8
  CRITICAL; the scores 0.0, 0.29, 0.3, 0.59, 0.6, 0.79, 0.8 and 1.0 give LOW, LOW, MEDIUM,
  MEDIUM, HIGH, HIGH, CRITICAL and CRITICAL; and the assessment of a sample carries the
  tier of the score that the prediction returned.
\<close>

theorem risk_tier_step_function:
  "(s < 0.3 \<longrightarrow> risk_level_of_score s = ''LOW'') \<and>
   (0.3 \<le> s \<and> s < 0.6 \<longrightarrow> risk_level_of_score s = ''MEDIUM'') \<and>
   (0.6 \<le> s \<and> s < 0.8 \<longrightarrow> risk_level_of_score s = ''HIGH'') \<and>
   (0.8 \<le> s \<longrightarrow> risk_level_of_score s = ''CRITICAL'') \<and>
   map risk_level_of_score [0.0, 0.29, 0.3, 0.59, 0.6, 0.79, 0.8, 1.0] =
     [''LOW'', ''LOW'', ''MEDIUM'', ''MEDIUM'', ''HIGH'', ''HIGH'', ''CRITICAL'', ''CRITICAL''] \<and>
   (predict sk det x = Inr (p, s) \<longrightarrow>
      (\<exists>d. detect_failure_risk sk det x = Inr d \<and>
           d ''anomaly_score'' = Some (PFloat s) \<and>
           d ''risk_level'' = Some (PStr (risk_level_of_score s))))"
  by (simp add: risk_level_of_score_def detect_failure_risk_def Let_def)

text \<open>Witness for C4: one score in each tier, and the constant scorer (score 0.5).\<close>

theorem risk_tier_step_function_witness:
  "risk_level_of_score 0.1 = ''LOW'' \<and> risk_level_of_score 0.45 = ''MEDIUM'' \<and>
   risk_level_of_score 0.7 = ''HIGH'' \<and> risk_level_of_score 0.95 = ''CRITICAL'' \<and>
   predict constant_sklearn (anomaly_detector demo_engine) demo_sample = Inr (1, 1 / 2) \<and>
   (\<exists>d. detect_failure_risk constant_sklearn (anomaly_detector demo_engine) demo_sample = Inr d \<and>
        d ''anomaly_score'' = Some (PFloat (1 / 2)) \<and>
        d ''risk_level'' = Some (PStr ''MEDIUM''))"
proof -
  have p: "predict constant_sklearn (anomaly_detector demo_engine) demo_sample = Inr (1, 1 / 2)"
    by (simp add: demo_engine_eq DigitalTwinEngine_init_def predict_constant)
  note t = risk_tier_step_function [where s = "1 / 2" and sk = constant_sklearn
      and det = "anomaly_detector demo_engine" and x = demo_sample and p = 1]
  from t have m: "risk_level_of_score (1 / 2) = ''MEDIUM''" by simp
  from t p m have d: "\<exists>d. detect_failure_risk constant_sklearn (anomaly_detector demo_engine)
        demo_sample = Inr d \<and> d ''anomaly_score'' = Some (PFloat (1 / 2)) \<and>
        d ''risk_level'' = Some (PStr ''MEDIUM'')"
    by simp
  from risk_tier_step_function [where s = "0.1" and sk = constant_sklearn
      and det = "anomaly_detector demo_engine" and x = demo_sample and p = 1]
  have a: "risk_level_of_score 0.1 = ''LOW''" by simp
  from risk_tier_step_function [where s = "0.45" and sk = constant_sklearn
      and det = "anomaly_detector demo_engine" and x = demo_sample and p = 1]
  have b: "risk_level_of_score 0.45 = ''MEDIUM''" by simp
  from risk_tier_step_function [where s = "0.7" and sk = constant_sklearn
      and det = "anomaly_detector demo_engine" and x = demo_sample and p = 1]
  have c: "risk_level_of_score 0.7 = ''HIGH''" by simp
  from risk_tier_step_function [where s = "0.95" and sk = constant_sklearn
      and det = "anomaly_detector demo_engine" and x = demo_sample and p = 1]
  have e: "risk_level_of_score 0.95 = ''CRITICAL''" by simp
  show ?thesis by (intro conjI a b c e p d)
qed

lemma stopped_engine_eq: "stopped_engine =
   (snd (start_mission demo_engine (0, 0, 50) (100, 100, 50)))\<lparr> mission_active := False \<rparr>"
  by (simp add: stopped_engine_def stop_mission_state)

lemma demo_engine_flags:
  "is_initialized demo_engine \<and> \<not> mission_active demo_engine \<and>
   h_timestamps (history demo_engine) = []"
  by (simp add: demo_engine_eq DigitalTwinEngine_init_def)

lemma stopped_engine_flags:
  "is_initialized stopped_engine \<and> \<not> mission_active stopped_engine \<and>
   h_timestamps (history stopped_engine) = [] \<and>
   anomaly_detector stopped_engine = anomaly_detector demo_engine"
  using start_mission_flags [of demo_engine "(0, 0, 50)" "(100, 100, 50)"] demo_engine_flags
  by (simp add: stopped_engine_eq)

text \<open>
  Claim C2, as stated, fails: on an initialized engine a telemetry update succeeds and
  appends to the history both when no mission was ever started and after a mission was
  stopped.
\<close>

theorem update_without_active_mission_counterexample:
  "\<not> mission_active demo_engine \<and>
   \<not> isl (fst (update_telemetry constant_sklearn demo_engine 1000 demo_sample (10, 10, 50))) \<and>
   h_timestamps (history (snd (update_telemetry constant_sklearn demo_engine 1000 demo_sample
      (10, 10, 50)))) = [1000] \<and>
   \<not> mission_active stopped_engine \<and>
   \<not> isl (fst (update_telemetry constant_sklearn stopped_engine 2000 demo_sample (10, 10, 50))) \<and>
   h_timestamps (history (snd (update_telemetry constant_sklearn stopped_engine 2000 demo_sample
      (10, 10, 50)))) = [2000] \<and>
   cs_position (current_state (snd (update_telemetry constant_sklearn stopped_engine 2000
      demo_sample (10, 10, 50)))) = (10, 10, 50)"
proof -
  obtain d where d: "detect_failure_risk constant_sklearn (anomaly_detector demo_engine)
      demo_sample = Inr d"
    using detect_constant_level [of demo_sample] by blast
  from update_telemetry_success [OF _ d, of 1000 "(10, 10, 50)"] demo_engine_flags
  have a: "\<not> isl (fst (update_telemetry constant_sklearn demo_engine 1000 demo_sample (10, 10, 50)))
     \<and> h_timestamps (history (snd (update_telemetry constant_sklearn demo_engine 1000 demo_sample
      (10, 10, 50)))) = [1000]"
    by auto
  from d have d': "detect_failure_risk constant_sklearn (anomaly_detector stopped_engine)
      demo_sample = Inr d"
    by (simp add: stopped_engine_flags)
  from update_telemetry_success [OF _ d', of 2000 "(10, 10, 50)"] stopped_engine_flags
  have b: "\<not> isl (fst (update_telemetry constant_sklearn stopped_engine 2000 demo_sample (10, 10, 50)))
     \<and> h_timestamps (history (snd (update_telemetry constant_sklearn stopped_engine 2000 demo_sample
      (10, 10, 50)))) = [2000]
     \<and> cs_position (current_state (snd (update_telemetry constant_sklearn stopped_engine 2000
      demo_sample (10, 10, 50)))) = (10, 10, 50)"
    by auto
  from a b demo_engine_flags stopped_engine_flags show ?thesis by blast
qed

text \<open>
  Claim C2, amended: a telemetry update requires an initialized engine, not an active
  mission. On an engine that is not initialized (as every fresh instance is) the update
  fails with the error "Engine must be initialized" and leaves the engine unchanged.
  Stopping a mission only clears the mission flag, and the update never reads that flag:
  on an initialized engine whose scorer returns an assessment, the update succeeds,
  appends one entry to every history list, sets the current position and risk, keeps the
  mission flag, and recommends a path update exactly when the tier is not LOW.
\<close>

theorem update_telemetry_requires_initialized:
  "(\<not> is_initialized eng \<longrightarrow>
      update_telemetry sk eng now t p = (Inl (RuntimeError ''Engine must be initialized''), eng)) \<and>
   \<not> is_initialized (DigitalTwinEngine_init margin :: ('s, 'm) DigitalTwinEngine) \<and>
   snd (stop_mission eng) = (eng\<lparr> mission_active := False \<rparr>) \<and>
   update_telemetry sk (eng\<lparr> mission_active := b \<rparr>) now t p =
     (fst (update_telemetry sk eng now t p),
      (snd (update_telemetry sk eng now t p))\<lparr> mission_active := b \<rparr>) \<and>
   (is_initialized eng \<and> detect_failure_risk sk (anomaly_detector eng) t = Inr ra \<longrightarrow>
      (\<exists>r e. update_telemetry sk eng now t p = (Inr r, e) \<and>
           r_risk_assessment r = ra \<and>
           r_path_update_required r = (ra ''risk_level'' \<noteq> Some (PStr ''LOW'')) \<and>
           h_timestamps (history e) = h_timestamps (history eng) @ [now] \<and>
           h_positions (history e) = h_positions (history eng) @ [p] \<and>
           h_telemetry (history e) = h_telemetry (history eng) @ [t] \<and>
           h_risk_assessments (history e) = h_risk_assessments (history eng) @ [ra] \<and>
           cs_position (current_state e) = p \<and>
           cs_risk_assessment (current_state e) = Some ra \<and>
           mission_active e = mission_active eng \<and>
           is_initialized e))"
  using update_telemetry_success [where eng = eng and sk = sk and t = t and ra = ra
          and now = now and p = p]
        update_telemetry_ignores_mission_active [where eng = eng and sk = sk and b = b
          and now = now and t = t and p = p]
        stop_mission_state [where eng = eng]
  by (simp add: update_telemetry_def DigitalTwinEngine_init_def)


text \<open>Witness for C2: a fresh engine, and an initialized engine with no mission.\<close>

theorem update_telemetry_requires_initialized_witness:
  "\<not> is_initialized (DigitalTwinEngine_init 10 :: (unit, unit) DigitalTwinEngine) \<and>
   update_telemetry constant_sklearn (DigitalTwinEngine_init 10) 1000 demo_sample (10, 10, 50)
     = (Inl (RuntimeError ''Engine must be initialized''), DigitalTwinEngine_init 10) \<and>
   is_initialized demo_engine \<and>
   (\<exists>ra r e. detect_failure_risk constant_sklearn (anomaly_detector demo_engine) demo_sample
                = Inr ra \<and>
      update_telemetry constant_sklearn demo_engine 1000 demo_sample (10, 10, 50) = (Inr r, e) \<and>
      h_timestamps (history e) = [1000] \<and> r_path_update_required r \<and>
      mission_active e = mission_active demo_engine)"
proof -
  note t0 = update_telemetry_requires_initialized [where sk = constant_sklearn
      and eng = "DigitalTwinEngine_init 10" and margin = 10 and now = 1000
      and t = demo_sample and p = "(10, 10, 50)"]
  from t0 have f: "\<not> is_initialized (DigitalTwinEngine_init 10 :: (unit, unit) DigitalTwinEngine)"
    by blast
  from t0 f have u: "update_telemetry constant_sklearn (DigitalTwinEngine_init 10) 1000
      demo_sample (10, 10, 50)
     = (Inl (RuntimeError ''Engine must be initialized''), DigitalTwinEngine_init 10)"
    by blast
  obtain ra where ra: "detect_failure_risk constant_sklearn (anomaly_detector demo_engine)
      demo_sample = Inr ra" and lv: "ra ''risk_level'' = Some (PStr ''MEDIUM'')"
    using detect_constant_level [of demo_sample] by blast
  have i: "is_initialized demo_engine" by (simp add: demo_engine_flags)
  note t1 = update_telemetry_requires_initialized [where sk = constant_sklearn
      and eng = demo_engine and now = 1000 and t = demo_sample and p = "(10, 10, 50)"
      and ra = ra]
  from t1 i ra obtain r e where
    "update_telemetry constant_sklearn demo_engine 1000 demo_sample (10, 10, 50) = (Inr r, e)"
    "r_path_update_required r = (ra ''risk_level'' \<noteq> Some (PStr ''LOW''))"
    "h_timestamps (history e) = h_timestamps (history demo_engine) @ [1000]"
    "mission_active e = mission_active demo_engine"
    by blast
  with lv ra demo_engine_flags have "\<exists>ra r e.
      detect_failure_risk constant_sklearn (anomaly_detector demo_engine) demo_sample = Inr ra \<and>
      update_telemetry constant_sklearn demo_engine 1000 demo_sample (10, 10, 50) = (Inr r, e) \<and>
      h_timestamps (history e) = [1000] \<and> r_path_update_required r \<and>
      mission_active e = mission_active demo_engine"
    by auto
  with f u i show ?thesis by blast
qed

section \<open>Properties of feature extraction\<close>

lemma length_s_add [simp]: "length (s_add xs ys) = min (length xs) (length ys)"
  by (simp add: s_add_def)

lemma length_s_mul [simp]: "length (s_mul xs ys) = min (length xs) (length ys)"
  by (simp add: s_mul_def)

lemma length_s_div [simp]: "length (s_div xs ys) = min (length xs) (length ys)"
  by (simp add: s_div_def)

lemma length_s_square [simp]: "length (s_square xs) = length xs"
  by (simp add: s_square_def)

lemma length_s_sqrt [simp]: "length (s_sqrt xs) = length xs"
  by (simp add: s_sqrt_def)

lemma length_s_scale [simp]: "length (s_scale xs k) = length xs"
  by (simp add: s_scale_def)

lemma length_s_div_scalar [simp]: "length (s_div_scalar xs k) = length xs"
  by (simp add: s_div_scalar_def)

lemma length_fillna [simp]: "length (fillna v xs) = length xs"
  by (simp add: fillna_def)

lemma length_fillna_zero [simp]: "length (fillna_zero c) = length (snd c)"
  by (simp add: fillna_zero_def)

lemma length_s_diff [simp]: "length (s_diff xs) = length xs"
  by (cases xs) (simp_all add: s_diff_def)

lemma length_timestamp_diff [simp]: "length (timestamp_diff ts) = length ts"
  by (cases ts) (simp_all add: timestamp_diff_def)

lemma length_ffill_from [simp]: "length (ffill_from p xs) = length xs"
  by (induction xs arbitrary: p) simp_all

lemma length_ffill [simp]: "length (ffill xs) = length xs"
  by (simp add: ffill_def)

lemma length_bfill [simp]: "length (bfill xs) = length xs"
  by (simp add: bfill_def)

lemma length_cumsum_from [simp]: "length (cumsum_from a xs) = length xs"
  by (induction xs arbitrary: a) (simp_all add: Let_def)

lemma length_cumsum [simp]: "length (cumsum xs) = length xs"
  by (simp add: cumsum_def)

lemma length_replace_value [simp]: "length (replace_value olds new xs) = length xs"
  by (simp add: replace_value_def)

lemma length_interpolate_linear [simp]: "length (interpolate_linear xs) = length xs"
  by (simp add: interpolate_linear_def)

lemma length_rolling_std_10 [simp]: "length (rolling_std_10 c) = length (snd c)"
  by (simp add: rolling_std_10_def)

lemma length_magnitude3 [simp]:
  "length (magnitude3 x y z) = min (min (length x) (length y)) (length z)"
  by (simp add: magnitude3_def)

lemma snd_numeric [simp]: "snd (numeric xs) = xs"
  by (simp add: numeric_def)

lemma fst_numeric [simp]: "fst (numeric xs) = Numeric"
  by (simp add: numeric_def)

lemma rolling_length: "rolling w m agg xs = Inr ys \<Longrightarrow> length ys = length xs"
  by (auto simp add: rolling_def split: if_splits)

lemma rolling_returns: "1 \<le> w \<Longrightarrow> \<exists>ys. rolling w 1 agg xs = Inr ys"
  by (simp add: rolling_def)

lemma rolling_rejects: "w < 1 \<Longrightarrow> \<exists>msg. rolling w 1 agg xs = Inl (ValueError msg)"
  by (simp add: rolling_def)

lemma rolling_std_10_eq: "rolling 10 1 agg_std (snd c) = Inr (rolling_std_10 c)"
  by (simp add: rolling_def rolling_std_10_def)

subsection \<open>Sequencing and differences\<close>

lemma bind_err_Inr [simp]: "bind_err (Inr x) k = k x"
  by (simp add: bind_err_def)

lemma bind_err_Inl [simp]: "bind_err (Inl e) k = Inl e"
  by (simp add: bind_err_def)

lemma bind_err_Inr_iff: "bind_err r k = Inr v \<longleftrightarrow> (\<exists>x. r = Inr x \<and> k x = Inr v)"
  by (cases r) simp_all

lemma column_diff_length: "column_diff c = Inr r \<Longrightarrow> length (snd r) = length (snd c)"
  by (cases c) (auto simp add: column_diff_def split: dtype.splits if_splits)

lemma column_diff_defined:
  "fst c = Numeric \<or> length (snd c) < 2 \<Longrightarrow> column_diff c = Inr (fst c, s_diff (snd c))"
  by (cases c) (auto simp add: column_diff_def split: dtype.splits)

lemma column_diff_rejects:
  "fst c = Object \<Longrightarrow> 2 \<le> length (snd c) \<Longrightarrow> column_diff c = Inl none_minus_none"
  by (cases c) (simp add: column_diff_def)

lemma diff_rate_length:
  "diff_rate c td = Inr r \<Longrightarrow> length (snd r) = min (length (snd c)) (length td)"
  by (auto simp add: diff_rate_def bind_err_Inr_iff dest: column_diff_length)

lemma diff_rate_defined:
  "fst c = Numeric \<or> length (snd c) < 2 \<Longrightarrow>
   diff_rate c td = Inr (fst c, s_div (s_diff (snd c)) td)"
  by (simp add: diff_rate_def column_diff_defined)

lemma diff_rate_rejects:
  "fst c = Object \<Longrightarrow> 2 \<le> length (snd c) \<Longrightarrow> diff_rate c td = Inl none_minus_none"
  by (simp add: diff_rate_def column_diff_rejects)

lemma diff_rate_cases:
  "diff_rate c td = Inl none_minus_none \<or>
   diff_rate c td = Inr (fst c, s_div (s_diff (snd c)) td)"
proof (cases "fst c = Numeric \<or> length (snd c) < 2")
  case True
  then show ?thesis by (simp add: diff_rate_defined)
next
  case False
  then have "fst c = Object" and "2 \<le> length (snd c)"
    by (cases "fst c"; simp)+
  then show ?thesis by (simp add: diff_rate_rejects)
qed

lemma diff_rates3_length:
  assumes "diff_rates3 a b c td = Inr (x, y, z)"
  shows "length (snd x) = min (length (snd a)) (length td) \<and>
         length (snd y) = min (length (snd b)) (length td) \<and>
         length (snd z) = min (length (snd c)) (length td)"
  using assms
  by (auto simp add: diff_rates3_def bind_err_Inr_iff dest: diff_rate_length)

lemma diff_rates3_defined:
  assumes "fst a = Numeric \<or> length (snd a) < 2"
    and "fst b = Numeric \<or> length (snd b) < 2"
    and "fst c = Numeric \<or> length (snd c) < 2"
  shows "diff_rates3 a b c td =
           Inr ((fst a, s_div (s_diff (snd a)) td), (fst b, s_div (s_diff (snd b)) td),
                (fst c, s_div (s_diff (snd c)) td))"
  by (simp add: diff_rates3_def diff_rate_defined assms)

lemma diff_rates3_rejects:
  assumes "\<exists>v \<in> set [a, b, c]. fst v = Object \<and> 2 \<le> length (snd v)"
  shows "diff_rates3 a b c td = Inl none_minus_none"
proof -
  from diff_rate_cases [of a td] show ?thesis
  proof
    assume "diff_rate a td = Inl none_minus_none"
    then show ?thesis by (simp add: diff_rates3_def)
  next
    assume a: "diff_rate a td = Inr (fst a, s_div (s_diff (snd a)) td)"
    from diff_rate_cases [of b td] show ?thesis
    proof
      assume "diff_rate b td = Inl none_minus_none"
      with a show ?thesis by (simp add: diff_rates3_def)
    next
      assume b: "diff_rate b td = Inr (fst b, s_div (s_diff (snd b)) td)"
      from a have na: "\<not> (fst a = Object \<and> 2 \<le> length (snd a))"
        using diff_rate_rejects [of a td] by auto
      from b have nb: "\<not> (fst b = Object \<and> 2 \<le> length (snd b))"
        using diff_rate_rejects [of b td] by auto
      from assms na nb have "fst c = Object \<and> 2 \<le> length (snd c)" by auto
      then have "diff_rate c td = Inl none_minus_none" by (simp add: diff_rate_rejects)
      with a b show ?thesis by (simp add: diff_rates3_def)
    qed
  qed
qed

subsection \<open>Shapes\<close>

lemma aligned_iff:
  "aligned n f \<longleftrightarrow>
     df_index f = [0..<n] \<and> (\<forall>p \<in> set (df_columns f). length (snd (snd p)) = n)"
  by (auto simp add: aligned_def list_all_iff)

lemma aligned_frame_with_index: "idx = [0..<n] \<Longrightarrow> aligned n (frame_with_index idx)"
  by (simp add: aligned_iff frame_with_index_def)

lemma aligned_set_column:
  "aligned n f \<Longrightarrow> length (snd c) = n \<Longrightarrow> aligned n (set_column f name c)"
  by (auto simp add: aligned_iff set_column_def split: if_splits)

lemma aligned_if: "aligned n a \<Longrightarrow> aligned n b \<Longrightarrow> aligned n (if c then a else b)"
  by simp

lemma length_reindex [simp]: "length (reindex old new c) = length new"
  by (simp add: reindex_def)

lemma aligned_concat_axis1:
  "aligned n a \<Longrightarrow> aligned n b \<Longrightarrow> aligned n (concat_axis1 a b)"
  by (auto simp add: aligned_iff concat_axis1_def Let_def)

lemma aligned_concat_empty:
  "aligned n b \<Longrightarrow> aligned n (concat_axis1 empty_frame b)"
  by (auto simp add: aligned_iff concat_axis1_def empty_frame_def Let_def)

lemma aligned_map_columns:
  "aligned n f \<Longrightarrow> (\<And>c. length (snd (g c)) = length (snd c)) \<Longrightarrow>
   aligned n (map_columns g f)"
  by (auto simp add: aligned_iff map_columns_def)

lemma aligned_nrows: "aligned n f \<Longrightarrow> nrows f = n"
  by (simp add: aligned_iff nrows_def)

lemma aligned_column_length:
  assumes "aligned n f" and "map_of (df_columns f) col = Some c"
  shows "length (snd c) = n"
proof -
  from assms(2) have "(col, c) \<in> set (df_columns f)" by (rule map_of_SomeD)
  with assms(1) show ?thesis by (auto simp add: aligned_iff)
qed

lemma column_aligned_column_of: "column_aligned (length records) (column_of field records)"
  by (auto simp add: column_aligned_def column_of_def any_notna_def notna_def of_optional_def
      list_all_iff)

lemma records_to_dataframe_aligned:
  "records_to_dataframe records = Inr df \<Longrightarrow> telemetry_aligned (length records) df"
  by (auto simp add: records_to_dataframe_def telemetry_aligned_def column_aligned_column_of
      split: if_splits)

lemma records_to_dataframe_returns:
  "records \<noteq> [] \<Longrightarrow> \<exists>df. records_to_dataframe records = Inr df"
  by (simp add: records_to_dataframe_def)

lemma column_aligned_numeric:
  "column_aligned n c \<Longrightarrow> any_notna [c] \<Longrightarrow> fst c = Numeric"
  by (cases "fst c") (simp_all add: column_aligned_def)

lemma aligned_time:
  assumes "telemetry_aligned n df"
  shows "aligned n (extract_time_features df)"
proof -
  from assms have idx: "tf_index df = [0..<n]" and ts: "length (tf_timestamp df) = n"
    and td: "length (tf_time_delta df) = n"
    by (simp_all add: telemetry_aligned_def)
  define f1 where "f1 = set_column (frame_with_index (tf_index df)) ''sample_rate_hz''
      (numeric (map (\<lambda>x. fdiv (Fin 1.0) x) (replace_value [Fin 0] NaN (tf_time_delta df))))"
  define f2 where "f2 = (case tf_timestamp df of [] \<Rightarrow> f1
      | start_time # _ \<Rightarrow> set_column f1 ''time_since_start''
            (numeric (map (\<lambda>t. total_seconds (t - start_time)) (tf_timestamp df))))"
  have a1: "aligned n f1"
    unfolding f1_def by (intro aligned_set_column aligned_frame_with_index) (simp_all add: idx td)
  have a2: "aligned n f2"
  proof (cases "tf_timestamp df")
    case Nil
    then show ?thesis by (simp add: f2_def a1)
  next
    case (Cons start_time rest)
    have "aligned n (set_column f1 ''time_since_start''
            (numeric (map (\<lambda>t. total_seconds (t - start_time)) (tf_timestamp df))))"
      by (intro aligned_set_column a1) (simp add: ts)
    then show ?thesis by (simp add: f2_def Cons)
  qed
  have "aligned n (set_column f2 ''sequence_index''
           (numeric (map (\<lambda>i. Fin (real i)) [0..<length (tf_index df)])))"
    by (intro aligned_set_column a2) (simp add: idx)
  then show ?thesis
    unfolding extract_time_features_def Let_def f2_def f1_def .
qed

lemma telemetry_aligned_lengths:
  assumes "telemetry_aligned n df"
  shows "tf_index df = [0..<n]" and "length (tf_time_delta df) = n"
    and "length (snd (tf_accel_x df)) = n" and "length (snd (tf_accel_y df)) = n"
    and "length (snd (tf_accel_z df)) = n" and "length (snd (tf_gyro_x df)) = n"
    and "length (snd (tf_gyro_y df)) = n" and "length (snd (tf_gyro_z df)) = n"
    and "length (snd (tf_latitude df)) = n" and "length (snd (tf_longitude df)) = n"
    and "length (snd (tf_altitude df)) = n" and "length (snd (tf_ground_speed df)) = n"
    and "length (snd (tf_roll df)) = n" and "length (snd (tf_pitch df)) = n"
    and "length (snd (tf_yaw df)) = n" and "length (snd (tf_battery_voltage df)) = n"
    and "length (snd (tf_battery_current df)) = n"
    and "length (snd (tf_battery_remaining df)) = n"
  using assms by (simp_all add: telemetry_aligned_def column_aligned_def)

lemma telemetry_aligned_guard:
  assumes "telemetry_aligned n df"
  shows "any_notna [tf_ground_speed df] \<Longrightarrow> fst (tf_ground_speed df) = Numeric"
    and "any_notna [tf_altitude df] \<Longrightarrow> fst (tf_altitude df) = Numeric"
    and "any_notna [tf_latitude df] \<Longrightarrow> fst (tf_latitude df) = Numeric"
    and "any_notna [tf_longitude df] \<Longrightarrow> fst (tf_longitude df) = Numeric"
    and "any_notna [tf_battery_voltage df] \<Longrightarrow> fst (tf_battery_voltage df) = Numeric"
  using assms
  by (auto simp add: telemetry_aligned_def intro: column_aligned_numeric)

lemma aligned_imu:
  assumes "telemetry_aligned n df" and "extract_imu_features config df = Inr f"
  shows "aligned n f"
proof -
  note len = telemetry_aligned_lengths [OF assms(1)]
  define f5 where "f5 =
    (if any_notna [tf_gyro_x df, tf_gyro_y df, tf_gyro_z df]
     then set_column
           (set_column
             (set_column
               (set_column
                 (set_column
                   (set_column
                     (set_column
                       (set_column (frame_with_index (tf_index df)) ''g_force''
                         (numeric
                           (s_div_scalar
                             (magnitude3 (fillna_zero (tf_accel_x df))
                               (fillna_zero (tf_accel_y df)) (fillna_zero (tf_accel_z df)))
                             9.81)))
                       ''g_force_x'' (numeric (s_div_scalar (fillna_zero (tf_accel_x df)) 9.81)))
                     ''g_force_y'' (numeric (s_div_scalar (fillna_zero (tf_accel_y df)) 9.81)))
                   ''g_force_z'' (numeric (s_div_scalar (fillna_zero (tf_accel_z df)) 9.81)))
                 ''rotation_rate''
                 (numeric
                   (magnitude3 (fillna_zero (tf_gyro_x df)) (fillna_zero (tf_gyro_y df))
                     (fillna_zero (tf_gyro_z df)))))
               ''gyro_x_rate'' (numeric (fillna_zero (tf_gyro_x df))))
             ''gyro_y_rate'' (numeric (fillna_zero (tf_gyro_y df))))
           ''gyro_z_rate'' (numeric (fillna_zero (tf_gyro_z df)))
     else set_column
           (set_column
             (set_column
               (set_column (frame_with_index (tf_index df)) ''g_force''
                 (numeric
                   (s_div_scalar
                     (magnitude3 (fillna_zero (tf_accel_x df)) (fillna_zero (tf_accel_y df))
                       (fillna_zero (tf_accel_z df)))
                     9.81)))
               ''g_force_x'' (numeric (s_div_scalar (fillna_zero (tf_accel_x df)) 9.81)))
             ''g_force_y'' (numeric (s_div_scalar (fillna_zero (tf_accel_y df)) 9.81)))
           ''g_force_z'' (numeric (s_div_scalar (fillna_zero (tf_accel_z df)) 9.81)))"
  define vib where "vib = (\<lambda>f. if length (tf_index df) > 10
       then set_column
              (set_column
                 (set_column f ''vibration_x'' (numeric (rolling_std_10 (tf_accel_x df))))
                 ''vibration_y'' (numeric (rolling_std_10 (tf_accel_y df))))
              ''vibration_z'' (numeric (rolling_std_10 (tf_accel_z df)))
       else f)"
  have a5: "aligned n f5"
    unfolding f5_def
    by (intro aligned_if aligned_set_column aligned_frame_with_index) (simp_all add: len)
  have av: "aligned n (vib g)" if "aligned n g" for g
    unfolding vib_def using that
    by (intro aligned_if aligned_set_column) (simp_all add: len)
  have eq: "extract_imu_features config df =
     (if include_derivative config
      then bind_err (diff_rates3 (tf_accel_x df) (tf_accel_y df) (tf_accel_z df)
                       (tf_time_delta df))
             (\<lambda>(jerk_x, jerk_y, jerk_z).
                Inr (vib (set_column
                     (set_column
                        (set_column (set_column f5 ''jerk_x'' jerk_x) ''jerk_y'' jerk_y)
                        ''jerk_z'' jerk_z)
                     ''jerk_magnitude''
                     (numeric (magnitude3 (fillna_zero jerk_x) (fillna_zero jerk_y)
                                          (fillna_zero jerk_z))))))
      else Inr (vib f5))"
    unfolding extract_imu_features_def Let_def f5_def vib_def by simp
  show ?thesis
  proof (cases "include_derivative config")
    case False
    with assms(2) eq have "f = vib f5" by simp
    with a5 show ?thesis by (simp add: av)
  next
    case True
    with assms(2) eq obtain jx jy jz where
      j: "diff_rates3 (tf_accel_x df) (tf_accel_y df) (tf_accel_z df) (tf_time_delta df)
            = Inr (jx, jy, jz)"
      and f: "f = vib (set_column
                     (set_column (set_column (set_column f5 ''jerk_x'' jx) ''jerk_y'' jy)
                        ''jerk_z'' jz)
                     ''jerk_magnitude''
                     (numeric (magnitude3 (fillna_zero jx) (fillna_zero jy) (fillna_zero jz))))"
      by (auto simp add: bind_err_Inr_iff)
    from diff_rates3_length [OF j] have
      "length (snd jx) = n" "length (snd jy) = n" "length (snd jz) = n"
      by (simp_all add: len)
    then show ?thesis unfolding f
      by (intro av aligned_set_column a5) simp_all
  qed
qed

lemma imu_outcome:
  assumes "telemetry_aligned n df"
  shows "(include_derivative config \<and> 2 \<le> n \<and>
            Object \<in> fst ` set [tf_accel_x df, tf_accel_y df, tf_accel_z df]
          \<longrightarrow> extract_imu_features config df = Inl none_minus_none) \<and>
         (\<not> include_derivative config \<or> n < 2 \<or>
            Object \<notin> fst ` set [tf_accel_x df, tf_accel_y df, tf_accel_z df]
          \<longrightarrow> (\<exists>f. extract_imu_features config df = Inr f))"
proof (cases "include_derivative config")
  case False
  then show ?thesis by (simp add: extract_imu_features_def Let_def)
next
  case True
  note len = telemetry_aligned_lengths [OF assms]
  show ?thesis
  proof (cases "2 \<le> n \<and> Object \<in> fst ` set [tf_accel_x df, tf_accel_y df, tf_accel_z df]")
    case bad: True
    then have "\<exists>v \<in> set [tf_accel_x df, tf_accel_y df, tf_accel_z df].
        fst v = Object \<and> 2 \<le> length (snd v)"
      by (auto simp add: len)
    from diff_rates3_rejects [OF this, of "tf_time_delta df"] True bad
    show ?thesis by (auto simp add: extract_imu_features_def Let_def)
  next
    case ok: False
    then have "fst (tf_accel_x df) = Numeric \<or> length (snd (tf_accel_x df)) < 2"
      and "fst (tf_accel_y df) = Numeric \<or> length (snd (tf_accel_y df)) < 2"
      and "fst (tf_accel_z df) = Numeric \<or> length (snd (tf_accel_z df)) < 2"
      by (cases "fst (tf_accel_x df)"; cases "fst (tf_accel_y df)";
          cases "fst (tf_accel_z df)"; auto simp add: len)+
    from diff_rates3_defined [OF this, of "tf_time_delta df"] True ok
    show ?thesis by (auto simp add: extract_imu_features_def Let_def)
  qed
qed

lemma aligned_attitude:
  assumes "telemetry_aligned n df" and "extract_attitude_features config df = Inr f"
  shows "aligned n f"
proof -
  note len = telemetry_aligned_lengths [OF assms(1)]
  define f3 where "f3 =
     set_column
       (set_column
          (set_column (frame_with_index (tf_index df)) ''roll''
             (numeric (fillna_zero (tf_roll df))))
          ''pitch'' (numeric (fillna_zero (tf_pitch df))))
       ''yaw'' (numeric (fillna_zero (tf_yaw df)))"
  define tilt where "tilt = (\<lambda>f. set_column f ''tilt_angle''
       (numeric (s_sqrt (s_add (s_square (fillna_zero (tf_roll df)))
                               (s_square (fillna_zero (tf_pitch df)))))))"
  have a3: "aligned n f3"
    unfolding f3_def
    by (intro aligned_set_column aligned_frame_with_index) (simp_all add: len)
  have at: "aligned n (tilt g)" if "aligned n g" for g
    unfolding tilt_def using that by (intro aligned_set_column) (simp_all add: len)
  have eq: "extract_attitude_features config df =
     (if include_derivative config
      then bind_err (diff_rates3 (tf_roll df) (tf_pitch df) (tf_yaw df) (tf_time_delta df))
             (\<lambda>(roll_rate, pitch_rate, yaw_rate).
                Inr (tilt (set_column
                             (set_column (set_column f3 ''roll_rate'' roll_rate)
                                ''pitch_rate'' pitch_rate)
                             ''yaw_rate'' yaw_rate)))
      else Inr (tilt f3))"
    unfolding extract_attitude_features_def Let_def f3_def tilt_def by simp
  show ?thesis
  proof (cases "include_derivative config")
    case False
    with assms(2) eq have "f = tilt f3" by simp
    with a3 show ?thesis by (simp add: at)
  next
    case True
    with assms(2) eq obtain rr pr yr where
      j: "diff_rates3 (tf_roll df) (tf_pitch df) (tf_yaw df) (tf_time_delta df)
            = Inr (rr, pr, yr)"
      and f: "f = tilt (set_column
                          (set_column (set_column f3 ''roll_rate'' rr) ''pitch_rate'' pr)
                          ''yaw_rate'' yr)"
      by (auto simp add: bind_err_Inr_iff)
    from diff_rates3_length [OF j] have
      "length (snd rr) = n" "length (snd pr) = n" "length (snd yr) = n"
      by (simp_all add: len)
    then show ?thesis unfolding f
      by (intro at aligned_set_column a3) simp_all
  qed
qed

lemma attitude_outcome:
  assumes "telemetry_aligned n df"
  shows "(include_derivative config \<and> 2 \<le> n \<and>
            Object \<in> fst ` set [tf_roll df, tf_pitch df, tf_yaw df]
          \<longrightarrow> extract_attitude_features config df = Inl none_minus_none) \<and>
         (\<not> include_derivative config \<or> n < 2 \<or>
            Object \<notin> fst ` set [tf_roll df, tf_pitch df, tf_yaw df]
          \<longrightarrow> (\<exists>f. extract_attitude_features config df = Inr f))"
proof (cases "include_derivative config")
  case False
  then show ?thesis by (simp add: extract_attitude_features_def Let_def)
next
  case True
  note len = telemetry_aligned_lengths [OF assms]
  show ?thesis
  proof (cases "2 \<le> n \<and> Object \<in> fst ` set [tf_roll df, tf_pitch df, tf_yaw df]")
    case bad: True
    then have "\<exists>v \<in> set [tf_roll df, tf_pitch df, tf_yaw df].
        fst v = Object \<and> 2 \<le> length (snd v)"
      by (auto simp add: len)
    from diff_rates3_rejects [OF this, of "tf_time_delta df"] True bad
    show ?thesis by (auto simp add: extract_attitude_features_def Let_def)
  next
    case ok: False
    then have "fst (tf_roll df) = Numeric \<or> length (snd (tf_roll df)) < 2"
      and "fst (tf_pitch df) = Numeric \<or> length (snd (tf_pitch df)) < 2"
      and "fst (tf_yaw df) = Numeric \<or> length (snd (tf_yaw df)) < 2"
      by (cases "fst (tf_roll df)"; cases "fst (tf_pitch df)";
          cases "fst (tf_yaw df)"; auto simp add: len)+
    from diff_rates3_defined [OF this, of "tf_time_delta df"] True ok
    show ?thesis by (auto simp add: extract_attitude_features_def Let_def)
  qed
qed

lemma gps_speed_columns_outcome:
  assumes "telemetry_aligned n df" and "aligned n features"
  shows "\<exists>g. gps_speed_columns df features = Inr g \<and> aligned n g"
proof (cases "any_notna [tf_ground_speed df]")
  case False
  with assms(2) show ?thesis by (simp add: gps_speed_columns_def)
next
  case True
  note len = telemetry_aligned_lengths [OF assms(1)]
  from telemetry_aligned_guard(1) [OF assms(1) True]
  have "diff_rate (tf_ground_speed df) (tf_time_delta df) =
      Inr (fst (tf_ground_speed df), s_div (s_diff (snd (tf_ground_speed df))) (tf_time_delta df))"
    by (simp add: diff_rate_defined)
  moreover have "aligned n (set_column
      (set_column features ''ground_speed'' (numeric (fillna_zero (tf_ground_speed df))))
      ''speed_change_rate''
      (fst (tf_ground_speed df), s_div (s_diff (snd (tf_ground_speed df))) (tf_time_delta df)))"
    using assms(2) by (intro aligned_set_column) (simp_all add: len)
  ultimately show ?thesis using True by (simp add: gps_speed_columns_def)
qed

lemma gps_altitude_columns_outcome:
  assumes "telemetry_aligned n df" and "aligned n features"
  shows "\<exists>g. gps_altitude_columns df features = Inr g \<and> aligned n g"
proof (cases "any_notna [tf_altitude df]")
  case False
  with assms(2) show ?thesis by (simp add: gps_altitude_columns_def)
next
  case True
  note len = telemetry_aligned_lengths [OF assms(1)]
  from telemetry_aligned_guard(2) [OF assms(1) True]
  have "diff_rate (tf_altitude df) (tf_time_delta df) =
      Inr (fst (tf_altitude df), s_div (s_diff (snd (tf_altitude df))) (tf_time_delta df))"
    by (simp add: diff_rate_defined)
  moreover have "aligned n (set_column
      (set_column features ''altitude'' (numeric (fillna_zero (tf_altitude df))))
      ''altitude_rate''
      (fst (tf_altitude df), s_div (s_diff (snd (tf_altitude df))) (tf_time_delta df)))"
    using assms(2) by (intro aligned_set_column) (simp_all add: len)
  ultimately show ?thesis using True by (simp add: gps_altitude_columns_def)
qed

lemma aligned_gps_speed_3d:
  assumes "aligned n features"
  shows "aligned n (gps_speed_3d features)"
proof (cases "map_of (df_columns features) ''altitude_rate''")
  case None
  with assms show ?thesis by (simp add: gps_speed_3d_def)
next
  case alt: (Some altitude_rate)
  show ?thesis
  proof (cases "map_of (df_columns features) ''ground_speed''")
    case None
    with alt assms show ?thesis by (simp add: gps_speed_3d_def)
  next
    case (Some speed)
    have "aligned n (set_column features ''speed_3d''
            (numeric (s_sqrt (s_add (s_square (snd speed)) (s_square (snd altitude_rate))))))"
      using assms aligned_column_length [OF assms alt] aligned_column_length [OF assms Some]
      by (intro aligned_set_column) simp_all
    with alt Some show ?thesis by (simp add: gps_speed_3d_def)
  qed
qed

lemma gps_distance_columns_outcome:
  assumes "telemetry_aligned n df" and "aligned n features"
  shows "\<exists>g. gps_distance_columns df features = Inr g \<and> aligned n g"
proof (cases "\<exists>(la, lo) \<in> set (zip (snd (tf_latitude df)) (snd (tf_longitude df))).
                 notna la \<and> notna lo")
  case False
  with assms(2) show ?thesis by (simp add: gps_distance_columns_def)
next
  case True
  note len = telemetry_aligned_lengths [OF assms(1)]
  from True obtain la lo where
    "(la, lo) \<in> set (zip (snd (tf_latitude df)) (snd (tf_longitude df)))" "notna la" "notna lo"
    by auto
  then have "any_notna [tf_latitude df]" and "any_notna [tf_longitude df]"
    by (auto simp add: any_notna_def dest: set_zip_leftD set_zip_rightD)
  with telemetry_aligned_guard(3,4) [OF assms(1)]
  have "fst (tf_latitude df) = Numeric" and "fst (tf_longitude df) = Numeric" by simp_all
  then have la: "column_diff (tf_latitude df) = Inr (Numeric, s_diff (snd (tf_latitude df)))"
    and lo: "column_diff (tf_longitude df) = Inr (Numeric, s_diff (snd (tf_longitude df)))"
    using column_diff_defined [of "tf_latitude df"] column_diff_defined [of "tf_longitude df"]
    by simp_all
  define dd where "dd = s_scale (s_sqrt (s_add
      (s_square (fillna_zero (Numeric, s_diff (snd (tf_latitude df)))))
      (s_square (fillna_zero (Numeric, s_diff (snd (tf_longitude df))))))) 111000"
  have "aligned n (set_column (set_column features ''distance_delta'' (numeric dd))
           ''distance_traveled'' (numeric (cumsum dd)))"
    using assms(2) by (intro aligned_set_column) (simp_all add: dd_def len)
  then show ?thesis
    using True by (simp add: gps_distance_columns_def la lo Let_def dd_def)
qed

lemma gps_outcome:
  assumes "telemetry_aligned n df"
  shows "\<exists>f. extract_gps_features df = Inr f \<and> aligned n f"
proof -
  have a0: "aligned n (frame_with_index (tf_index df))"
    using assms by (intro aligned_frame_with_index) (simp add: telemetry_aligned_def)
  from gps_speed_columns_outcome [OF assms a0] obtain f1 where
    f1: "gps_speed_columns df (frame_with_index (tf_index df)) = Inr f1" "aligned n f1"
    by blast
  from gps_altitude_columns_outcome [OF assms f1(2)] obtain f2 where
    f2: "gps_altitude_columns df f1 = Inr f2" "aligned n f2"
    by blast
  from gps_distance_columns_outcome [OF assms aligned_gps_speed_3d [OF f2(2)]] obtain f where
    "gps_distance_columns df (gps_speed_3d f2) = Inr f" "aligned n f"
    by blast
  with f1 f2 show ?thesis by (simp add: extract_gps_features_def)
qed

lemma battery_voltage_columns_outcome:
  assumes "telemetry_aligned n df" and "aligned n features"
  shows "\<exists>g. battery_voltage_columns df features = Inr g \<and> aligned n g"
proof (cases "any_notna [tf_battery_voltage df]")
  case False
  with assms(2) show ?thesis by (simp add: battery_voltage_columns_def)
next
  case True
  note len = telemetry_aligned_lengths [OF assms(1)]
  from telemetry_aligned_guard(5) [OF assms(1) True]
  have "diff_rate (tf_battery_voltage df) (tf_time_delta df) =
      Inr (fst (tf_battery_voltage df),
           s_div (s_diff (snd (tf_battery_voltage df))) (tf_time_delta df))"
    by (simp add: diff_rate_defined)
  moreover have "aligned n (set_column
      (set_column features ''battery_voltage'' (numeric (ffill (snd (tf_battery_voltage df)))))
      ''voltage_drop_rate''
      (fst (tf_battery_voltage df),
       s_div (s_diff (snd (tf_battery_voltage df))) (tf_time_delta df)))"
    using assms(2) by (intro aligned_set_column) (simp_all add: len)
  ultimately show ?thesis using True by (simp add: battery_voltage_columns_def)
qed

lemma aligned_battery_current_columns:
  assumes "telemetry_aligned n df" and "aligned n features"
  shows "aligned n (battery_current_columns df features)"
proof (cases "any_notna [tf_battery_current df]")
  case False
  with assms(2) show ?thesis by (simp add: battery_current_columns_def)
next
  case True
  note len = telemetry_aligned_lengths [OF assms(1)]
  define a where "a = set_column features ''battery_current''
      (numeric (fillna_zero (tf_battery_current df)))"
  have aa: "aligned n a"
    unfolding a_def using assms(2) by (intro aligned_set_column) (simp_all add: len)
  show ?thesis
  proof (cases "map_of (df_columns a) ''battery_voltage''")
    case None
    with True aa show ?thesis by (simp add: battery_current_columns_def Let_def a_def)
  next
    case (Some voltage)
    have "aligned n (set_column a ''power_watts''
            (numeric (s_mul (snd voltage) (fillna_zero (tf_battery_current df)))))"
      using aa aligned_column_length [OF aa Some]
      by (intro aligned_set_column) (simp_all add: len)
    with True Some show ?thesis by (simp add: battery_current_columns_def Let_def a_def)
  qed
qed

lemma aligned_battery_remaining_column:
  assumes "telemetry_aligned n df" and "aligned n features"
  shows "aligned n (battery_remaining_column df features)"
  unfolding battery_remaining_column_def using assms(2)
  by (intro aligned_if aligned_set_column)
     (simp_all add: telemetry_aligned_lengths [OF assms(1)])

lemma battery_outcome:
  assumes "telemetry_aligned n df"
  shows "\<exists>f. extract_battery_features df = Inr f \<and> aligned n f"
proof -
  have a0: "aligned n (frame_with_index (tf_index df))"
    using assms by (intro aligned_frame_with_index) (simp add: telemetry_aligned_def)
  from battery_voltage_columns_outcome [OF assms a0] obtain f1 where
    f1: "battery_voltage_columns df (frame_with_index (tf_index df)) = Inr f1" "aligned n f1"
    by blast
  have "aligned n (battery_remaining_column df (battery_current_columns df f1))"
    using assms f1(2)
    by (intro aligned_battery_remaining_column aligned_battery_current_columns)
  with f1 show ?thesis by (simp add: extract_battery_features_def)
qed

lemma aligned_motion:
  "telemetry_aligned n df \<Longrightarrow> aligned n (extract_motion_features sensors df)"
  unfolding extract_motion_features_def Let_def
  by (intro aligned_if aligned_set_column aligned_frame_with_index)
     (simp_all add: telemetry_aligned_def column_aligned_def)

lemma aligned_stage:
  assumes "aligned n f" and "\<And>g. r = Inr g \<Longrightarrow> aligned n g"
    and "(if b then bind_err r (\<lambda>g. Inr (concat_axis1 f g)) else Inr f) = Inr h"
  shows "aligned n h"
  using assms by (cases b) (auto simp add: bind_err_Inr_iff intro: aligned_concat_axis1)

lemma stage_returns:
  "r = Inr g \<Longrightarrow>
   \<exists>h. (if b then bind_err r (\<lambda>g. Inr (concat_axis1 f g)) else Inr f) = Inr h"
  by simp

lemma aligned_derived:
  assumes "telemetry_aligned n df" and "derived_features config df = Inr f"
  shows "aligned n f"
proof -
  define sensors where "sensors = detect_available_sensors df"
  define f1 where "f1 = concat_axis1 empty_frame (extract_time_features df)"
  have a1: "aligned n f1"
    unfolding f1_def using assms(1) by (intro aligned_concat_empty aligned_time)
  from assms(2) obtain f2 f3 f4 f5 where
    s2: "(if ''imu'' \<in> sensors
          then bind_err (extract_imu_features config df) (\<lambda>g. Inr (concat_axis1 f1 g))
          else Inr f1) = Inr f2"
    and s3: "(if ''gps'' \<in> sensors
          then bind_err (extract_gps_features df) (\<lambda>g. Inr (concat_axis1 f2 g))
          else Inr f2) = Inr f3"
    and s4: "(if ''attitude'' \<in> sensors
          then bind_err (extract_attitude_features config df) (\<lambda>g. Inr (concat_axis1 f3 g))
          else Inr f3) = Inr f4"
    and s5: "(if ''battery'' \<in> sensors
          then bind_err (extract_battery_features df) (\<lambda>g. Inr (concat_axis1 f4 g))
          else Inr f4) = Inr f5"
    and f: "f = concat_axis1 f5 (extract_motion_features sensors df)"
    unfolding derived_features_def Let_def bind_err_Inr_iff sensors_def f1_def
    by blast
  have a2: "aligned n f2"
    using a1 aligned_imu [OF assms(1)] s2 by (rule aligned_stage)
  have a3: "aligned n f3"
  proof (rule aligned_stage [OF a2 _ s3])
    fix g assume "extract_gps_features df = Inr g"
    with gps_outcome [OF assms(1)] show "aligned n g" by auto
  qed
  have a4: "aligned n f4"
    using a3 aligned_attitude [OF assms(1)] s4 by (rule aligned_stage)
  have a5: "aligned n f5"
  proof (rule aligned_stage [OF a4 _ s5])
    fix g assume "extract_battery_features df = Inr g"
    with battery_outcome [OF assms(1)] show "aligned n g" by auto
  qed
  show ?thesis
    unfolding f using assms(1) a5 by (intro aligned_concat_axis1 aligned_motion)
qed

lemma derived_outcome:
  assumes "telemetry_aligned n df"
  shows "(derivatives_defined config df \<longrightarrow> (\<exists>f. derived_features config df = Inr f)) \<and>
         (\<not> derivatives_defined config df \<longrightarrow>
            derived_features config df = Inl none_minus_none)"
proof -
  define sensors where "sensors = detect_available_sensors df"
  define f1 where "f1 = concat_axis1 empty_frame (extract_time_features df)"
  define A where "A = (if ''imu'' \<in> sensors
          then bind_err (extract_imu_features config df) (\<lambda>g. Inr (concat_axis1 f1 g))
          else Inr f1)"
  define G where "G = (\<lambda>f2. if ''gps'' \<in> sensors
          then bind_err (extract_gps_features df) (\<lambda>g. Inr (concat_axis1 f2 g))
          else Inr f2)"
  define T where "T = (\<lambda>f3. if ''attitude'' \<in> sensors
          then bind_err (extract_attitude_features config df) (\<lambda>g. Inr (concat_axis1 f3 g))
          else Inr f3)"
  define B where "B = (\<lambda>f4. if ''battery'' \<in> sensors
          then bind_err (extract_battery_features df) (\<lambda>g. Inr (concat_axis1 f4 g))
          else Inr f4)"
  define M where "M = (\<lambda>f5. concat_axis1 f5 (extract_motion_features sensors df))"
  define imu_bad where "imu_bad \<longleftrightarrow> ''imu'' \<in> sensors \<and> include_derivative config \<and> 2 \<le> n \<and>
      Object \<in> fst ` set [tf_accel_x df, tf_accel_y df, tf_accel_z df]"
  define att_bad where "att_bad \<longleftrightarrow> ''attitude'' \<in> sensors \<and> include_derivative config \<and>
      2 \<le> n \<and> Object \<in> fst ` set [tf_roll df, tf_pitch df, tf_yaw df]"
  have eq: "derived_features config df =
      bind_err A (\<lambda>f2. bind_err (G f2) (\<lambda>f3. bind_err (T f3) (\<lambda>f4. bind_err (B f4)
        (\<lambda>f5. Inr (M f5)))))"
    unfolding derived_features_def Let_def A_def G_def T_def B_def M_def sensors_def f1_def
    by simp
  have n: "length (tf_index df) = n"
    using telemetry_aligned_lengths(1) [OF assms] by simp
  have dd: "derivatives_defined config df \<longleftrightarrow> \<not> imu_bad \<and> \<not> att_bad"
    unfolding derivatives_defined_def imu_bad_def att_bad_def sensors_def n
    by (cases "2 \<le> n") auto
  have A_bad: "A = Inl none_minus_none" if imu_bad
  proof -
    from that imu_outcome [OF assms, of config]
    have "extract_imu_features config df = Inl none_minus_none"
      unfolding imu_bad_def by blast
    with that show ?thesis by (simp add: A_def imu_bad_def)
  qed
  have A_ok: "\<exists>f2. A = Inr f2" if "\<not> imu_bad"
  proof (cases "''imu'' \<in> sensors")
    case False
    then show ?thesis by (simp add: A_def)
  next
    case True
    with that imu_outcome [OF assms, of config]
    obtain g where "extract_imu_features config df = Inr g"
      unfolding imu_bad_def by (cases "2 \<le> n") auto
    then show ?thesis unfolding A_def by (rule stage_returns)
  qed
  have G_ok: "\<exists>f3. G f2 = Inr f3" for f2
  proof -
    from gps_outcome [OF assms] obtain g where "extract_gps_features df = Inr g" by blast
    then show ?thesis unfolding G_def by (rule stage_returns)
  qed
  have T_bad: "T f3 = Inl none_minus_none" if att_bad for f3
  proof -
    from that attitude_outcome [OF assms, of config]
    have "extract_attitude_features config df = Inl none_minus_none"
      unfolding att_bad_def by blast
    with that show ?thesis by (simp add: T_def att_bad_def)
  qed
  have T_ok: "\<exists>f4. T f3 = Inr f4" if "\<not> att_bad" for f3
  proof (cases "''attitude'' \<in> sensors")
    case False
    then show ?thesis by (simp add: T_def)
  next
    case True
    with that attitude_outcome [OF assms, of config]
    obtain g where "extract_attitude_features config df = Inr g"
      unfolding att_bad_def by (cases "2 \<le> n") auto
    then show ?thesis unfolding T_def by (rule stage_returns)
  qed
  have B_ok: "\<exists>f5. B f4 = Inr f5" for f4
  proof -
    from battery_outcome [OF assms] obtain g where "extract_battery_features df = Inr g"
      by blast
    then show ?thesis unfolding B_def by (rule stage_returns)
  qed
  show ?thesis
  proof (cases imu_bad)
    case True
    with A_bad dd eq show ?thesis by simp
  next
    case False
    from A_ok [OF False] obtain f2 where f2: "A = Inr f2" ..
    from G_ok obtain f3 where f3: "G f2 = Inr f3" ..
    show ?thesis
    proof (cases att_bad)
      case True
      with T_bad [of f3] dd eq f2 f3 show ?thesis by simp
    next
      case att: False
      from T_ok [OF att] obtain f4 where f4: "T f3 = Inr f4" ..
      from B_ok obtain f5 where f5: "B f4 = Inr f5" ..
      from False att dd eq f2 f3 f4 f5 show ?thesis by simp
    qed
  qed
qed

lemma rolling_columns_aligned:
  "aligned n features \<Longrightarrow> aligned n stat \<Longrightarrow>
   rolling_columns w features stat cols = Inr r \<Longrightarrow> aligned n r"
proof (induction cols arbitrary: stat)
  case Nil
  then show ?case by simp
next
  case (Cons col cols)
  show ?case
  proof (cases "map_of (df_columns features) col")
    case None
    with Cons show ?thesis by simp
  next
    case (Some c)
    with Cons.prems(3) obtain m sd mx where
      m: "rolling w 1 agg_mean (snd c) = Inr m" and sd: "rolling w 1 agg_std (snd c) = Inr sd"
      and mx: "rolling w 1 agg_max (snd c) = Inr mx"
      and rest: "rolling_columns w features
         (set_column
            (set_column (set_column stat (col @ ''_rolling_mean'') (numeric m))
               (col @ ''_rolling_std'') (numeric sd))
            (col @ ''_rolling_max'') (numeric mx)) cols = Inr r"
      by (auto simp add: bind_err_Inr_iff)
    have len: "length (snd c) = n" using Cons.prems(1) Some by (rule aligned_column_length)
    have "aligned n (set_column
            (set_column (set_column stat (col @ ''_rolling_mean'') (numeric m))
               (col @ ''_rolling_std'') (numeric sd))
            (col @ ''_rolling_max'') (numeric mx))"
      using Cons.prems(2) rolling_length [OF m] rolling_length [OF sd] rolling_length [OF mx] len
      by (intro aligned_set_column) simp_all
    then show ?thesis using Cons.IH Cons.prems(1) rest by blast
  qed
qed

lemma rolling_columns_returns:
  "1 \<le> w \<Longrightarrow> \<exists>r. rolling_columns w features stat cols = Inr r"
proof (induction cols arbitrary: stat)
  case Nil
  then show ?case by simp
next
  case (Cons col cols)
  then show ?case
    by (cases "map_of (df_columns features) col") (simp_all add: rolling_def)
qed

lemma rolling_columns_rejects:
  assumes "w < 1" and "cols \<noteq> []" and "set cols \<subseteq> set (column_names features)"
  shows "\<exists>msg. rolling_columns w features stat cols = Inl (ValueError msg)"
proof -
  from assms(2) obtain col rest where cols: "cols = col # rest" by (cases cols) auto
  with assms(3) have "col \<in> fst ` set (df_columns features)"
    by (simp add: column_names_def)
  then obtain c where c: "map_of (df_columns features) col = Some c"
    by (metis map_of_eq_None_iff not_Some_eq)
  from rolling_rejects [OF assms(1)] obtain msg where
    "rolling w 1 agg_mean (snd c) = Inl (ValueError msg)" by blast
  with cols c show ?thesis by simp
qed

lemma numeric_columns_subset: "set (numeric_columns f) \<subseteq> set (column_names f)"
  by (auto simp add: numeric_columns_def column_names_def)

lemma key_columns_subset: "set (take 10 (key_columns f)) \<subseteq> set (column_names f)"
proof -
  have "set (take 10 (key_columns f)) \<subseteq> set (key_columns f)" by (rule set_take_subset)
  also have "\<dots> \<subseteq> set (numeric_columns f)" by (auto simp add: key_columns_def)
  also have "\<dots> \<subseteq> set (column_names f)" by (rule numeric_columns_subset)
  finally show ?thesis .
qed

lemma statistical_aligned:
  "aligned n features \<Longrightarrow> extract_statistical_features config features = Inr stat \<Longrightarrow>
   aligned n stat"
  unfolding extract_statistical_features_def Let_def
  by (erule rolling_columns_aligned [rotated 2])
     (simp_all add: aligned_def frame_with_index_def)

lemma statistical_returns:
  "1 \<le> rolling_window_size config \<Longrightarrow>
   \<exists>stat. extract_statistical_features config features = Inr stat"
  unfolding extract_statistical_features_def Let_def by (rule rolling_columns_returns)

lemma statistical_no_key_columns:
  "key_columns features = [] \<Longrightarrow>
   extract_statistical_features config features = Inr (frame_with_index (df_index features))"
  by (simp add: extract_statistical_features_def)

lemma statistical_rejects:
  assumes "rolling_window_size config < 1" and "key_columns features \<noteq> []"
  shows "\<exists>msg. extract_statistical_features config features = Inl (ValueError msg)"
  unfolding extract_statistical_features_def Let_def
  using assms by (intro rolling_columns_rejects key_columns_subset) simp_all

lemma aligned_handle_missing_values:
  "aligned n f \<Longrightarrow> aligned n (handle_missing_values config f)"
  unfolding handle_missing_values_def Let_def
  by (intro aligned_map_columns aligned_if) (simp_all add: split_beta)

lemma extract_features_aligned:
  assumes "extract_features config records = Inr f"
  shows "aligned (length records) f"
proof -
  from assms obtain df features where df: "records_to_dataframe records = Inr df"
    and d: "derived_features config df = Inr features"
    and r: "(if include_statistical config
       then bind_err (extract_statistical_features config features) (\<lambda>stat.
              Inr (handle_missing_values config (concat_axis1 features stat)))
       else Inr (handle_missing_values config features)) = Inr f"
    unfolding extract_features_def bind_err_Inr_iff by blast
  from df have ta: "telemetry_aligned (length records) df"
    by (rule records_to_dataframe_aligned)
  from ta d have a: "aligned (length records) features" by (rule aligned_derived)
  show ?thesis
  proof (cases "include_statistical config")
    case True
    with r obtain stat where
      st: "extract_statistical_features config features = Inr stat"
      and f: "f = handle_missing_values config (concat_axis1 features stat)"
      by (auto simp add: bind_err_Inr_iff)
    from a st have "aligned (length records) stat" by (rule statistical_aligned)
    with a show ?thesis unfolding f
      by (intro aligned_handle_missing_values aligned_concat_axis1)
  next
    case False
    with r have "f = handle_missing_values config features" by simp
    with a show ?thesis by (simp add: aligned_handle_missing_values)
  qed
qed

lemma extract_features_returns:
  assumes "records_to_dataframe records = Inr df"
    and "derivatives_defined config df"
    and "\<not> include_statistical config \<or> 1 \<le> rolling_window_size config"
  shows "\<exists>f. extract_features config records = Inr f"
proof -
  from assms(1) have ta: "telemetry_aligned (length records) df"
    by (rule records_to_dataframe_aligned)
  from derived_outcome [OF ta, of config] assms(2) obtain features where
    d: "derived_features config df = Inr features" by blast
  show ?thesis
  proof (cases "include_statistical config")
    case True
    with assms(3) have "1 \<le> rolling_window_size config" by simp
    from statistical_returns [OF this] obtain stat where
      "extract_statistical_features config features = Inr stat" ..
    with assms(1) d True show ?thesis by (simp add: extract_features_def)
  next
    case False
    with assms(1) d show ?thesis by (simp add: extract_features_def)
  qed
qed

lemma extract_features_undefined_derivative:
  assumes "records_to_dataframe records = Inr df" and "\<not> derivatives_defined config df"
  shows "extract_features config records = Inl none_minus_none"
proof -
  from assms(1) have ta: "telemetry_aligned (length records) df"
    by (rule records_to_dataframe_aligned)
  from derived_outcome [OF ta, of config] assms(2)
  have "derived_features config df = Inl none_minus_none" by blast
  with assms(1) show ?thesis by (simp add: extract_features_def)
qed

lemma numeric_columns_set:
  "set (numeric_columns f) = {k. \<exists>cells. (k, Numeric, cells) \<in> set (df_columns f)}"
  by (force simp add: numeric_columns_def)

lemma numeric_columns_concat_axis1:
  "numeric_columns (concat_axis1 a b) = numeric_columns a @ numeric_columns b"
  by (simp add: numeric_columns_def concat_axis1_def Let_def filter_map comp_def
      case_prod_unfold)

lemma numeric_columns_frame_with_index [simp]: "numeric_columns (frame_with_index idx) = []"
  by (simp add: numeric_columns_def frame_with_index_def)

lemma numeric_columns_empty_frame [simp]: "numeric_columns empty_frame = []"
  by (simp add: numeric_columns_def empty_frame_def)

lemma column_names_frame_with_index [simp]: "column_names (frame_with_index idx) = []"
  by (simp add: column_names_def frame_with_index_def)

lemma numeric_set_column_iff:
  "name \<in> set (numeric_columns (set_column f k c)) \<longleftrightarrow>
     (if name = k then fst c = Numeric else name \<in> set (numeric_columns f))"
proof (cases "k \<in> set (column_names f)")
  case False
  then have "(k, v) \<notin> set (df_columns f)" for v
    by (force simp add: column_names_def)
  with False show ?thesis
    by (cases c) (auto simp add: numeric_columns_set set_column_def)
next
  case True
  then obtain c' where "(k, c') \<in> set (df_columns f)"
    by (auto simp add: column_names_def)
  have cols: "set (df_columns (set_column f k c)) =
      (\<lambda>p. if fst p = k then (k, c) else p) ` set (df_columns f)"
    using True by (auto simp add: set_column_def case_prod_unfold)
  show ?thesis
  proof (cases "name = k")
    case same: True
    have "(\<exists>cells. (k, Numeric, cells) \<in> (\<lambda>p. if fst p = k then (k, c) else p) `
             set (df_columns f)) \<longleftrightarrow> fst c = Numeric"
    proof
      assume "\<exists>cells. (k, Numeric, cells) \<in> (\<lambda>p. if fst p = k then (k, c) else p) `
             set (df_columns f)"
      then obtain cells p where "p \<in> set (df_columns f)"
        and "(k, Numeric, cells) = (if fst p = k then (k, c) else p)"
        by auto
      then show "fst c = Numeric" by (cases "fst p = k") auto
    next
      assume n: "fst c = Numeric"
      from \<open>(k, c') \<in> set (df_columns f)\<close>
      have "(k, c) \<in> (\<lambda>p. if fst p = k then (k, c) else p) ` set (df_columns f)"
        by force
      with n show "\<exists>cells. (k, Numeric, cells) \<in> (\<lambda>p. if fst p = k then (k, c) else p) `
             set (df_columns f)"
        by (cases c) auto
    qed
    with same show ?thesis by (simp add: numeric_columns_set cols)
  next
    case other: False
    have "(name, Numeric, cells) \<in> (\<lambda>p. if fst p = k then (k, c) else p) `
             set (df_columns f) \<longleftrightarrow> (name, Numeric, cells) \<in> set (df_columns f)" for cells
      using other by (auto simp add: image_iff)
    with other show ?thesis by (simp add: numeric_columns_set cols)
  qed
qed

lemma numeric_columns_append:
  "name \<notin> set (column_names f) \<Longrightarrow>
   numeric_columns (set_column f name (numeric xs)) = numeric_columns f @ [name]"
  by (simp add: set_column_def numeric_columns_def numeric_def)

lemma column_names_append:
  "name \<notin> set (column_names f) \<Longrightarrow>
   column_names (set_column f name c) = column_names f @ [name]"
  by (simp add: set_column_def column_names_def)

lemma g_force_in_imu:
  assumes "extract_imu_features config df = Inr g"
  shows "''g_force'' \<in> set (numeric_columns g)"
  using assms
  by (auto simp add: extract_imu_features_def Let_def bind_err_Inr_iff numeric_set_column_iff
      numeric_def split: if_splits)

lemma lower_g_force: "lower ''g_force'' = ''g_force''"
  by (simp add: lower_def char_lower_def)

lemma g_force_is_key:
  assumes "''g_force'' \<in> set (numeric_columns f)"
  shows "key_columns f \<noteq> []"
proof -
  have "contains (lower ''g_force'') ''g_force''"
    by (simp add: lower_g_force)
  with assms have "''g_force'' \<in> set (key_columns f)"
    by (simp add: key_columns_def)
  then show ?thesis by auto
qed

lemma derived_stages:
  assumes "derived_features config df = Inr f"
  shows "\<exists>f2 f3 f4 f5.
     (if ''imu'' \<in> detect_available_sensors df
      then bind_err (extract_imu_features config df)
             (\<lambda>g. Inr (concat_axis1 (concat_axis1 empty_frame (extract_time_features df)) g))
      else Inr (concat_axis1 empty_frame (extract_time_features df))) = Inr f2 \<and>
     (if ''gps'' \<in> detect_available_sensors df
      then bind_err (extract_gps_features df) (\<lambda>g. Inr (concat_axis1 f2 g))
      else Inr f2) = Inr f3 \<and>
     (if ''attitude'' \<in> detect_available_sensors df
      then bind_err (extract_attitude_features config df) (\<lambda>g. Inr (concat_axis1 f3 g))
      else Inr f3) = Inr f4 \<and>
     (if ''battery'' \<in> detect_available_sensors df
      then bind_err (extract_battery_features df) (\<lambda>g. Inr (concat_axis1 f4 g))
      else Inr f4) = Inr f5 \<and>
     f = concat_axis1 f5 (extract_motion_features (detect_available_sensors df) df)"
  using assms unfolding derived_features_def Let_def bind_err_Inr_iff by blast

lemma numeric_stage:
  assumes "name \<in> set (numeric_columns f)"
    and "(if b then bind_err r (\<lambda>g. Inr (concat_axis1 f g)) else Inr f) = Inr h"
  shows "name \<in> set (numeric_columns h)"
  using assms by (cases b) (auto simp add: bind_err_Inr_iff numeric_columns_concat_axis1)

lemma imu_key_columns:
  assumes "''imu'' \<in> detect_available_sensors df"
    and "derived_features config df = Inr features"
  shows "key_columns features \<noteq> []"
proof -
  from derived_stages [OF assms(2)] obtain f2 f3 f4 f5 where
    s2: "(if ''imu'' \<in> detect_available_sensors df
      then bind_err (extract_imu_features config df)
             (\<lambda>g. Inr (concat_axis1 (concat_axis1 empty_frame (extract_time_features df)) g))
      else Inr (concat_axis1 empty_frame (extract_time_features df))) = Inr f2"
    and s3: "(if ''gps'' \<in> detect_available_sensors df
      then bind_err (extract_gps_features df) (\<lambda>g. Inr (concat_axis1 f2 g))
      else Inr f2) = Inr f3"
    and s4: "(if ''attitude'' \<in> detect_available_sensors df
      then bind_err (extract_attitude_features config df) (\<lambda>g. Inr (concat_axis1 f3 g))
      else Inr f3) = Inr f4"
    and s5: "(if ''battery'' \<in> detect_available_sensors df
      then bind_err (extract_battery_features df) (\<lambda>g. Inr (concat_axis1 f4 g))
      else Inr f4) = Inr f5"
    and f: "features = concat_axis1 f5 (extract_motion_features (detect_available_sensors df) df)"
    by blast
  from s2 assms(1) obtain g where g: "extract_imu_features config df = Inr g"
    and f2: "f2 = concat_axis1 (concat_axis1 empty_frame (extract_time_features df)) g"
    by (auto simp add: bind_err_Inr_iff)
  from g_force_in_imu [OF g] have "''g_force'' \<in> set (numeric_columns f2)"
    by (simp add: f2 numeric_columns_concat_axis1)
  then have "''g_force'' \<in> set (numeric_columns f3)" using s3 by (rule numeric_stage)
  then have "''g_force'' \<in> set (numeric_columns f4)" using s4 by (rule numeric_stage)
  then have "''g_force'' \<in> set (numeric_columns f5)" using s5 by (rule numeric_stage)
  then have "''g_force'' \<in> set (numeric_columns features)"
    by (simp add: f numeric_columns_concat_axis1)
  then show ?thesis by (rule g_force_is_key)
qed

lemma time_names_not_key:
  "filter (\<lambda>col. \<exists>keyword \<in> set [''g_force'', ''rotation'', ''speed'', ''altitude'',
                                      ''vibration'', ''jerk'']. contains (lower col) keyword)
     [''sample_rate_hz'', ''time_since_start'', ''sequence_index''] = []"
  by (simp add: lower_def char_lower_def)

lemma numeric_columns_time:
  "tf_timestamp df \<noteq> [] \<Longrightarrow>
   numeric_columns (extract_time_features df) =
     [''sample_rate_hz'', ''time_since_start'', ''sequence_index'']"
  by (cases "tf_timestamp df")
     (simp_all add: extract_time_features_def Let_def column_names_append
        numeric_columns_append)

lemma blank_frame:
  "records_to_dataframe [blank_record t] = Inr df \<Longrightarrow>
   detect_available_sensors df = {} \<and> \<not> any_notna [tf_ground_speed df] \<and>
   tf_timestamp df \<noteq> []"
  by (auto simp add: records_to_dataframe_def column_of_def blank_record_def of_optional_def
      Let_def detect_available_sensors_def count_notna_def any_notna_def notna_def)

lemma blank_key_columns:
  assumes "records_to_dataframe [blank_record t] = Inr df"
  shows "\<exists>features. derived_features config df = Inr features \<and> key_columns features = []"
proof -
  from blank_frame [OF assms] have s: "detect_available_sensors df = {}"
    and g: "\<not> any_notna [tf_ground_speed df]" and ts: "tf_timestamp df \<noteq> []"
    by simp_all
  define features where "features =
    concat_axis1 (concat_axis1 empty_frame (extract_time_features df))
      (extract_motion_features {} df)"
  have d: "derived_features config df = Inr features"
    by (simp add: derived_features_def Let_def s features_def)
  have "numeric_columns features =
     [''sample_rate_hz'', ''time_since_start'', ''sequence_index'']"
    using g by (simp add: features_def numeric_columns_concat_axis1
        numeric_columns_time [OF ts] extract_motion_features_def)
  then have "key_columns features = []"
    by (simp only: key_columns_def time_names_not_key)
  with d show ?thesis by blast
qed

lemma imu_frame:
  "records_to_dataframe [imu_record t, imu_record u] = Inr df \<Longrightarrow>
   ''imu'' \<in> detect_available_sensors df \<and> derivatives_defined config df"
  by (auto simp add: records_to_dataframe_def column_of_def imu_record_def blank_record_def
      of_optional_def Let_def detect_available_sensors_def derivatives_defined_def
      count_notna_def notna_def)


lemma yaw_frame:
  "records_to_dataframe [yaw_record t, yaw_record u] = Inr df \<Longrightarrow>
   include_derivative config \<Longrightarrow>
   ''attitude'' \<in> detect_available_sensors df \<and> fst (tf_roll df) = Object \<and>
   \<not> derivatives_defined config df"
  by (auto simp add: records_to_dataframe_def column_of_def yaw_record_def blank_record_def
      of_optional_def Let_def detect_available_sensors_def derivatives_defined_def
      count_notna_def notna_def)

lemma extract_features_no_key_columns:
  assumes "records_to_dataframe records = Inr df"
    and "derived_features config df = Inr features"
    and "\<not> include_statistical config \<or> key_columns features = []"
  shows "\<exists>f. extract_features config records = Inr f"
  using assms by (auto simp add: extract_features_def statistical_no_key_columns)

lemma extract_features_rejects:
  assumes "records_to_dataframe records = Inr df"
    and "derived_features config df = Inr features"
    and "rolling_window_size config < 1"
    and "include_statistical config"
    and "key_columns features \<noteq> []"
  shows "\<exists>msg. extract_features config records = Inl (ValueError msg)"
proof -
  from statistical_rejects [OF assms(3,5)] obtain msg where
    "extract_statistical_features config features = Inl (ValueError msg)"
    by blast
  with assms(1,2,4) show ?thesis by (simp add: extract_features_def)
qed


text \<open>
  Claim C5, as stated, fails: with a rolling-window size of 0 the extraction returns a
  table for a record with no sensor data (no column is a key column, so no rolling window
  is ever built), and also for records with acceleration data once the rolling statistics
  are switched off.
\<close>

theorem window_below_one_accepted_counterexample:
  "rolling_window_size zero_window_config < 1 \<and>
   include_statistical zero_window_config \<and>
   \<not> isl (extract_features zero_window_config [blank_record 0]) \<and>
   \<not> isl (extract_features (zero_window_config\<lparr> include_statistical := False \<rparr>)
            [imu_record 0, imu_record 1000000])"
proof -
  obtain df where df: "records_to_dataframe [blank_record 0] = Inr df"
    using records_to_dataframe_returns [of "[blank_record 0]"] by auto
  from blank_key_columns [OF df, of zero_window_config] obtain features where
    d: "derived_features zero_window_config df = Inr features"
    and k: "key_columns features = []"
    by blast
  from extract_features_no_key_columns [OF df d] k
  have a: "\<not> isl (extract_features zero_window_config [blank_record 0])" by auto
  obtain df' where df': "records_to_dataframe [imu_record 0, imu_record 1000000] = Inr df'"
    using records_to_dataframe_returns [of "[imu_record 0, imu_record 1000000]"] by auto
  from imu_frame [OF df']
  have "derivatives_defined (zero_window_config\<lparr> include_statistical := False \<rparr>) df'"
    by blast
  from extract_features_returns [OF df' this]
  have b: "\<not> isl (extract_features (zero_window_config\<lparr> include_statistical := False \<rparr>)
            [imu_record 0, imu_record 1000000])" by auto
  have c: "rolling_window_size zero_window_config < 1 \<and> include_statistical zero_window_config"
    by (simp add: zero_window_config_def FeatureConfig_default_def)
  from a b c show ?thesis by blast
qed

text \<open>
  Claim C5, amended: the extractor does not validate the window size and has no
  ConfigError; a size below 1 makes the extraction fail only where the rolling window is
  built. With such a size, an empty batch fails with KeyError. A non-empty batch fails
  with TypeError, before the window is read, when a derivative of a detected family meets
  a column that is \<^verbatim>\<open>None\<close> in every record of a batch of two or more records; otherwise
  the derived features are computed, and the batch fails with the ValueError of the
  rolling window when the rolling statistics are enabled and the derived features have a
  numeric key column (as they have whenever an IMU is detected), and else returns a table
  with one row per record.
\<close>

theorem window_below_one:
  assumes "rolling_window_size config < 1"
  shows "(records = [] \<longrightarrow> extract_features config records = Inl (KeyError ''timestamp'')) \<and>
         (\<forall>df. records_to_dataframe records = Inr df \<longrightarrow>
            (\<not> derivatives_defined config df \<longrightarrow>
               (\<exists>msg. extract_features config records = Inl (TypeError msg))) \<and>
            (derivatives_defined config df \<longrightarrow>
               (\<exists>features. derived_features config df = Inr features)) \<and>
            (\<forall>features. derived_features config df = Inr features \<longrightarrow>
               (include_statistical config \<and> key_columns features \<noteq> [] \<longrightarrow>
                  (\<exists>msg. extract_features config records = Inl (ValueError msg))) \<and>
               (\<not> include_statistical config \<or> key_columns features = [] \<longrightarrow>
                  (\<exists>f. extract_features config records = Inr f \<and>
                       nrows f = length records)) \<and>
               (''imu'' \<in> detect_available_sensors df \<longrightarrow> key_columns features \<noteq> [])))"
proof (intro conjI allI impI)
  assume "records = []"
  then show "extract_features config records = Inl (KeyError ''timestamp'')"
    by (simp add: extract_features_def records_to_dataframe_def)
next
  fix df
  assume "records_to_dataframe records = Inr df" and "\<not> derivatives_defined config df"
  then have "extract_features config records = Inl none_minus_none"
    by (rule extract_features_undefined_derivative)
  then show "\<exists>msg. extract_features config records = Inl (TypeError msg)"
    by (simp add: none_minus_none_def)
next
  fix df
  assume df: "records_to_dataframe records = Inr df" and dd: "derivatives_defined config df"
  from df have "telemetry_aligned (length records) df" by (rule records_to_dataframe_aligned)
  from derived_outcome [OF this, of config] dd
  show "\<exists>features. derived_features config df = Inr features" by blast
next
  fix df features
  assume df: "records_to_dataframe records = Inr df"
    and d: "derived_features config df = Inr features"
    and k: "include_statistical config \<and> key_columns features \<noteq> []"
  with assms show "\<exists>msg. extract_features config records = Inl (ValueError msg)"
    by (intro extract_features_rejects [of records df config features]) simp_all
next
  fix df features
  assume df: "records_to_dataframe records = Inr df"
    and d: "derived_features config df = Inr features"
    and k: "\<not> include_statistical config \<or> key_columns features = []"
  from extract_features_no_key_columns [OF df d k] obtain f where
    f: "extract_features config records = Inr f" ..
  then have "nrows f = length records"
    by (intro aligned_nrows extract_features_aligned)
  with f show "\<exists>f. extract_features config records = Inr f \<and> nrows f = length records"
    by blast
next
  fix df features
  assume "''imu'' \<in> detect_available_sensors df"
    and "derived_features config df = Inr features"
  then show "key_columns features \<noteq> []"
    by (rule imu_key_columns)
qed

text \<open>
  Witness for C5: window size 0 with two IMU records (ValueError), with two records
  with a heading only (TypeError), with one record without sensor data (a table of one
  row) and with the empty batch (KeyError).
\<close>

theorem window_below_one_witness:
  "rolling_window_size zero_window_config < 1 \<and>
   include_statistical zero_window_config \<and>
   (\<exists>df. records_to_dataframe [imu_record 0, imu_record 1000000] = Inr df \<and>
         ''imu'' \<in> detect_available_sensors df \<and> derivatives_defined zero_window_config df) \<and>
   (\<exists>msg. extract_features zero_window_config [imu_record 0, imu_record 1000000]
           = Inl (ValueError msg)) \<and>
   (\<exists>msg. extract_features zero_window_config [yaw_record 0, yaw_record 1000000]
           = Inl (TypeError msg)) \<and>
   (\<exists>f. extract_features zero_window_config [blank_record 0] = Inr f \<and> nrows f = 1) \<and>
   extract_features zero_window_config [] = Inl (KeyError ''timestamp'')"
proof -
  have c: "rolling_window_size zero_window_config < 1"
    and s: "include_statistical zero_window_config"
    and dv: "include_derivative zero_window_config"
    by (simp_all add: zero_window_config_def FeatureConfig_default_def)
  obtain df where df: "records_to_dataframe [imu_record 0, imu_record 1000000] = Inr df"
    using records_to_dataframe_returns [of "[imu_record 0, imu_record 1000000]"] by auto
  from imu_frame [OF df] have imu: "''imu'' \<in> detect_available_sensors df"
    and dd: "derivatives_defined zero_window_config df" by blast+
  note t = window_below_one [OF c, of "[imu_record 0, imu_record 1000000]"]
  from t df dd obtain features where
    d: "derived_features zero_window_config df = Inr features" by blast
  from t df d imu have "key_columns features \<noteq> []" by blast
  with t df d s have r: "\<exists>msg. extract_features zero_window_config
       [imu_record 0, imu_record 1000000] = Inl (ValueError msg)"
    by blast
  obtain dy where dy: "records_to_dataframe [yaw_record 0, yaw_record 1000000] = Inr dy"
    using records_to_dataframe_returns [of "[yaw_record 0, yaw_record 1000000]"] by auto
  from yaw_frame [OF dy dv] have "\<not> derivatives_defined zero_window_config dy" by blast
  with window_below_one [OF c, of "[yaw_record 0, yaw_record 1000000]"] dy
  have y: "\<exists>msg. extract_features zero_window_config [yaw_record 0, yaw_record 1000000]
       = Inl (TypeError msg)"
    by blast
  obtain db where db: "records_to_dataframe [blank_record 0] = Inr db"
    using records_to_dataframe_returns [of "[blank_record 0]"] by auto
  from blank_key_columns [OF db, of zero_window_config] obtain fb where
    fb: "derived_features zero_window_config db = Inr fb" and nk: "key_columns fb = []"
    by blast
  note u = window_below_one [OF c, of "[blank_record 0]"]
  from u db fb nk have "\<exists>f. extract_features zero_window_config [blank_record 0] = Inr f \<and>
      nrows f = length [blank_record 0]"
    by blast
  then have b: "\<exists>f. extract_features zero_window_config [blank_record 0] = Inr f \<and> nrows f = 1"
    by simp
  from window_below_one [OF c, of "[]"]
  have e: "extract_features zero_window_config [] = Inl (KeyError ''timestamp'')"
    by blast
  from c s df imu dd r y b e show ?thesis by blast
qed

end
